theory Spec2Isabelle
  imports Main "HOL-Library.Word"
begin

section \<open>The on-ledger verifier: contracts/sources/vortex.move\<close>

subsection \<open>Machine types\<close>

type_synonym u8 = "8 word"
type_synonym u64 = "64 word"
type_synonym u256 = "256 word"

text \<open>A ledger address is a 32-byte value; the framework's \<open>to_u256\<close> reads it as a number.\<close>

type_synonym address = "256 word"

text \<open>A Move abort carries a \<open>u64\<close> code and unwinds the whole call.\<close>

type_synonym abort_code = u64

subsection \<open>Constants\<close>

definition BN254_FIELD_MODULUS :: u256 where
  "BN254_FIELD_MODULUS =
     21888242871839275222246405745257275088548364400416034343698204186575808495617"

subsection \<open>The framework functions the module calls\<close>

text \<open>
  The module imports \<open>sui::bcs\<close> and \<open>sui::groth16\<close> and uses \<open>object\<close>, \<open>transfer\<close> and
  \<open>tx_context\<close> implicitly. Their bodies are native to the ledger, so they are parameters of the
  model: a record of functions over opaque types
  \<open>'c\<close> (Curve), \<open>'k\<close> (PreparedVerifyingKey), \<open>'i\<close> (PublicProofInputs), \<open>'p\<close> (ProofPoints),
  \<open>'u\<close> (UID) and \<open>'x\<close> (TxContext). Every framework call that returns a value may abort
  instead; \<open>Inl\<close> is the abort.
\<close>

record ('c, 'k, 'i, 'p, 'u, 'x) framework =
  sender :: "'x \<Rightarrow> address"
  to_u256 :: "address \<Rightarrow> u256"
  object_new :: "'x \<Rightarrow> 'u \<times> 'x"
  bcs_to_bytes :: "u256 \<Rightarrow> u8 list"
  bn254 :: "'c"
  prepare_verifying_key :: "'c \<Rightarrow> u8 list \<Rightarrow> abort_code + 'k"
  public_proof_inputs_from_bytes :: "u8 list \<Rightarrow> abort_code + 'i"
  proof_points_from_bytes :: "u8 list \<Rightarrow> abort_code + 'p"
  verify_groth16_proof :: "'c \<Rightarrow> 'k \<Rightarrow> 'i \<Rightarrow> 'p \<Rightarrow> abort_code + bool"

subsection \<open>Structs\<close>

record ('u, 'c, 'k) Vortex =
  id' :: 'u
  curve :: 'c
  vk :: 'k

subsection \<open>Mutative functions\<close>

text \<open>
  Line 35 of the module: the value handed to \<open>bcs::to_bytes\<close>. Move's \<open>/\<close> on \<open>u256\<close> is
  truncating unsigned division; it aborts only on a zero divisor, and the divisor here is the
  non-zero constant.
\<close>

definition recipient_value :: "('c, 'k, 'i, 'p, 'u, 'x) framework \<Rightarrow> 'x \<Rightarrow> u256" where
  "recipient_value F ctx = to_u256 F (sender F ctx) div BN254_FIELD_MODULUS"

definition recipient_field :: "('c, 'k, 'i, 'p, 'u, 'x) framework \<Rightarrow> 'x \<Rightarrow> u8 list" where
  "recipient_field F ctx = bcs_to_bytes F (recipient_value F ctx)"

text \<open>
  \<open>transact\<close> takes \<open>self\<close> and \<open>ctx\<close> by mutable reference, so the model returns both. The
  arguments of the verification call are evaluated left to right; \<open>assert!(_, 0)\<close> aborts
  with code 0 when the verification returns \<open>false\<close>.
\<close>

definition transact ::
  "('c, 'k, 'i, 'p, 'u, 'x) framework \<Rightarrow> ('u, 'c, 'k) Vortex \<Rightarrow> u8 list \<Rightarrow> 'x
     \<Rightarrow> abort_code + (('u, 'c, 'k) Vortex \<times> 'x)" where
  "transact F self proof_points ctx =
     (case public_proof_inputs_from_bytes F (recipient_field F ctx) of
        Inl e \<Rightarrow> Inl e
      | Inr inputs \<Rightarrow>
          (case proof_points_from_bytes F proof_points of
             Inl e \<Rightarrow> Inl e
           | Inr points \<Rightarrow>
               (case verify_groth16_proof F (curve self) (vk self) inputs points of
                  Inl e \<Rightarrow> Inl e
                | Inr ok \<Rightarrow> if ok then Inr (self, ctx) else Inl 0)))"

text \<open>
  What the ledger does with a call: an abort discards every effect of the operation, a normal
  return commits the values behind the mutable references.
\<close>

datatype status = Success | Aborted abort_code

definition execute_transact ::
  "('c, 'k, 'i, 'p, 'u, 'x) framework \<Rightarrow> ('u, 'c, 'k) Vortex \<Rightarrow> u8 list \<Rightarrow> 'x
     \<Rightarrow> status \<times> ('u, 'c, 'k) Vortex" where
  "execute_transact F self proof_points ctx =
     (case transact F self proof_points ctx of
        Inl e \<Rightarrow> (Aborted e, self)
      | Inr (self', ctx') \<Rightarrow> (Success, self'))"

text \<open>The outcome of the verification call inside \<open>transact\<close>, with its arguments built.\<close>

definition verification ::
  "('c, 'k, 'i, 'p, 'u, 'x) framework \<Rightarrow> ('u, 'c, 'k) Vortex \<Rightarrow> u8 list \<Rightarrow> 'x
     \<Rightarrow> abort_code + bool" where
  "verification F self proof_points ctx =
     (case public_proof_inputs_from_bytes F (recipient_field F ctx) of
        Inl e \<Rightarrow> Inl e
      | Inr inputs \<Rightarrow>
          (case proof_points_from_bytes F proof_points of
             Inl e \<Rightarrow> Inl e
           | Inr points \<Rightarrow> verify_groth16_proof F (curve self) (vk self) inputs points))"

subsection \<open>Initializer\<close>

text \<open>
  \<open>init\<close> builds the \<open>Vortex\<close> value field by field in the order written (\<open>id\<close>, then
  \<open>vk\<close>, then \<open>curve\<close>) and hands it to \<open>transfer::share_object\<close>. The bytes of
  \<open>vortex_constants::verifying_key!()\<close> are a parameter. The result lists the objects the
  initializer has shared, with the updated transaction context.
\<close>

definition init ::
  "('c, 'k, 'i, 'p, 'u, 'x) framework \<Rightarrow> u8 list \<Rightarrow> 'x
     \<Rightarrow> abort_code + (('u, 'c, 'k) Vortex list \<times> 'x)" where
  "init F verifying_key ctx =
     (let the_curve = bn254 F;
          (uid, ctx') = object_new F ctx
      in case prepare_verifying_key F the_curve verifying_key of
           Inl e \<Rightarrow> Inl e
         | Inr pvk \<Rightarrow> Inr ([\<lparr>id' = uid, curve = the_curve, vk = pvk\<rparr>], ctx'))"

text \<open>
  After publication \<open>transact\<close> is the only function of the module that can run. A history of
  calls, each with its own proof bytes and transaction context, threads the shared object
  through \<open>execute_transact\<close>.
\<close>

fun run_calls ::
  "('c, 'k, 'i, 'p, 'u, 'x) framework \<Rightarrow> ('u, 'c, 'k) Vortex \<Rightarrow> (u8 list \<times> 'x) list
     \<Rightarrow> ('u, 'c, 'k) Vortex" where
  "run_calls F self [] = self"
| "run_calls F self ((proof_points, ctx) # calls) =
     run_calls F (snd (execute_transact F self proof_points ctx)) calls"

subsection \<open>Binding a call's arguments to the parameters of \<open>transact\<close>\<close>

text \<open>
  A caller names the function and supplies a list of arguments: an object reference or pure
  values. The ledger binds them in order to the declared parameters
  \<open>(self: &mut Vortex, proof_points: vector<u8>)\<close> and supplies the trailing
  \<open>ctx: &mut TxContext\<close> itself; a list of another shape never reaches the function body.
\<close>

datatype 'u call_arg = ObjectArg 'u | PureVectorU8 "u8 list" | PureU256 u256

datatype call_error = ArgumentMismatch | ObjectNotFound

definition call_transact ::
  "('c, 'k, 'i, 'p, 'u, 'x) framework \<Rightarrow> ('u \<rightharpoonup> ('u, 'c, 'k) Vortex) \<Rightarrow> 'u call_arg list \<Rightarrow> 'x
     \<Rightarrow> call_error + status" where
  "call_transact F objects args ctx =
     (case args of
        [ObjectArg oid, PureVectorU8 proof_points] \<Rightarrow>
          (case objects oid of
             None \<Rightarrow> Inl ObjectNotFound
           | Some self \<Rightarrow> Inr (fst (execute_transact F self proof_points ctx)))
      | _ \<Rightarrow> Inl ArgumentMismatch)"

subsection \<open>A concrete framework for evaluation\<close>

text \<open>
  A small executable instance of the framework record, used to run the model on concrete
  inputs: addresses are their own numbers, a \<open>u256\<close> is serialised as 32 little-endian
  bytes, the transaction context is the sender with a counter of created objects, and the
  stand-in verifier accepts exactly the proofs that consist of the key bytes followed by the
  public-input bytes.
\<close>

fun le_bytes :: "nat \<Rightarrow> u256 \<Rightarrow> u8 list" where
  "le_bytes 0 w = []"
| "le_bytes (Suc n) w = ucast w # le_bytes n (drop_bit 8 w)"

definition sample_framework ::
  "(nat, u8 list, u8 list, u8 list, nat, address \<times> nat) framework" where
  "sample_framework = \<lparr>
     sender = fst,
     to_u256 = (\<lambda>a. a),
     object_new = (\<lambda>(a, n). (n, (a, Suc n))),
     bcs_to_bytes = le_bytes 32,
     bn254 = 1,
     prepare_verifying_key = (\<lambda>c bytes. if bytes = [] then Inl 0 else Inr bytes),
     public_proof_inputs_from_bytes =
       (\<lambda>bytes. if length bytes mod 32 = 0 then Inr bytes else Inl 3),
     proof_points_from_bytes = Inr,
     verify_groth16_proof = (\<lambda>c k i p. Inr (p = k @ i)) \<rparr>"

definition sample_vortex :: "(nat, nat, u8 list) Vortex" where
  "sample_vortex = \<lparr>id' = 0, curve = 1, vk = [7]\<rparr>"

text \<open>The proof bytes the stand-in verifier accepts for the public input 0.\<close>

definition sample_proof :: "u8 list" where
  "sample_proof = 7 # replicate 32 0"


section \<open>The client script: scripts/src/transact.ts\<close>

subsection \<open>Strings\<close>

text \<open>
  A JavaScript string is a sequence of UTF-16 code units. \<open>String.prototype.trim\<close> removes
  the leading and the trailing run of white space and line terminators (ECMAScript's
  WhiteSpace and LineTerminator productions).
\<close>

type_synonym js_string = "16 word list"

definition js :: "string \<Rightarrow> js_string" where
  "js s = map (\<lambda>c. of_nat (of_char c)) s"

definition is_white_space :: "16 word \<Rightarrow> bool" where
  "is_white_space c \<longleftrightarrow>
     c \<in> {0x0009, 0x000A, 0x000B, 0x000C, 0x000D, 0x0020, 0x00A0, 0x1680,
          0x2028, 0x2029, 0x202F, 0x205F, 0x3000, 0xFEFF}
     \<or> (0x2000 \<le> c \<and> c \<le> 0x200A)"

definition trimStart :: "js_string \<Rightarrow> js_string" where
  "trimStart s = dropWhile is_white_space s"

definition trimEnd :: "js_string \<Rightarrow> js_string" where
  "trimEnd s = rev (dropWhile is_white_space (rev s))"

definition trim :: "js_string \<Rightarrow> js_string" where
  "trim s = trimEnd (trimStart s)"

subsection \<open>The environment of the script\<close>

text \<open>
  The script runs against Node's \<open>fs\<close>, \<open>path\<close> and \<open>process.env\<close>, \<open>dotenv\<close>, the
  circuit's WebAssembly package (\<open>main\<close>, \<open>prove\<close>, \<open>verify\<close>), \<open>JSON\<close>, the ledger SDK
  and the identifiers of \<open>utils/constants\<close>. They are parameters, over the opaque types
  \<open>'u\<close> (object identifier), \<open>'c\<close> (SuiClient) and \<open>'s\<close> (Ed25519Keypair); a call that can
  throw returns \<open>Inl\<close> of the thrown value. \<open>script_dirname\<close> is \<open>__dirname\<close>.
  \<open>process.env.KEY\<close> is \<open>None\<close> when the variable is not set.
\<close>

datatype js_error = Thrown js_string

record Proof =
  proofA :: "int list"
  proofB :: "int list"
  proofC :: "int list"
  publicInputs :: "js_string list"
  proofSerializedHex :: js_string
  publicInputsSerializedHex :: js_string

record ('u, 'c, 's) node_env =
  script_dirname :: js_string
  path_join :: "js_string \<Rightarrow> js_string \<Rightarrow> js_string"
  dotenv_config :: "js_error + unit"
  getFullnodeUrl :: "js_string \<Rightarrow> js_error + js_string"
  new_SuiClient :: "js_string \<Rightarrow> js_error + 'c"
  process_env_KEY :: "js_string option"
  Buffer_from :: "js_string option \<Rightarrow> js_string \<Rightarrow> js_error + u8 list"
  fromSecretKey :: "u8 list \<Rightarrow> js_error + 's"
  readFileSync :: "js_string \<Rightarrow> js_string \<Rightarrow> js_error + js_string"
  wasm_main :: "js_error + unit"
  prove :: "js_string \<Rightarrow> js_string \<Rightarrow> js_error + js_string"
  verify :: "js_string \<Rightarrow> js_string \<Rightarrow> js_error + bool"
  bigint_toString :: "int \<Rightarrow> js_string"
  JSON_stringify :: "(js_string \<times> js_string) list \<Rightarrow> js_string"
  JSON_parse :: "js_string \<Rightarrow> js_error + Proof"
  fromHex :: "js_string \<Rightarrow> js_error + u8 list"
  VORTEX_PACKAGE_ID :: js_string
  VORTEX_POOL_OBJECT_ID :: 'u
  signAndExecuteTransaction ::
    "'c \<Rightarrow> js_string \<times> js_string \<times> js_string \<times> 'u call_arg list \<Rightarrow> 's
       \<Rightarrow> js_error + js_string"

subsection \<open>Module-level statements\<close>

definition verificationKeyPath :: "('u, 'c, 's) node_env \<Rightarrow> js_string" where
  "verificationKeyPath E =
     path_join E (script_dirname E) (js ''../../rust-circuit/keys/verification_key.hex'')"

definition provingKeyPath :: "('u, 'c, 's) node_env \<Rightarrow> js_string" where
  "provingKeyPath E =
     path_join E (script_dirname E) (js ''../../rust-circuit/keys/proving_key.hex'')"

text \<open>
  Lines 27 to 35 run when the module is loaded, before the \<open>try\<close> block and outside it:
  \<open>dotenv.config()\<close>, the construction of \<open>suiClient\<close> for the devnet URL, and the
  construction of \<open>keypair\<close> from the base64 text of \<open>process.env.KEY\<close> without its first
  byte. What one of them throws is not caught.
\<close>

definition module_init :: "('u, 'c, 's) node_env \<Rightarrow> js_error + ('c \<times> 's)" where
  "module_init E =
     (case dotenv_config E of
        Inl err \<Rightarrow> Inl err
      | Inr _ \<Rightarrow>
     (case getFullnodeUrl E (js ''devnet'') of
        Inl err \<Rightarrow> Inl err
      | Inr url \<Rightarrow>
     (case new_SuiClient E url of
        Inl err \<Rightarrow> Inl err
      | Inr suiClient \<Rightarrow>
     (case Buffer_from E (process_env_KEY E) (js ''base64'') of
        Inl err \<Rightarrow> Inl err
      | Inr key_bytes \<Rightarrow>
     (case fromSecretKey E (drop 1 key_bytes) of
        Inl err \<Rightarrow> Inl err
      | Inr keypair \<Rightarrow> Inr (suiClient, keypair))))))"

subsection \<open>Main execution\<close>

text \<open>The arguments of \<open>tx.moveCall\<close>, lines 78 to 82.\<close>

definition moveCall_arguments :: "'u \<Rightarrow> u8 list \<Rightarrow> int \<Rightarrow> 'u call_arg list" where
  "moveCall_arguments pool proof_bytes result =
     [ObjectArg pool, PureVectorU8 proof_bytes, PureU256 (of_int result)]"

text \<open>The first argument of \<open>prove\<close>, lines 62 to 66, for \<open>a = 5\<close> and \<open>b = 6\<close>.\<close>

definition prove_input :: "('u, 'c, 's) node_env \<Rightarrow> js_string" where
  "prove_input E =
     (let a = 5; b = 6; result = a * b in
      JSON_stringify E
        [(js ''a'', bigint_toString E a), (js ''b'', bigint_toString E b),
         (js ''c'', bigint_toString E result)])"

text \<open>
  A run of the script is the list of the calls it makes to the outside, in order, ending with
  what it logs. The body of the asynchronous function is one \<open>try\<close> block whose \<open>catch\<close>
  logs the error.
\<close>

datatype 'u event =
    ReadFile js_string js_string
  | Prove js_string js_string
  | Verify js_string js_string
  | MoveCall js_string js_string js_string "'u call_arg list"
  | ConsoleLogVerified bool
  | ConsoleLog js_string
  | ConsoleError js_error
  | Uncaught js_error

definition main_execution :: "('u, 'c, 's) node_env \<Rightarrow> 'c \<Rightarrow> 's \<Rightarrow> 'u event list" where
  "main_execution E suiClient keypair =
     (case wasm_main E of
        Inl err \<Rightarrow> [ConsoleError err]
      | Inr _ \<Rightarrow>
     (let a = 5; b = 6; result = a * b in
      ReadFile (provingKeyPath E) (js ''utf8'') #
     (case readFileSync E (provingKeyPath E) (js ''utf8'') of
        Inl err \<Rightarrow> [ConsoleError err]
      | Inr provingKeyText \<Rightarrow>
     (let provingKey = trim provingKeyText in
      ReadFile (verificationKeyPath E) (js ''utf8'') #
     (case readFileSync E (verificationKeyPath E) (js ''utf8'') of
        Inl err \<Rightarrow> [ConsoleError err]
      | Inr verificationKeyText \<Rightarrow>
     (let verificationKey = trim verificationKeyText in
      Prove (prove_input E) provingKey #
     (case prove E (prove_input E) provingKey of
        Inl err \<Rightarrow> [ConsoleError err]
      | Inr proofJson \<Rightarrow>
     (case JSON_parse E proofJson of
        Inl err \<Rightarrow> [ConsoleError err]
      | Inr proof_value \<Rightarrow>
      Verify proofJson (trim verificationKey) #
     (case verify E proofJson (trim verificationKey) of
        Inl err \<Rightarrow> [ConsoleError err]
      | Inr isVerified \<Rightarrow>
      ConsoleLogVerified isVerified #
     (case fromHex E (js ''0x'' @ proofSerializedHex proof_value) of
        Inl err \<Rightarrow> [ConsoleError err]
      | Inr proof_bytes \<Rightarrow>
     (let arguments = moveCall_arguments (VORTEX_POOL_OBJECT_ID E) proof_bytes result in
      MoveCall (VORTEX_PACKAGE_ID E) (js ''vortex'') (js ''transact'') arguments #
     (case signAndExecuteTransaction E suiClient
             (VORTEX_PACKAGE_ID E, js ''vortex'', js ''transact'', arguments) keypair of
        Inl err \<Rightarrow> [ConsoleError err]
      | Inr txResult \<Rightarrow> [ConsoleLog txResult]))))))))))))"

definition script :: "('u, 'c, 's) node_env \<Rightarrow> 'u event list" where
  "script E =
     (case module_init E of
        Inl err \<Rightarrow> [Uncaught err]
      | Inr (suiClient, keypair) \<Rightarrow> main_execution E suiClient keypair)"

subsection \<open>A concrete environment for evaluation\<close>

text \<open>
  An executable instance of the environment: \<open>KEY\<close> is set, the proving key file holds
  \<open>" 0a1b\n"\<close>, the verification key file \<open>"\tc2d3 \r\n"\<close>, and the stand-ins for the
  WebAssembly package accept everything. \<open>Buffer.from\<close> throws on an undefined value.
\<close>

definition sample_env :: "(nat, unit, u8 list) node_env" where
  "sample_env = \<lparr>
     script_dirname = js ''/app/src'',
     path_join = (\<lambda>a b. a @ js ''/'' @ b),
     dotenv_config = Inr (),
     getFullnodeUrl = Inr,
     new_SuiClient = (\<lambda>url. Inr ()),
     process_env_KEY = Some (js ''AAEC''),
     Buffer_from = (\<lambda>v enc. case v of
        None \<Rightarrow> Inl (Thrown (js ''TypeError''))
      | Some text \<Rightarrow> Inr (map ucast text)),
     fromSecretKey = Inr,
     readFileSync = (\<lambda>path enc.
        if enc \<noteq> js ''utf8'' then Inl (Thrown (js ''encoding''))
        else if path = js ''/app/src/../../rust-circuit/keys/proving_key.hex''
          then Inr (js '' 0a1b'' @ [0x000A])
        else if path = js ''/app/src/../../rust-circuit/keys/verification_key.hex''
          then Inr ([0x0009] @ js ''c2d3 '' @ [0x000D, 0x000A])
        else Inl (Thrown (js ''ENOENT''))),
     wasm_main = Inr (),
     prove = (\<lambda>input key. Inr (key @ input)),
     verify = (\<lambda>proofJson key. Inr True),
     bigint_toString = (\<lambda>n. [of_int n]),
     JSON_stringify = concat \<circ> map snd,
     JSON_parse = (\<lambda>s. Inr \<lparr>proofA = [], proofB = [], proofC = [], publicInputs = [],
        proofSerializedHex = s, publicInputsSerializedHex = []\<rparr>),
     fromHex = (\<lambda>s. Inr (map ucast s)),
     VORTEX_PACKAGE_ID = js ''0x2'',
     VORTEX_POOL_OBJECT_ID = 0,
     signAndExecuteTransaction = (\<lambda>client call signer. Inr (js ''ok'')) \<rparr>"

section \<open>The field modulus as a number\<close>

text \<open>
  The specification calls \<open>FIELD_MODULUS\<close> a 254-bit prime. Primality is stated on the
  natural numbers; \<open>modpow\<close> and \<open>order_mod\<close> are the modular power and the multiplicative
  order that the primality argument works with.
\<close>

definition is_prime :: "nat \<Rightarrow> bool" where
  "is_prime p \<longleftrightarrow> 1 < p \<and> (\<forall>d. d dvd p \<longrightarrow> d = 1 \<or> d = p)"

definition modpow :: "nat \<Rightarrow> nat \<Rightarrow> nat \<Rightarrow> nat" where
  "modpow n a e = a ^ e mod n"

definition order_mod :: "nat \<Rightarrow> nat \<Rightarrow> nat" where
  "order_mod p a = (LEAST d. 0 < d \<and> a ^ d mod p = 1)"

section \<open>Properties of the on-ledger verifier\<close>

subsection \<open>Auxiliary facts\<close>

lemma transact_by_verification:
  "transact F self proof_points ctx =
     (case verification F self proof_points ctx of
        Inl e \<Rightarrow> Inl e
      | Inr ok \<Rightarrow> if ok then Inr (self, ctx) else Inl 0)"
  by (simp add: transact_def verification_def split: sum.splits)

lemma execute_by_verification:
  "execute_transact F self proof_points ctx =
     (case verification F self proof_points ctx of
        Inl e \<Rightarrow> (Aborted e, self)
      | Inr ok \<Rightarrow> if ok then (Success, self) else (Aborted 0, self))"
  by (simp add: execute_transact_def transact_by_verification split: sum.splits)

lemma run_calls_fixed: "run_calls F self calls = self"
  by (induction calls arbitrary: self) (auto simp add: execute_by_verification split: sum.splits)

lemma le_bytes_32_zero: "le_bytes 32 0 = replicate 32 0"
  by (simp add: eval_nat_numeral)

lemma one_below_modulus: "(1::u256) < BN254_FIELD_MODULUS"
  by (simp add: BN254_FIELD_MODULUS_def)

lemma two_below_modulus: "(2::u256) < BN254_FIELD_MODULUS"
  by (simp add: BN254_FIELD_MODULUS_def)

lemma sample_recipient_field_small:
  "a < BN254_FIELD_MODULUS \<Longrightarrow> recipient_field sample_framework (a, n) = replicate 32 0"
  by (simp add: recipient_field_def recipient_value_def sample_framework_def div_word_less
      le_bytes_32_zero)

lemma sample_verification_small:
  "a < BN254_FIELD_MODULUS \<Longrightarrow>
     verification sample_framework sample_vortex p (a, n) = Inr (p = sample_proof)"
  by (simp add: verification_def sample_recipient_field_small)
     (simp add: sample_framework_def sample_vortex_def sample_proof_def)


subsection \<open>The recipient binding\<close>

text \<open>
  C1. The specification asks for the caller's identity reduced modulo the field modulus.
  Line 35 divides by the modulus instead: for the caller with identity 1 the value handed to
  the serialiser is the quotient 0, while the reduction of 1 modulo the modulus is 1.
\<close>

theorem recipient_value_is_quotient_at_one:
  "recipient_value sample_framework (1, 0) = 0
   \<and> to_u256 sample_framework (sender sample_framework (1, 0)) mod BN254_FIELD_MODULUS = 1"
  by (simp add: recipient_value_def sample_framework_def BN254_FIELD_MODULUS_def)

text \<open>
  C2. The binding property asks that a proof made for one caller is rejected for every other
  caller. With the quotient of line 35 the callers 1 and 2 get the same public input, so the
  proof bytes that the verifier accepts for caller 1 are accepted for caller 2 as well.
\<close>

theorem proof_for_caller_one_accepted_for_caller_two:
  "execute_transact sample_framework sample_vortex sample_proof (1, 0) = (Success, sample_vortex)
   \<and> execute_transact sample_framework sample_vortex sample_proof (2, 0) = (Success, sample_vortex)"
  by (simp add: execute_by_verification sample_verification_small one_below_modulus
      two_below_modulus)

text \<open>
  C3. For any two callers whose identities, read as 256-bit numbers, are both below
  \<open>BN254_FIELD_MODULUS\<close>, \<open>transact\<close> computes the same \<open>recipient_field\<close> bytes: the
  serialisation of 0.
\<close>

theorem recipient_field_same_below_modulus:
  assumes "to_u256 F (sender F X) < BN254_FIELD_MODULUS"
    and "to_u256 F (sender F Y) < BN254_FIELD_MODULUS"
  shows "recipient_field F X = bcs_to_bytes F 0 \<and> recipient_field F Y = bcs_to_bytes F 0
    \<and> recipient_field F X = recipient_field F Y"
  using assms by (simp add: recipient_field_def recipient_value_def div_word_less)

theorem recipient_field_same_below_modulus_witness:
  "to_u256 sample_framework (sender sample_framework (1, 0)) < BN254_FIELD_MODULUS
   \<and> to_u256 sample_framework (sender sample_framework (2, 0)) < BN254_FIELD_MODULUS
   \<and> recipient_field sample_framework (1, 0) = replicate 32 0
   \<and> recipient_field sample_framework (2, 0) = replicate 32 0
   \<and> recipient_field sample_framework (1, 0 :: nat) = recipient_field sample_framework (2, 0)"
proof -
  have a: "to_u256 sample_framework (sender sample_framework (1, 0 :: nat)) < BN254_FIELD_MODULUS"
    by (simp add: sample_framework_def one_below_modulus)
  have b: "to_u256 sample_framework (sender sample_framework (2, 0 :: nat)) < BN254_FIELD_MODULUS"
    by (simp add: sample_framework_def two_below_modulus)
  have z: "bcs_to_bytes sample_framework 0 = replicate 32 0"
    by (simp add: sample_framework_def le_bytes_32_zero)
  from recipient_field_same_below_modulus [OF a b] a b z show ?thesis by simp
qed

subsection \<open>Success, abort and the shared state\<close>

text \<open>
  C4. \<open>transact\<close> completes normally exactly when the Groth16 verification of the supplied
  proof points against the stored prepared key and the recomputed public input returns true.
  In every other case the operation aborts, and the ledger keeps the shared object as it was.
\<close>

theorem transact_completes_iff_verified:
  "(fst (execute_transact F self proof_points ctx) = Success
      \<longleftrightarrow> verification F self proof_points ctx = Inr True)
   \<and> ((\<exists>r. transact F self proof_points ctx = Inr r)
      \<longleftrightarrow> verification F self proof_points ctx = Inr True)
   \<and> (verification F self proof_points ctx \<noteq> Inr True
      \<longrightarrow> (\<exists>e. transact F self proof_points ctx = Inl e
              \<and> execute_transact F self proof_points ctx = (Aborted e, self)))"
  by (auto simp add: execute_by_verification transact_by_verification split: sum.splits)

theorem transact_completes_iff_verified_witness:
  "verification sample_framework sample_vortex [] (1, 0 :: nat) \<noteq> Inr True
   \<and> execute_transact sample_framework sample_vortex [] (1, 0) = (Aborted 0, sample_vortex)
   \<and> verification sample_framework sample_vortex sample_proof (1, 0 :: nat) = Inr True
   \<and> fst (execute_transact sample_framework sample_vortex sample_proof (1, 0)) = Success"
  using transact_completes_iff_verified [of sample_framework sample_vortex "[]" "(1, 0)"]
    transact_completes_iff_verified [of sample_framework sample_vortex sample_proof "(1, 0)"]
  by (simp add: sample_verification_small one_below_modulus execute_by_verification)
     (simp add: sample_proof_def)




text \<open>
  C7. A call of \<open>transact\<close> leaves the \<open>Vortex\<close> object as it found it, whether it returns or
  aborts: the object the ledger holds afterwards is the one it held before, and a normal
  return hands back the same \<open>id\<close>, \<open>curve\<close> and \<open>vk\<close>.
\<close>

theorem transact_leaves_vortex_unchanged:
  "snd (execute_transact F self proof_points ctx) = self
   \<and> (\<forall>self' ctx'. transact F self proof_points ctx = Inr (self', ctx') \<longrightarrow>
         id' self' = id' self \<and> curve self' = curve self \<and> vk self' = vk self)"
  by (auto simp add: execute_by_verification transact_by_verification
      split: sum.splits if_splits)

theorem transact_leaves_vortex_unchanged_witness:
  "transact sample_framework sample_vortex sample_proof (1, 0) = Inr (sample_vortex, (1, 0))
   \<and> id' sample_vortex = 0 \<and> curve sample_vortex = 1 \<and> vk sample_vortex = [7]
   \<and> snd (execute_transact sample_framework sample_vortex sample_proof (1, 0)) = sample_vortex
   \<and> snd (execute_transact sample_framework sample_vortex [] (1, 0)) = sample_vortex"
proof -
  have t: "transact sample_framework sample_vortex sample_proof (1, 0)
             = Inr (sample_vortex, (1, 0))"
    by (simp add: transact_by_verification sample_verification_small one_below_modulus)
  have f: "id' sample_vortex = 0 \<and> curve sample_vortex = 1 \<and> vk sample_vortex = [7]"
    using transact_leaves_vortex_unchanged [THEN conjunct2, rule_format, OF t]
    by (simp add: sample_vortex_def)
  show ?thesis
    using t f
      transact_leaves_vortex_unchanged [THEN conjunct1, of sample_framework sample_vortex
        sample_proof "(1, 0)"]
      transact_leaves_vortex_unchanged [THEN conjunct1, of sample_framework sample_vortex
        "[]" "(1, 0)"]
    by blast
qed

subsection \<open>Initialisation\<close>

text \<open>
  C8. The initializer completes exactly when the framework can prepare the embedded
  verifying key for the BN254 curve, and then it shares one \<open>Vortex\<close> object holding a fresh
  identifier, that curve and the prepared key. No later history of \<open>transact\<close> calls moves
  the object to another state.
\<close>

theorem init_publishes_prepared_key:
  "(init F verifying_key ctx = Inr (shared, ctx') \<longleftrightarrow>
      (\<exists>pvk. prepare_verifying_key F (bn254 F) verifying_key = Inr pvk
         \<and> shared = [\<lparr>id' = fst (object_new F ctx), curve = bn254 F, vk = pvk\<rparr>]
         \<and> ctx' = snd (object_new F ctx)))
   \<and> run_calls F self calls = self"
  by (auto simp add: init_def Let_def run_calls_fixed split: sum.splits prod.splits)

theorem init_publishes_prepared_key_witness:
  "init sample_framework [7] (1, 0) = Inr ([sample_vortex], (1, 1))
   \<and> prepare_verifying_key sample_framework (bn254 sample_framework) [7] = Inr [7]
   \<and> run_calls sample_framework sample_vortex [(sample_proof, (1, 0)), ([], (2, 0))]
       = sample_vortex"
  using init_publishes_prepared_key [of sample_framework "[7]" "(1, 0)" "[sample_vortex]" "(1, 1)"
      sample_vortex "[(sample_proof, (1, 0)), ([], (2, 0))]"]
  by (simp add: sample_framework_def sample_vortex_def)

subsection \<open>The call contract\<close>

text \<open>
  C6. The specification's call contract is the call the client makes: the pool object, the
  proof bytes and a public value. \<open>transact\<close> declares two parameters for its caller, the
  pool object and the proof bytes, and takes the transaction context from the ledger. The
  client's argument list, with the public value 30 in third place, does not bind to them
  and never reaches the function; the same call without the third argument does and
  succeeds.
\<close>

theorem client_arguments_rejected:
  "call_transact sample_framework [0 \<mapsto> sample_vortex]
       (moveCall_arguments 0 sample_proof 30) (1, 0)
     = Inl ArgumentMismatch
   \<and> call_transact sample_framework [0 \<mapsto> sample_vortex]
       [ObjectArg 0, PureVectorU8 sample_proof] (1, 0)
     = Inr Success"
  by (simp add: call_transact_def moveCall_arguments_def execute_by_verification
      sample_verification_small one_below_modulus)

section \<open>Properties of the client script\<close>

subsection \<open>Trimming\<close>

lemma trimEnd_Cons_not_ws:
  "\<not> is_white_space x \<Longrightarrow> \<exists>ys. trimEnd (x # xs) = x # ys"
  by (auto simp add: trimEnd_def dropWhile_append
      intro: exI [of _ "rev (dropWhile is_white_space (rev xs))"])

lemma trim_decompose:
  "\<exists>pre post. s = pre @ trim s @ post \<and> (\<forall>c \<in> set pre. is_white_space c)
      \<and> (\<forall>c \<in> set post. is_white_space c)"
proof -
  let ?pre = "takeWhile is_white_space s"
  let ?mid = "dropWhile is_white_space s"
  let ?post = "rev (takeWhile is_white_space (rev ?mid))"
  have "?mid = rev (takeWhile is_white_space (rev ?mid) @ dropWhile is_white_space (rev ?mid))"
    by (simp only: takeWhile_dropWhile_id rev_rev_ident)
  also have "\<dots> = trimEnd ?mid @ ?post"
    by (simp only: rev_append trimEnd_def)
  finally have "?mid = trimEnd ?mid @ ?post" .
  then have "s = ?pre @ trim s @ ?post"
    by (metis takeWhile_dropWhile_id trim_def trimStart_def)
  moreover have "\<forall>c \<in> set ?pre. is_white_space c"
    by (auto dest: set_takeWhileD)
  moreover have "\<forall>c \<in> set ?post. is_white_space c"
    by (auto dest: set_takeWhileD)
  ultimately show ?thesis by blast
qed

lemma trim_no_leading: "trim s = [] \<or> \<not> is_white_space (hd (trim s))"
proof (cases "trimStart s")
  case Nil
  then show ?thesis by (simp add: trim_def trimEnd_def)
next
  case (Cons x xs)
  then have "\<not> is_white_space x"
    by (metis trimStart_def hd_dropWhile list.sel(1) list.distinct(1))
  with Cons show ?thesis
    using trimEnd_Cons_not_ws [of x xs] by (auto simp add: trim_def)
qed

lemma trim_no_trailing: "trim s = [] \<or> \<not> is_white_space (last (trim s))"
proof (cases "trim s = []")
  case True then show ?thesis by simp
next
  case False
  then have "dropWhile is_white_space (rev (trimStart s)) \<noteq> []"
    by (simp add: trim_def trimEnd_def)
  then have "\<not> is_white_space (hd (dropWhile is_white_space (rev (trimStart s))))"
    by (rule hd_dropWhile)
  then show ?thesis
    using False by (simp add: trim_def trimEnd_def last_rev)
qed

lemma trim_idem: "trim (trim s) = trim s"
proof (cases "trim s = []")
  case True
  have "trim [] = []"
    by (simp add: trim_def trimStart_def trimEnd_def)
  with True show ?thesis by simp
next
  case False
  with trim_no_leading [of s] have h: "\<not> is_white_space (hd (trim s))" by simp
  from False trim_no_trailing [of s] have l: "\<not> is_white_space (last (trim s))" by simp
  from False h have a: "trimStart (trim s) = trim s"
    by (cases "trim s") (simp_all add: trimStart_def)
  from False l have "dropWhile is_white_space (rev (trim s)) = rev (trim s)"
    by (cases "rev (trim s)") (auto simp add: last_rev hd_rev)
  then have b: "trimEnd (trim s) = trim s"
    by (simp add: trimEnd_def)
  show ?thesis
    unfolding trim_def [of "trim s"] a b ..
qed

lemma sample_module_init: "module_init sample_env = Inr ((), [65, 69, 67])"
  by (simp add: module_init_def sample_env_def js_def)

lemma sample_proving_key_text:
  "readFileSync sample_env (provingKeyPath sample_env) (js ''utf8'') = Inr [32, 48, 97, 49, 98, 10]"
  by (simp add: sample_env_def provingKeyPath_def js_def)

lemma sample_verification_key_text:
  "readFileSync sample_env (verificationKeyPath sample_env) (js ''utf8'')
     = Inr [9, 99, 50, 100, 51, 32, 13, 10]"
  by (simp add: sample_env_def verificationKeyPath_def js_def)

lemma sample_prove_input: "prove_input sample_env = [5, 6, 30]"
  by (simp add: prove_input_def sample_env_def)

lemma sample_prove_result:
  "prove sample_env [5, 6, 30] [48, 97, 49, 98] = Inr [48, 97, 49, 98, 5, 6, 30]"
  by (simp add: sample_env_def)

lemma sample_wasm_main: "wasm_main sample_env = Inr ()"
  by (simp add: sample_env_def)

lemma sample_JSON_parse:
  "JSON_parse sample_env [48, 97, 49, 98, 5, 6, 30]
     = Inr \<lparr>proofA = [], proofB = [], proofC = [], publicInputs = [],
         proofSerializedHex = [48, 97, 49, 98, 5, 6, 30], publicInputsSerializedHex = []\<rparr>"
  by (simp add: sample_env_def)

lemma trim_sample_pk: "trim [32, 48, 97, 49, 98, 10] = [48, 97, 49, 98]"
  by (simp add: trim_def trimStart_def trimEnd_def is_white_space_def)

lemma trim_sample_vk: "trim [9, 99, 50, 100, 51, 32, 13, 10] = [99, 50, 100, 51]"
  by (simp add: trim_def trimStart_def trimEnd_def is_white_space_def)

lemma sample_script_without_key:
  "script (sample_env \<lparr>process_env_KEY := None\<rparr>) = [Uncaught (Thrown (js ''TypeError''))]"
  by (simp add: script_def module_init_def sample_env_def)

subsection \<open>Key material\<close>

text \<open>
  C10. The script reads exactly two files, the proving key and the verification key, both as
  \<open>utf8\<close> text, and the key it passes to \<open>prove\<close> is the trimmed text of the first, the key
  it passes to \<open>verify\<close> the trimmed text of the second. Once the module-level statements
  and \<open>main\<close> have run without throwing, the proving key file is read; when that
  succeeds the verification key file is read; when both succeed \<open>prove\<close> is called with the
  trimmed proving key; and when \<open>prove\<close> returns a proof that parses, \<open>verify\<close> is called
  with the trimmed verification key. Trimming removes only white space, from both ends, and
  leaves none at either end.
\<close>

theorem key_material_read_as_utf8_and_trimmed:
  "(\<forall>input key. Prove input key \<in> set (script E) \<longrightarrow>
      (\<exists>text. readFileSync E (provingKeyPath E) (js ''utf8'') = Inr text \<and> key = trim text))
   \<and> (\<forall>proofJson key. Verify proofJson key \<in> set (script E) \<longrightarrow>
      (\<exists>text. readFileSync E (verificationKeyPath E) (js ''utf8'') = Inr text
         \<and> key = trim text))
   \<and> (\<forall>path enc. ReadFile path enc \<in> set (script E) \<longrightarrow>
      enc = js ''utf8'' \<and> (path = provingKeyPath E \<or> path = verificationKeyPath E))
   \<and> (\<forall>r u. module_init E = Inr r \<and> wasm_main E = Inr u \<longrightarrow>
      ReadFile (provingKeyPath E) (js ''utf8'') \<in> set (script E))
   \<and> (\<forall>r u pk. module_init E = Inr r \<and> wasm_main E = Inr u
         \<and> readFileSync E (provingKeyPath E) (js ''utf8'') = Inr pk \<longrightarrow>
      ReadFile (verificationKeyPath E) (js ''utf8'') \<in> set (script E))
   \<and> (\<forall>r u pk vk. module_init E = Inr r \<and> wasm_main E = Inr u
         \<and> readFileSync E (provingKeyPath E) (js ''utf8'') = Inr pk
         \<and> readFileSync E (verificationKeyPath E) (js ''utf8'') = Inr vk \<longrightarrow>
      Prove (prove_input E) (trim pk) \<in> set (script E))
   \<and> (\<forall>r u pk vk proofJson proof_value. module_init E = Inr r \<and> wasm_main E = Inr u
         \<and> readFileSync E (provingKeyPath E) (js ''utf8'') = Inr pk
         \<and> readFileSync E (verificationKeyPath E) (js ''utf8'') = Inr vk
         \<and> prove E (prove_input E) (trim pk) = Inr proofJson
         \<and> JSON_parse E proofJson = Inr proof_value \<longrightarrow>
      Verify proofJson (trim vk) \<in> set (script E))
   \<and> (\<forall>text. (\<exists>pre post. text = pre @ trim text @ post
            \<and> (\<forall>c \<in> set pre. is_white_space c) \<and> (\<forall>c \<in> set post. is_white_space c))
         \<and> (trim text = [] \<or>
              \<not> is_white_space (hd (trim text)) \<and> \<not> is_white_space (last (trim text))))"
proof (intro conjI allI)
  fix t
  show "\<exists>pre post. t = pre @ trim t @ post
      \<and> (\<forall>c \<in> set pre. is_white_space c) \<and> (\<forall>c \<in> set post. is_white_space c)"
    by (rule trim_decompose)
  show "trim t = [] \<or>
      \<not> is_white_space (hd (trim t)) \<and> \<not> is_white_space (last (trim t))"
    using trim_no_leading [of t] trim_no_trailing [of t] by blast
qed (auto simp add: script_def main_execution_def Let_def trim_idem
      split: sum.splits prod.splits)

theorem key_material_read_as_utf8_and_trimmed_witness:
  "module_init sample_env = Inr ((), [65, 69, 67])
   \<and> readFileSync sample_env (provingKeyPath sample_env) (js ''utf8'')
       = Inr [32, 48, 97, 49, 98, 10]
   \<and> readFileSync sample_env (verificationKeyPath sample_env) (js ''utf8'')
       = Inr [9, 99, 50, 100, 51, 32, 13, 10]
   \<and> ReadFile (verificationKeyPath sample_env) (js ''utf8'') \<in> set (script sample_env)
   \<and> Prove [5, 6, 30] [48, 97, 49, 98] \<in> set (script sample_env)
   \<and> Verify [48, 97, 49, 98, 5, 6, 30] [99, 50, 100, 51] \<in> set (script sample_env)
   \<and> script (sample_env \<lparr>process_env_KEY := None\<rparr>) = [Uncaught (Thrown (js ''TypeError''))]"
proof -
  note km = key_material_read_as_utf8_and_trimmed [of sample_env]
  note i = sample_module_init
  note m = sample_wasm_main
  note p = sample_proving_key_text
  note v = sample_verification_key_text
  have r: "ReadFile (verificationKeyPath sample_env) (js ''utf8'') \<in> set (script sample_env)"
    using km [THEN conjunct2, THEN conjunct2, THEN conjunct2, THEN conjunct2, THEN conjunct1,
        rule_format, of "((), [65, 69, 67])" "()" "[32, 48, 97, 49, 98, 10]"] i m p
    by simp
  have pr: "Prove [5, 6, 30] [48, 97, 49, 98] \<in> set (script sample_env)"
    using km [THEN conjunct2, THEN conjunct2, THEN conjunct2, THEN conjunct2, THEN conjunct2,
        THEN conjunct1, rule_format, of "((), [65, 69, 67])" "()" "[32, 48, 97, 49, 98, 10]"
        "[9, 99, 50, 100, 51, 32, 13, 10]"] i m p v
    by (simp add: sample_prove_input trim_sample_pk)
  have ve: "Verify [48, 97, 49, 98, 5, 6, 30] [99, 50, 100, 51] \<in> set (script sample_env)"
    using km [THEN conjunct2, THEN conjunct2, THEN conjunct2, THEN conjunct2, THEN conjunct2,
        THEN conjunct2, THEN conjunct1, rule_format, of "((), [65, 69, 67])" "()"
        "[32, 48, 97, 49, 98, 10]" "[9, 99, 50, 100, 51, 32, 13, 10]"
        "[48, 97, 49, 98, 5, 6, 30]"] i m p v sample_JSON_parse
    by (simp add: sample_prove_input trim_sample_pk trim_sample_vk sample_prove_result)
  from i p v r pr ve sample_script_without_key show ?thesis by blast
qed

section \<open>Properties of the field modulus\<close>

subsection \<open>Prime factors\<close>

lemma prime_factor_exists: "1 < n \<Longrightarrow> \<exists>p. is_prime p \<and> p dvd n"
proof (induction n rule: less_induct)
  case (less n)
  show ?case
  proof (cases "is_prime n")
    case True
    then have "is_prime n \<and> n dvd n" by simp
    then show ?thesis ..
  next
    case False
    with less.prems obtain d where d: "d dvd n" "d \<noteq> 1" "d \<noteq> n"
      by (auto simp add: is_prime_def)
    have "d \<noteq> 0"
    proof
      assume "d = 0"
      with d(1) have "n = 0" by simp
      with less.prems show False by simp
    qed
    moreover from less.prems have "0 < n" by simp
    with d(1) have "d \<le> n" by (rule dvd_imp_le)
    ultimately have "1 < d" "d < n" using d(2,3) by arith+
    with less.IH [of d] obtain p where "is_prime p" "p dvd d" by blast
    with d(1) show ?thesis by (blast intro: dvd_trans)
  qed
qed

lemma small_prime_factor:
  assumes "1 < n" and "\<not> is_prime n"
  shows "\<exists>p. is_prime p \<and> p dvd n \<and> p * p \<le> n"
proof -
  from assms obtain d where d: "d dvd n" "d \<noteq> 1" "d \<noteq> n"
    by (auto simp add: is_prime_def)
  then obtain k where k: "n = d * k" by (auto elim: dvdE)
  with assms(1) d have dk: "1 < d" "1 < k"
    by (cases d; cases k; auto)+
  define m where "m = min d k"
  have m1: "1 < m" using dk by (simp add: m_def)
  have mn: "m * m \<le> n"
    unfolding k m_def by (rule mult_mono) simp_all
  have mdvd: "m dvd n"
    unfolding k m_def min_def by simp
  from prime_factor_exists [OF m1] obtain p where p: "is_prime p" "p dvd m" by blast
  from m1 have "0 < m" by simp
  with p(2) have "p \<le> m" by (rule dvd_imp_le)
  then have "p * p \<le> m * m" by (simp add: mult_le_mono)
  with mn p mdvd show ?thesis by (blast intro: dvd_trans le_trans)
qed

lemma prime_not_dvd_coprime:
  assumes "is_prime p" and "\<not> p dvd a"
  shows "coprime p a"
proof -
  have "gcd p a dvd p" by simp
  with assms(1) have "gcd p a = 1 \<or> gcd p a = p" by (simp add: is_prime_def)
  moreover have "gcd p a \<noteq> p"
  proof
    assume "gcd p a = p"
    then have "p dvd a" by (metis gcd_dvd2)
    with assms(2) show False ..
  qed
  ultimately show ?thesis by (simp add: coprime_iff_gcd_eq_1)
qed

subsection \<open>Powers modulo a number\<close>

lemma power_mod_one_coprime:
  fixes a p :: nat
  assumes "1 < p" and "0 < m" and "a ^ m mod p = 1"
  shows "coprime a p"
proof (rule coprimeI)
  fix g assume g: "g dvd a" "g dvd p"
  from assms(2) obtain m' where "m = Suc m'" by (cases m) simp_all
  with g(1) have "g dvd a ^ m" by simp
  from this g(2) have "g dvd a ^ m mod p" by (rule dvd_mod)
  with assms(3) show "is_unit g" by simp
qed

lemma power_mod_split:
  fixes a p :: nat
  shows "a ^ (d * k + r) mod p = ((a ^ d mod p) ^ k * a ^ r) mod p"
proof -
  have "a ^ (d * k + r) mod p = ((a ^ d) ^ k mod p * a ^ r) mod p"
    by (metis power_add power_mult mod_mult_left_eq)
  also have "(a ^ d) ^ k mod p = (a ^ d mod p) ^ k mod p"
    by (simp add: power_mod)
  also have "((a ^ d mod p) ^ k mod p * a ^ r) mod p = ((a ^ d mod p) ^ k * a ^ r) mod p"
    by (simp add: mod_mult_left_eq)
  finally show ?thesis .
qed

lemma order_mod_props:
  assumes "0 < m" and "a ^ m mod p = 1"
  shows "0 < order_mod p a" and "a ^ order_mod p a mod p = 1"
    and "\<And>e. 0 < e \<Longrightarrow> e < order_mod p a \<Longrightarrow> a ^ e mod p \<noteq> 1"
proof -
  have ex: "0 < m \<and> a ^ m mod p = 1" using assms by simp
  from LeastI [of "\<lambda>d. 0 < d \<and> a ^ d mod p = 1", OF ex]
  show "0 < order_mod p a" and "a ^ order_mod p a mod p = 1"
    by (simp_all add: order_mod_def)
  fix e assume "0 < e" "e < order_mod p a"
  then show "a ^ e mod p \<noteq> 1"
    using not_less_Least [of e "\<lambda>d. 0 < d \<and> a ^ d mod p = 1"] by (auto simp add: order_mod_def)
qed

lemma order_mod_dvd:
  assumes "1 < p" and "0 < m" and "a ^ m mod p = 1" and "a ^ e mod p = 1"
  shows "order_mod p a dvd e"
proof -
  let ?d = "order_mod p a"
  note o = order_mod_props [OF assms(2,3)]
  have "e = ?d * (e div ?d) + e mod ?d" by simp
  then have "a ^ e mod p = ((a ^ ?d mod p) ^ (e div ?d) * a ^ (e mod ?d)) mod p"
    by (metis power_mod_split)
  with o(2) assms(4) have r: "a ^ (e mod ?d) mod p = 1" by simp
  have "e mod ?d = 0"
  proof (rule ccontr)
    assume "e mod ?d \<noteq> 0"
    then have "0 < e mod ?d" by simp
    moreover have "e mod ?d < ?d" using o(1) by simp
    ultimately show False using o(3) r by blast
  qed
  then show ?thesis by (simp add: dvd_eq_mod_eq_0)
qed

lemma order_mod_less:
  assumes "1 < p" and "0 < m" and "a ^ m mod p = 1"
  shows "order_mod p a < p"
proof -
  let ?d = "order_mod p a"
  note o = order_mod_props [OF assms(2,3)]
  have cop: "coprime a p" by (rule power_mod_one_coprime [OF assms])
  have a0: "0 < a"
  proof (rule ccontr)
    assume "\<not> 0 < a"
    then have "a = 0" by simp
    with assms show False by (cases m) simp_all
  qed
  let ?f = "\<lambda>i. a ^ i mod p"
  have inj: "inj_on ?f {0..<?d}"
  proof (rule inj_onI)
    fix i j assume ij: "i \<in> {0..<?d}" "j \<in> {0..<?d}" "a ^ i mod p = a ^ j mod p"
    have aux: False if lt: "x < y" and y: "y < ?d" and eq: "a ^ x mod p = a ^ y mod p" for x y
    proof -
      have le: "a ^ x \<le> a ^ y"
        using a0 lt by (simp add: power_increasing)
      from eq have "a ^ y mod p = a ^ x mod p" by simp
      with le have "p dvd a ^ y - a ^ x" by (simp add: mod_eq_dvd_iff_nat)
      moreover have "a ^ y - a ^ x = a ^ x * (a ^ (y - x) - 1)"
        using lt by (simp add: algebra_simps flip: power_add)
      ultimately have "p dvd a ^ x * (a ^ (y - x) - 1)" by simp
      moreover have "coprime p (a ^ x)"
        using cop by (simp add: coprime_commute)
      ultimately have "p dvd a ^ (y - x) - 1"
        by (simp add: coprime_dvd_mult_right_iff)
      moreover have "1 \<le> a ^ (y - x)"
        using a0 by (simp add: Suc_le_eq)
      ultimately have "a ^ (y - x) mod p = 1 mod p"
        using mod_eq_dvd_iff_nat [of 1 "a ^ (y - x)" p] by blast
      with assms(1) have "a ^ (y - x) mod p = 1" by simp
      moreover have "0 < y - x" "y - x < ?d" using lt y by simp_all
      ultimately show False using o(3) by blast
    qed
    show "i = j"
    proof (rule ccontr)
      assume "i \<noteq> j"
      then consider "i < j" | "j < i" by (auto simp add: neq_iff)
      then show False
      proof cases
        case 1 with ij aux [of i j] show False by simp
      next
        case 2 with ij aux [of j i] show False by simp
      qed
    qed
  qed
  have sub: "?f ` {0..<?d} \<subseteq> {1..<p}"
  proof
    fix y assume "y \<in> ?f ` {0..<?d}"
    then obtain i where y: "y = a ^ i mod p" by blast
    have "y < p" using assms(1) by (simp add: y)
    moreover have "y \<noteq> 0"
    proof
      assume "y = 0"
      then have "p dvd a ^ i" by (simp add: y dvd_eq_mod_eq_0)
      moreover have "coprime p (a ^ i)" using cop by (simp add: coprime_commute)
      ultimately have "p dvd 1" by (metis coprime_def dvd_refl)
      with assms(1) show False by simp
    qed
    ultimately show "y \<in> {1..<p}" by simp
  qed
  have "card {0..<?d} \<le> card {1..<p}"
    by (rule card_inj_on_le [OF inj sub]) simp
  then show ?thesis using assms(1) by simp
qed

subsection \<open>Pocklington's criterion\<close>

theorem pocklington:
  assumes n: "1 < n"
    and F: "n - 1 = F * R"
    and big: "n \<le> F * F"
    and one: "modpow n a (n - 1) = 1"
    and q: "\<And>q. is_prime q \<Longrightarrow> q dvd F \<Longrightarrow> coprime (modpow n a ((n - 1) div q) - 1) n"
  shows "is_prime n"
proof (rule ccontr)
  assume "\<not> is_prime n"
  from small_prime_factor [OF n this] obtain p
    where p: "is_prime p" "p dvd n" "p * p \<le> n" by blast
  from p(1) have p1: "1 < p" by (simp add: is_prime_def)
  from n have m0: "0 < n - 1" by simp
  have "a ^ (n - 1) mod n mod p = a ^ (n - 1) mod p"
    using p(2) by (rule mod_mod_cancel)
  with one p1 have ap: "a ^ (n - 1) mod p = 1"
    by (simp add: modpow_def)
  let ?d = "order_mod p a"
  note o = order_mod_props [OF m0 ap]
  have "?d dvd n - 1" by (rule order_mod_dvd [OF p1 m0 ap ap])
  then obtain k where k: "n - 1 = ?d * k" by (auto elim: dvdE)
  have F0: "F \<noteq> 0" using F m0 by (cases F) simp_all
  have cop: "coprime F k"
  proof (rule ccontr)
    assume "\<not> coprime F k"
    then have "gcd F k \<noteq> 1" by (simp add: coprime_iff_gcd_eq_1)
    moreover have "gcd F k \<noteq> 0" using F0 by simp
    ultimately have "1 < gcd F k" by arith
    from prime_factor_exists [OF this] obtain r where r: "is_prime r" "r dvd gcd F k"
      by blast
    then have rF: "r dvd F" and rk: "r dvd k" by simp_all
    from r(1) have r0: "0 < r" by (simp add: is_prime_def)
    from rk obtain k' where k': "k = r * k'" by (auto elim: dvdE)
    have "n - 1 = r * (?d * k')"
      unfolding k k' by (simp add: ac_simps)
    then have "(n - 1) div r = ?d * k'"
      using r0 by simp
    then have "a ^ ((n - 1) div r) mod p = (a ^ ?d mod p) ^ k' mod p"
      by (simp add: power_mult power_mod)
    with o(2) p1 have e: "a ^ ((n - 1) div r) mod p = 1" by simp
    define c where "c = modpow n a ((n - 1) div r)"
    have "c mod p = a ^ ((n - 1) div r) mod p"
      unfolding c_def modpow_def using p(2) by (rule mod_mod_cancel)
    with e have cp: "c mod p = 1" by simp
    then have "c \<noteq> 0" by (cases "c = 0") simp_all
    then have c1: "1 \<le> c" by simp
    from cp p1 have "c mod p = 1 mod p" by simp
    with c1 have "p dvd c - 1"
      using mod_eq_dvd_iff_nat [of 1 c p] by blast
    moreover from q [OF r(1) rF] have "coprime (c - 1) n" by (simp add: c_def)
    ultimately have "p dvd 1" using p(2) by (metis coprime_def)
    with p1 show False by simp
  qed
  have "F dvd ?d * k" unfolding k [symmetric] F by simp
  with cop have "F dvd ?d" by (simp add: coprime_dvd_mult_left_iff)
  from this o(1) have "F \<le> ?d" by (rule dvd_imp_le)
  also have "?d < p" by (rule order_mod_less [OF p1 m0 ap])
  finally have "F < p" .
  then have "F * F < p * p" by (simp add: mult_strict_mono)
  with p(3) big show False by simp
qed


subsection \<open>Checking a certificate step by step\<close>

lemma prime_dvd_mult:
  assumes "is_prime q" and "q dvd a * b"
  shows "q dvd a \<or> q dvd b"
proof (cases "q dvd a")
  case True
  then show ?thesis ..
next
  case False
  with assms(1) have "coprime q a" by (rule prime_not_dvd_coprime)
  with assms(2) have "q dvd b" by (simp add: coprime_dvd_mult_right_iff)
  then show ?thesis ..
qed

lemma prime_dvd_prime:
  assumes "is_prime q" and "is_prime p" and "q dvd p"
  shows "q = p"
  using assms by (auto simp add: is_prime_def)

lemma coprime_cert:
  fixes d n :: nat
  assumes "u * d = v * n + 1"
  shows "coprime d n"
proof (rule coprimeI)
  fix g assume "g dvd d" "g dvd n"
  then have "g dvd u * d" "g dvd v * n" by simp_all
  with assms show "is_unit g" by (metis dvd_add_right_iff)
qed

lemma modpow_start: "a < n \<Longrightarrow> modpow n a (numeral Num.One) = a"
  by (simp add: modpow_def)

lemma modpow_mod_eq:
  assumes "z = q * n + y" and "y < n"
  shows "z mod n = (y::nat)"
  using assms by simp

lemma modpow_sq_gen:
  assumes "modpow n a e = x" and "x * x = q * n + y" and "y < n"
  shows "modpow n a (e + e) = y"
proof -
  have "modpow n a (e + e) = (a ^ e * a ^ e) mod n"
    unfolding modpow_def by (simp only: power_add)
  also have "\<dots> = ((a ^ e mod n) * (a ^ e mod n)) mod n"
    by (simp only: mod_mult_eq)
  also have "\<dots> = (x * x) mod n"
    using assms(1) unfolding modpow_def by (simp only:)
  also have "\<dots> = y"
    using assms(2,3) by (rule modpow_mod_eq)
  finally show ?thesis .
qed

lemma modpow_mul_gen:
  assumes "modpow n a e = x" and "x * a = q * n + y" and "y < n"
  shows "modpow n a (e + 1) = y"
proof -
  have "modpow n a (e + 1) = (a ^ e * a) mod n"
    unfolding modpow_def by (simp only: power_add power_one_right)
  also have "\<dots> = ((a ^ e mod n) * a) mod n"
    by (simp only: mod_mult_left_eq)
  also have "\<dots> = (x * a) mod n"
    using assms(1) unfolding modpow_def by (simp only:)
  also have "\<dots> = y"
    using assms(2,3) by (rule modpow_mod_eq)
  finally show ?thesis .
qed

lemma modpow_sq:
  assumes "modpow n a (numeral k) = x" and "x * x = q * n + y" and "y < n"
  shows "modpow n a (numeral (Num.Bit0 k)) = y"
  unfolding numeral_Bit0 using assms by (rule modpow_sq_gen)

lemma modpow_mul:
  assumes "modpow n a (numeral (Num.Bit0 k)) = x" and "x * a = q * n + y" and "y < n"
  shows "modpow n a (numeral (Num.Bit1 k)) = y"
proof -
  have "numeral (Num.Bit1 k) = numeral (Num.Bit0 k) + (1::nat)"
    by (simp only: numeral_Bit1 numeral_Bit0)
  then show ?thesis
    using modpow_mul_gen [OF assms] by (simp only:)
qed

lemma modpow_sq_mul:
  assumes "modpow n a (numeral k) = x" and "x * x * a = q * n + y" and "y < n"
  shows "modpow n a (numeral (Num.Bit1 k)) = y"
proof -
  let ?e = "numeral k :: nat"
  have r: "a ^ ?e mod n = x mod n"
    unfolding assms(1) [unfolded modpow_def, symmetric] by (simp only: mod_mod_trivial)
  have "(a ^ ?e * a ^ ?e) mod n = (x * x) mod n"
    by (rule mod_mult_cong [OF r r])
  then have "(a ^ ?e * a ^ ?e * a) mod n = (x * x * a) mod n"
    by (rule mod_mult_cong) (rule refl)
  also have "\<dots> = y"
    using assms(2,3) by (rule modpow_mod_eq)
  finally have "(a ^ ?e * a ^ ?e * a) mod n = y" .
  moreover have "a ^ numeral (Num.Bit1 k) = a ^ ?e * a ^ ?e * a"
    by (simp only: numeral_Bit1 power_add power_one_right)
  ultimately show ?thesis
    unfolding modpow_def by (simp only:)
qed

lemma modpow_pw:
  assumes "modpow n a e = b" and "modpow n b f = c"
  shows "modpow n a (e * f) = c"
  using assms by (auto simp add: modpow_def power_mult power_mod)

lemma trial_division:
  assumes "1 < n" and "n < k * k" and "list_all (\<lambda>d. n mod d \<noteq> 0) [2..<k]"
  shows "is_prime n"
proof (rule ccontr)
  assume "\<not> is_prime n"
  from small_prime_factor [OF assms(1) this] obtain p
    where p: "is_prime p" "p dvd n" "p * p \<le> n" by blast
  from p(3) assms(2) have "p * p < k * k" by simp
  then have "p < k" by (metis le_less_linear mult_le_mono not_le)
  moreover from p(1) have "2 \<le> p" by (simp add: is_prime_def)
  ultimately have "p \<in> set [2..<k]" by simp
  with assms(3) have "n mod p \<noteq> 0" by (simp add: list_all_iff)
  with p(2) show False by (simp add: dvd_eq_mod_eq_0)
qed

lemma pocklington1:
  assumes q: "is_prime q" and n: "1 < n" and F: "n = q * R + 1" and big: "n \<le> q * q"
    and c: "modpow n a R = c" and one: "modpow n c q = 1"
    and d: "d + 1 = c" and cert: "u * d = v * n + 1"
  shows "is_prime n"
proof (rule pocklington [OF n _ big, of R a])
  show nm: "n - 1 = q * R" using F by simp
  from q have q0: "0 < q" by (simp add: is_prime_def)
  have "modpow n a (R * q) = 1" by (rule modpow_pw [OF c one])
  moreover have "n - 1 = R * q" unfolding nm by (rule mult.commute)
  ultimately show "modpow n a (n - 1) = 1" by (simp only:)
  fix r assume "is_prime r" "r dvd q"
  with q have "r = q" by (blast intro: prime_dvd_prime)
  then have "(n - 1) div r = R" unfolding nm using q0 by simp
  moreover have "coprime (c - 1) n"
    using coprime_cert [OF cert] d by auto
  ultimately show "coprime (modpow n a ((n - 1) div r) - 1) n" by (simp add: c)
qed

lemma pocklington2:
  assumes q1: "is_prime q1" and q2: "is_prime q2" and n: "1 < n"
    and F: "n = q1 * q2 * R + 1" and big: "n \<le> (q1 * q2) * (q1 * q2)"
    and b: "modpow n a R = b" and c1: "modpow n b q2 = c1" and c2: "modpow n b q1 = c2"
    and one: "modpow n c2 q2 = 1"
    and d1: "d1 + 1 = c1" and cert1: "u1 * d1 = v1 * n + 1"
    and d2: "d2 + 1 = c2" and cert2: "u2 * d2 = v2 * n + 1"
  shows "is_prime n"
proof (rule pocklington [OF n _ big, of R a])
  show nm: "n - 1 = q1 * q2 * R" using F by simp
  from q1 have q10: "0 < q1" by (simp add: is_prime_def)
  from q2 have q20: "0 < q2" by (simp add: is_prime_def)
  have e1: "modpow n a (R * q2) = c1" by (rule modpow_pw [OF b c1])
  have e2: "modpow n a (R * q1) = c2" by (rule modpow_pw [OF b c2])
  have "modpow n a (R * q1 * q2) = 1" by (rule modpow_pw [OF e2 one])
  moreover have "n - 1 = R * q1 * q2" unfolding nm by (simp only: ac_simps)
  ultimately show "modpow n a (n - 1) = 1" by (simp only:)
  fix r assume r: "is_prime r" "r dvd q1 * q2"
  from prime_dvd_mult [OF r] have "r = q1 \<or> r = q2"
    using q1 q2 r(1) by (blast intro: prime_dvd_prime)
  then show "coprime (modpow n a ((n - 1) div r) - 1) n"
  proof
    assume "r = q1"
    then have "(n - 1) div r = R * q2" unfolding nm using q10 by (simp add: ac_simps)
    moreover have "coprime (c1 - 1) n"
      using coprime_cert [OF cert1] d1 by auto
    ultimately show ?thesis by (simp add: e1)
  next
    assume "r = q2"
    then have "(n - 1) div r = R * q1" unfolding nm using q20 by (simp add: ac_simps)
    moreover have "coprime (c2 - 1) n"
      using coprime_cert [OF cert2] d2 by auto
    ultimately show ?thesis by (simp add: e2)
  qed
qed

subsection \<open>The certificate of the modulus\<close>

text \<open>
  The modulus \<open>r\<close> has \<open>r - 1 = q\<^sub>1 * q\<^sub>2 * R\<close> with two primes whose product exceeds the
  square root of \<open>r\<close>. Each lemma below is one step of a modular power, a squaring or a
  multiplication, checked from its quotient and remainder; the primes \<open>q\<^sub>1\<close> and \<open>q\<^sub>2\<close>
  are certified the same way, down to primes small enough for trial division.
\<close>

lemma prime_1637: "is_prime 1637"
  by (rule trial_division [where k = 41]) (simp_all add: upt_rec_numeral)

lemma prime_853: "is_prime 853"
  by (rule trial_division [where k = 30]) (simp_all add: upt_rec_numeral)

lemma c30_531422_a_0: "modpow 639533339 2 Numeral1 = 2"
  by (rule modpow_start) (simp_all only: arith_simps rel_simps)

lemma c30_531422_a_1: "modpow 639533339 2 3 = 8"
  by (rule modpow_sq_mul [OF c30_531422_a_0, where q = 0]) (simp_all only: arith_simps rel_simps)

lemma c30_531422_a_2: "modpow 639533339 2 7 = 128"
  by (rule modpow_sq_mul [OF c30_531422_a_1, where q = 0]) (simp_all only: arith_simps rel_simps)

lemma c30_531422_a_3: "modpow 639533339 2 14 = 16384"
  by (rule modpow_sq [OF c30_531422_a_2, where q = 0]) (simp_all only: arith_simps rel_simps)

lemma c30_531422_a_4: "modpow 639533339 2 28 = 268435456"
  by (rule modpow_sq [OF c30_531422_a_3, where q = 0]) (simp_all only: arith_simps rel_simps)

lemma c30_531422_a_5: "modpow 639533339 2 57 = 588504884"
  by (rule modpow_sq_mul [OF c30_531422_a_4, where q = 225344292]) (simp_all only: arith_simps rel_simps)

lemma c30_531422_a_6: "modpow 639533339 2 114 = 381214812"
  by (rule modpow_sq [OF c30_531422_a_5, where q = 541547996]) (simp_all only: arith_simps rel_simps)

lemma c30_531422_a_7: "modpow 639533339 2 229 = 307520719"
  by (rule modpow_sq_mul [OF c30_531422_a_6, where q = 454471171]) (simp_all only: arith_simps rel_simps)

lemma c30_531422_a_8: "modpow 639533339 2 458 = 569936353"
  by (rule modpow_sq [OF c30_531422_a_7, where q = 147871872]) (simp_all only: arith_simps rel_simps)

lemma c30_531422_b_0: "modpow 639533339 569936353 Numeral1 = 569936353"
  by (rule modpow_start) (simp_all only: arith_simps rel_simps)

lemma c30_531422_b_1: "modpow 639533339 569936353 2 = 8632283"
  by (rule modpow_sq [OF c30_531422_b_0, where q = 507913234]) (simp_all only: arith_simps rel_simps)

lemma c30_531422_b_2: "modpow 639533339 569936353 3 = 576757596"
  by (rule modpow_mul [OF c30_531422_b_1, where q = 7692877]) (simp_all only: arith_simps rel_simps)

lemma c30_531422_b_3: "modpow 639533339 569936353 6 = 346350812"
  by (rule modpow_sq [OF c30_531422_b_2, where q = 520143836]) (simp_all only: arith_simps rel_simps)

lemma c30_531422_b_4: "modpow 639533339 569936353 12 = 476081691"
  by (rule modpow_sq [OF c30_531422_b_3, where q = 187572527]) (simp_all only: arith_simps rel_simps)

lemma c30_531422_b_5: "modpow 639533339 569936353 13 = 580870054"
  by (rule modpow_mul [OF c30_531422_b_4, where q = 424272271]) (simp_all only: arith_simps rel_simps)

lemma c30_531422_b_6: "modpow 639533339 569936353 26 = 307631766"
  by (rule modpow_sq [OF c30_531422_b_5, where q = 527587850]) (simp_all only: arith_simps rel_simps)

lemma c30_531422_b_7: "modpow 639533339 569936353 52 = 293866202"
  by (rule modpow_sq [OF c30_531422_b_6, where q = 147978686]) (simp_all only: arith_simps rel_simps)

lemma c30_531422_b_8: "modpow 639533339 569936353 53 = 48885504"
  by (rule modpow_mul [OF c30_531422_b_7, where q = 261886318]) (simp_all only: arith_simps rel_simps)

lemma c30_531422_b_9: "modpow 639533339 569936353 106 = 308492291"
  by (rule modpow_sq [OF c30_531422_b_8, where q = 3736775]) (simp_all only: arith_simps rel_simps)

lemma c30_531422_b_10: "modpow 639533339 569936353 212 = 42584974"
  by (rule modpow_sq [OF c30_531422_b_9, where q = 148807713]) (simp_all only: arith_simps rel_simps)

lemma c30_531422_b_11: "modpow 639533339 569936353 213 = 315972641"
  by (rule modpow_mul [OF c30_531422_b_10, where q = 37950679]) (simp_all only: arith_simps rel_simps)

lemma c30_531422_b_12: "modpow 639533339 569936353 426 = 195747935"
  by (rule modpow_sq [OF c30_531422_b_11, where q = 156111814]) (simp_all only: arith_simps rel_simps)

lemma c30_531422_b_13: "modpow 639533339 569936353 852 = 328715981"
  by (rule modpow_sq [OF c30_531422_b_12, where q = 59914396]) (simp_all only: arith_simps rel_simps)

lemma c30_531422_b_14: "modpow 639533339 569936353 853 = 248876995"
  by (rule modpow_mul [OF c30_531422_b_13, where q = 292943582]) (simp_all only: arith_simps rel_simps)

lemma c30_531422_c_0: "modpow 639533339 569936353 Numeral1 = 569936353"
  by (rule modpow_start) (simp_all only: arith_simps rel_simps)

lemma c30_531422_c_1: "modpow 639533339 569936353 2 = 8632283"
  by (rule modpow_sq [OF c30_531422_c_0, where q = 507913234]) (simp_all only: arith_simps rel_simps)

lemma c30_531422_c_2: "modpow 639533339 569936353 3 = 576757596"
  by (rule modpow_mul [OF c30_531422_c_1, where q = 7692877]) (simp_all only: arith_simps rel_simps)

lemma c30_531422_c_3: "modpow 639533339 569936353 6 = 346350812"
  by (rule modpow_sq [OF c30_531422_c_2, where q = 520143836]) (simp_all only: arith_simps rel_simps)

lemma c30_531422_c_4: "modpow 639533339 569936353 12 = 476081691"
  by (rule modpow_sq [OF c30_531422_c_3, where q = 187572527]) (simp_all only: arith_simps rel_simps)

lemma c30_531422_c_5: "modpow 639533339 569936353 24 = 590058143"
  by (rule modpow_sq [OF c30_531422_c_4, where q = 354404942]) (simp_all only: arith_simps rel_simps)

lemma c30_531422_c_6: "modpow 639533339 569936353 25 = 282182576"
  by (rule modpow_mul [OF c30_531422_c_5, where q = 525845277]) (simp_all only: arith_simps rel_simps)

lemma c30_531422_c_7: "modpow 639533339 569936353 50 = 97850539"
  by (rule modpow_sq [OF c30_531422_c_6, where q = 124507983]) (simp_all only: arith_simps rel_simps)

lemma c30_531422_c_8: "modpow 639533339 569936353 51 = 144132996"
  by (rule modpow_mul [OF c30_531422_c_7, where q = 87201989]) (simp_all only: arith_simps rel_simps)

lemma c30_531422_c_9: "modpow 639533339 569936353 102 = 306995837"
  by (rule modpow_sq [OF c30_531422_c_8, where q = 32483561]) (simp_all only: arith_simps rel_simps)

lemma c30_531422_c_10: "modpow 639533339 569936353 204 = 530514611"
  by (rule modpow_sq [OF c30_531422_c_9, where q = 147367522]) (simp_all only: arith_simps rel_simps)

lemma c30_531422_c_11: "modpow 639533339 569936353 408 = 599028696"
  by (rule modpow_sq [OF c30_531422_c_10, where q = 440079875]) (simp_all only: arith_simps rel_simps)

lemma c30_531422_c_12: "modpow 639533339 569936353 409 = 148227881"
  by (rule modpow_mul [OF c30_531422_c_11, where q = 533839613]) (simp_all only: arith_simps rel_simps)

lemma c30_531422_c_13: "modpow 639533339 569936353 818 = 449868847"
  by (rule modpow_sq [OF c30_531422_c_12, where q = 34355526]) (simp_all only: arith_simps rel_simps)

lemma c30_531422_c_14: "modpow 639533339 569936353 1636 = 541344755"
  by (rule modpow_sq [OF c30_531422_c_13, where q = 316452586]) (simp_all only: arith_simps rel_simps)

lemma c30_531422_c_15: "modpow 639533339 569936353 1637 = 256057581"
  by (rule modpow_mul [OF c30_531422_c_14, where q = 482433106]) (simp_all only: arith_simps rel_simps)

lemma c30_531422_d_0: "modpow 639533339 256057581 Numeral1 = 256057581"
  by (rule modpow_start) (simp_all only: arith_simps rel_simps)

lemma c30_531422_d_1: "modpow 639533339 256057581 2 = 537353564"
  by (rule modpow_sq [OF c30_531422_d_0, where q = 102520823]) (simp_all only: arith_simps rel_simps)

lemma c30_531422_d_2: "modpow 639533339 256057581 3 = 209004351"
  by (rule modpow_mul [OF c30_531422_d_1, where q = 215146647]) (simp_all only: arith_simps rel_simps)

lemma c30_531422_d_3: "modpow 639533339 256057581 6 = 526940689"
  by (rule modpow_sq [OF c30_531422_d_2, where q = 68304208]) (simp_all only: arith_simps rel_simps)

lemma c30_531422_d_4: "modpow 639533339 256057581 12 = 628562069"
  by (rule modpow_sq [OF c30_531422_d_3, where q = 434170468]) (simp_all only: arith_simps rel_simps)

lemma c30_531422_d_5: "modpow 639533339 256057581 13 = 601994091"
  by (rule modpow_mul [OF c30_531422_d_4, where q = 251664882]) (simp_all only: arith_simps rel_simps)

lemma c30_531422_d_6: "modpow 639533339 256057581 26 = 55785818"
  by (rule modpow_sq [OF c30_531422_d_5, where q = 566658317]) (simp_all only: arith_simps rel_simps)

lemma c30_531422_d_7: "modpow 639533339 256057581 52 = 6754342"
  by (rule modpow_sq [OF c30_531422_d_6, where q = 4866138]) (simp_all only: arith_simps rel_simps)

lemma c30_531422_d_8: "modpow 639533339 256057581 53 = 232575578"
  by (rule modpow_mul [OF c30_531422_d_7, where q = 2704316]) (simp_all only: arith_simps rel_simps)

lemma c30_531422_d_9: "modpow 639533339 256057581 106 = 308150347"
  by (rule modpow_sq [OF c30_531422_d_8, where q = 84579483]) (simp_all only: arith_simps rel_simps)

lemma c30_531422_d_10: "modpow 639533339 256057581 212 = 131911697"
  by (rule modpow_sq [OF c30_531422_d_9, where q = 148478008]) (simp_all only: arith_simps rel_simps)

lemma c30_531422_d_11: "modpow 639533339 256057581 213 = 286739634"
  by (rule modpow_mul [OF c30_531422_d_10, where q = 52815057]) (simp_all only: arith_simps rel_simps)

lemma c30_531422_d_12: "modpow 639533339 256057581 426 = 368469890"
  by (rule modpow_sq [OF c30_531422_d_11, where q = 128561894]) (simp_all only: arith_simps rel_simps)

lemma c30_531422_d_13: "modpow 639533339 256057581 852 = 273937515"
  by (rule modpow_sq [OF c30_531422_d_12, where q = 212295515]) (simp_all only: arith_simps rel_simps)

lemma c30_531422_d_14: "modpow 639533339 256057581 853 = 1"
  by (rule modpow_mul [OF c30_531422_d_13, where q = 109679626]) (simp_all only: arith_simps rel_simps)

lemma prime_30_bits_531422: "is_prime 639533339"
  by (rule pocklington2 [where ?d1.0 = 248876994 and ?u1.0 = 296391531 and ?v1.0 = 115341967 and ?d2.0 = 256057580 and ?u2.0 = 303978671 and ?v2.0 = 121707561,
      OF prime_1637 prime_853 _ _ _ c30_531422_a_8 c30_531422_b_14 c30_531422_c_15 c30_531422_d_14])
    (simp_all only: arith_simps rel_simps)

lemma c56_436688_a_0: "modpow 65865678001877903 2 Numeral1 = 2"
  by (rule modpow_start) (simp_all only: arith_simps rel_simps)

lemma c56_436688_a_1: "modpow 65865678001877903 2 3 = 8"
  by (rule modpow_sq_mul [OF c56_436688_a_0, where q = 0]) (simp_all only: arith_simps rel_simps)

lemma c56_436688_a_2: "modpow 65865678001877903 2 6 = 64"
  by (rule modpow_sq [OF c56_436688_a_1, where q = 0]) (simp_all only: arith_simps rel_simps)

lemma c56_436688_a_3: "modpow 65865678001877903 2 12 = 4096"
  by (rule modpow_sq [OF c56_436688_a_2, where q = 0]) (simp_all only: arith_simps rel_simps)

lemma c56_436688_a_4: "modpow 65865678001877903 2 24 = 16777216"
  by (rule modpow_sq [OF c56_436688_a_3, where q = 0]) (simp_all only: arith_simps rel_simps)

lemma c56_436688_a_5: "modpow 65865678001877903 2 49 = 562949953421312"
  by (rule modpow_sq_mul [OF c56_436688_a_4, where q = 0]) (simp_all only: arith_simps rel_simps)

lemma c56_436688_a_6: "modpow 65865678001877903 2 98 = 33669438334804592"
  by (rule modpow_sq [OF c56_436688_a_5, where q = 4811499094384]) (simp_all only: arith_simps rel_simps)

lemma c56_436688_a_7: "modpow 65865678001877903 2 196 = 29183889115278499"
  by (rule modpow_sq [OF c56_436688_a_6, where q = 17211256487011155]) (simp_all only: arith_simps rel_simps)

lemma c56_436688_a_8: "modpow 65865678001877903 2 392 = 29525774262854301"
  by (rule modpow_sq [OF c56_436688_a_7, where q = 12930852755642900]) (simp_all only: arith_simps rel_simps)

lemma c56_436688_a_9: "modpow 65865678001877903 2 785 = 38887542728293898"
  by (rule modpow_sq_mul [OF c56_436688_a_8, where q = 26471187187845368]) (simp_all only: arith_simps rel_simps)

lemma c56_436688_a_10: "modpow 65865678001877903 2 1571 = 59236409187319396"
  by (rule modpow_sq_mul [OF c56_436688_a_9, where q = 45918937611232604]) (simp_all only: arith_simps rel_simps)

lemma c56_436688_a_11: "modpow 65865678001877903 2 3143 = 6154534983015613"
  by (rule modpow_sq_mul [OF c56_436688_a_10, where q = 106548730077825773]) (simp_all only: arith_simps rel_simps)

lemma c56_436688_a_12: "modpow 65865678001877903 2 6286 = 36599328655427822"
  by (rule modpow_sq [OF c56_436688_a_11, where q = 575084049936949]) (simp_all only: arith_simps rel_simps)

lemma c56_436688_a_13: "modpow 65865678001877903 2 12572 = 34345934146059857"
  by (rule modpow_sq [OF c56_436688_a_12, where q = 20337008570530909]) (simp_all only: arith_simps rel_simps)

lemma c56_436688_a_14: "modpow 65865678001877903 2 25144 = 24290170823953961"
  by (rule modpow_sq [OF c56_436688_a_13, where q = 17909831465362696]) (simp_all only: arith_simps rel_simps)

lemma c56_436688_a_15: "modpow 65865678001877903 2 50288 = 36278529593780522"
  by (rule modpow_sq [OF c56_436688_a_14, where q = 8957812574859433]) (simp_all only: arith_simps rel_simps)

lemma c56_436688_a_16: "modpow 65865678001877903 2 100576 = 3469598488387767"
  by (rule modpow_sq [OF c56_436688_a_15, where q = 19982056655505539]) (simp_all only: arith_simps rel_simps)

lemma c56_436688_a_17: "modpow 65865678001877903 2 201152 = 2511672767434082"
  by (rule modpow_sq [OF c56_436688_a_16, where q = 182767627022369]) (simp_all only: arith_simps rel_simps)

lemma c56_436688_a_18: "modpow 65865678001877903 2 402305 = 38057013584529261"
  by (rule modpow_sq_mul [OF c56_436688_a_17, where q = 191556521759029]) (simp_all only: arith_simps rel_simps)

lemma c56_436688_a_19: "modpow 65865678001877903 2 804611 = 20679008872633708"
  by (rule modpow_sq_mul [OF c56_436688_a_18, where q = 43978482478590778]) (simp_all only: arith_simps rel_simps)

lemma c56_436688_a_20: "modpow 65865678001877903 2 1609222 = 54636828819129795"
  by (rule modpow_sq [OF c56_436688_a_19, where q = 6492325303965923]) (simp_all only: arith_simps rel_simps)

lemma c56_436688_a_21: "modpow 65865678001877903 2 3218444 = 64564281277289374"
  by (rule modpow_sq [OF c56_436688_a_20, where q = 45322285505446117]) (simp_all only: arith_simps rel_simps)

lemma c56_436688_a_22: "modpow 65865678001877903 2 6436888 = 44900285821727216"
  by (rule modpow_sq [OF c56_436688_a_21, where q = 63288597996882220]) (simp_all only: arith_simps rel_simps)

lemma c56_436688_a_23: "modpow 65865678001877903 2 12873777 = 37692726735093938"
  by (rule modpow_sq_mul [OF c56_436688_a_22, where q = 61216576767503058]) (simp_all only: arith_simps rel_simps)

lemma c56_436688_a_24: "modpow 65865678001877903 2 25747554 = 11626112380210856"
  by (rule modpow_sq [OF c56_436688_a_23, where q = 21570288074556196]) (simp_all only: arith_simps rel_simps)

lemma c56_436688_a_25: "modpow 65865678001877903 2 51495109 = 29991397622566647"
  by (rule modpow_sq_mul [OF c56_436688_a_24, where q = 4104307225788775]) (simp_all only: arith_simps rel_simps)

lemma c56_436688_a_26: "modpow 65865678001877903 2 102990218 = 8595199928015311"
  by (rule modpow_sq [OF c56_436688_a_25, where q = 13656337543951966]) (simp_all only: arith_simps rel_simps)

lemma c56_436688_b_0: "modpow 65865678001877903 8595199928015311 Numeral1 = 8595199928015311"
  by (rule modpow_start) (simp_all only: arith_simps rel_simps)

lemma c56_436688_b_1: "modpow 65865678001877903 8595199928015311 2 = 19226070235069677"
  by (rule modpow_sq [OF c56_436688_b_0, where q = 1121638219535948]) (simp_all only: arith_simps rel_simps)

lemma c56_436688_b_2: "modpow 65865678001877903 8595199928015311 4 = 56968334197042590"
  by (rule modpow_sq [OF c56_436688_b_1, where q = 5612054531243013]) (simp_all only: arith_simps rel_simps)

lemma c56_436688_b_3: "modpow 65865678001877903 8595199928015311 8 = 3268076130238717"
  by (rule modpow_sq [OF c56_436688_b_2, where q = 49272871693409161]) (simp_all only: arith_simps rel_simps)

lemma c56_436688_b_4: "modpow 65865678001877903 8595199928015311 9 = 18611656393288241"
  by (rule modpow_mul [OF c56_436688_b_3, where q = 426470486169982]) (simp_all only: arith_simps rel_simps)

lemma c56_436688_b_5: "modpow 65865678001877903 8595199928015311 18 = 27479267257976935"
  by (rule modpow_sq [OF c56_436688_b_4, where q = 5259093418759782]) (simp_all only: arith_simps rel_simps)

lemma c56_436688_b_6: "modpow 65865678001877903 8595199928015311 19 = 43734149829486000"
  by (rule modpow_mul [OF c56_436688_b_5, where q = 3585931294155095]) (simp_all only: arith_simps rel_simps)

lemma c56_436688_b_7: "modpow 65865678001877903 8595199928015311 38 = 48447415136911303"
  by (rule modpow_sq [OF c56_436688_b_6, where q = 29039037011862199]) (simp_all only: arith_simps rel_simps)

lemma c56_436688_b_8: "modpow 65865678001877903 8595199928015311 76 = 64820389105270256"
  by (rule modpow_sq [OF c56_436688_b_7, where q = 35635434184421551]) (simp_all only: arith_simps rel_simps)

lemma c56_436688_b_9: "modpow 65865678001877903 8595199928015311 152 = 51329992322973469"
  by (rule modpow_sq [OF c56_436688_b_8, where q = 63791688952762989]) (simp_all only: arith_simps rel_simps)

lemma c56_436688_b_10: "modpow 65865678001877903 8595199928015311 304 = 61286237417813760"
  by (rule modpow_sq [OF c56_436688_b_9, where q = 40002140595916967]) (simp_all only: arith_simps rel_simps)

lemma c56_436688_b_11: "modpow 65865678001877903 8595199928015311 608 = 32725522517796593"
  by (rule modpow_sq [OF c56_436688_b_10, where q = 57025191431651969]) (simp_all only: arith_simps rel_simps)

lemma c56_436688_b_12: "modpow 65865678001877903 8595199928015311 609 = 58465146411114843"
  by (rule modpow_mul [OF c56_436688_b_11, where q = 4270546016108860]) (simp_all only: arith_simps rel_simps)

lemma c56_436688_b_13: "modpow 65865678001877903 8595199928015311 1218 = 42036321954867756"
  by (rule modpow_sq [OF c56_436688_b_12, where q = 51896123270387331]) (simp_all only: arith_simps rel_simps)

lemma c56_436688_b_14: "modpow 65865678001877903 8595199928015311 1219 = 25160803760737125"
  by (rule modpow_mul [OF c56_436688_b_13, where q = 5485567026732897]) (simp_all only: arith_simps rel_simps)

lemma c56_436688_b_15: "modpow 65865678001877903 8595199928015311 2438 = 40998948362715937"
  by (rule modpow_sq [OF c56_436688_b_14, where q = 9611470876657096]) (simp_all only: arith_simps rel_simps)

lemma c56_436688_b_16: "modpow 65865678001877903 8595199928015311 2439 = 43282835694537230"
  by (rule modpow_mul [OF c56_436688_b_15, where q = 5350194041969359]) (simp_all only: arith_simps rel_simps)

lemma c56_436688_b_17: "modpow 65865678001877903 8595199928015311 4878 = 3118169928583163"
  by (rule modpow_sq [OF c56_436688_b_16, where q = 28442793311971879]) (simp_all only: arith_simps rel_simps)

lemma c56_436688_b_18: "modpow 65865678001877903 8595199928015311 4879 = 17564606142202988"
  by (rule modpow_mul [OF c56_436688_b_17, where q = 406908343749735]) (simp_all only: arith_simps rel_simps)

lemma c56_436688_b_19: "modpow 65865678001877903 8595199928015311 9758 = 55317398354378580"
  by (rule modpow_sq [OF c56_436688_b_18, where q = 4684008398454788]) (simp_all only: arith_simps rel_simps)

lemma c56_436688_b_20: "modpow 65865678001877903 8595199928015311 19516 = 13529503851359270"
  by (rule modpow_sq [OF c56_436688_b_19, where q = 46458408286782710]) (simp_all only: arith_simps rel_simps)

lemma c56_436688_b_21: "modpow 65865678001877903 8595199928015311 19517 = 1018752242786798"
  by (rule modpow_mul [OF c56_436688_b_20, where q = 1765544575825524]) (simp_all only: arith_simps rel_simps)

lemma c56_436688_b_22: "modpow 65865678001877903 8595199928015311 39034 = 12272844760177368"
  by (rule modpow_sq [OF c56_436688_b_21, where q = 15757161600212]) (simp_all only: arith_simps rel_simps)

lemma c56_436688_b_23: "modpow 65865678001877903 8595199928015311 78068 = 60491326033384519"
  by (rule modpow_sq [OF c56_436688_b_22, where q = 2286816488902135]) (simp_all only: arith_simps rel_simps)

lemma c56_436688_b_24: "modpow 65865678001877903 8595199928015311 156136 = 51365274646233044"
  by (rule modpow_sq [OF c56_436688_b_23, where q = 55555497738486739]) (simp_all only: arith_simps rel_simps)

lemma c56_436688_b_25: "modpow 65865678001877903 8595199928015311 312272 = 35194706668242559"
  by (rule modpow_sq [OF c56_436688_b_24, where q = 40057151456145759]) (simp_all only: arith_simps rel_simps)

lemma c56_436688_b_26: "modpow 65865678001877903 8595199928015311 624544 = 41777112883480135"
  by (rule modpow_sq [OF c56_436688_b_25, where q = 18805961086870182]) (simp_all only: arith_simps rel_simps)

lemma c56_436688_b_27: "modpow 65865678001877903 8595199928015311 1249088 = 38459179869673960"
  by (rule modpow_sq [OF c56_436688_b_26, where q = 26498279738793255]) (simp_all only: arith_simps rel_simps)

lemma c56_436688_b_28: "modpow 65865678001877903 8595199928015311 2498176 = 28700056142429432"
  by (rule modpow_sq [OF c56_436688_b_27, where q = 22456438028403256]) (simp_all only: arith_simps rel_simps)

lemma c56_436688_b_29: "modpow 65865678001877903 8595199928015311 2498177 = 34048583907657784"
  by (rule modpow_mul [OF c56_436688_b_28, where q = 3745239219771056]) (simp_all only: arith_simps rel_simps)

lemma c56_436688_b_30: "modpow 65865678001877903 8595199928015311 4996354 = 64143099883154873"
  by (rule modpow_sq [OF c56_436688_b_29, where q = 17601064792557961]) (simp_all only: arith_simps rel_simps)

lemma c56_436688_b_31: "modpow 65865678001877903 8595199928015311 9992708 = 7159896889705541"
  by (rule modpow_sq [OF c56_436688_b_30, where q = 62465572167997396]) (simp_all only: arith_simps rel_simps)

lemma c56_436688_b_32: "modpow 65865678001877903 8595199928015311 19985416 = 33061215984632264"
  by (rule modpow_sq [OF c56_436688_b_31, where q = 778313152257439]) (simp_all only: arith_simps rel_simps)

lemma c56_436688_b_33: "modpow 65865678001877903 8595199928015311 39970832 = 44006274996778655"
  by (rule modpow_sq [OF c56_436688_b_32, where q = 16595046700215247]) (simp_all only: arith_simps rel_simps)

lemma c56_436688_b_34: "modpow 65865678001877903 8595199928015311 39970833 = 45545585862734603"
  by (rule modpow_mul [OF c56_436688_b_33, where q = 5742637791927834]) (simp_all only: arith_simps rel_simps)

lemma c56_436688_b_35: "modpow 65865678001877903 8595199928015311 79941666 = 54603917576856036"
  by (rule modpow_sq [OF c56_436688_b_34, where q = 31494405804500891]) (simp_all only: arith_simps rel_simps)

lemma c56_436688_b_36: "modpow 65865678001877903 8595199928015311 79941667 = 60626625102889057"
  by (rule modpow_mul [OF c56_436688_b_35, where q = 7125586537081813]) (simp_all only: arith_simps rel_simps)

lemma c56_436688_b_37: "modpow 65865678001877903 8595199928015311 159883334 = 57018535114983506"
  by (rule modpow_sq [OF c56_436688_b_36, where q = 55804294176725281]) (simp_all only: arith_simps rel_simps)

lemma c56_436688_b_38: "modpow 65865678001877903 8595199928015311 319766668 = 22822025749429200"
  by (rule modpow_sq [OF c56_436688_b_37, where q = 49359749193896012]) (simp_all only: arith_simps rel_simps)

lemma c56_436688_b_39: "modpow 65865678001877903 8595199928015311 319766669 = 51349957123922359"
  by (rule modpow_mul [OF c56_436688_b_38, where q = 2978180442825847]) (simp_all only: arith_simps rel_simps)

lemma c56_436688_b_40: "modpow 65865678001877903 8595199928015311 639533338 = 16886017849676097"
  by (rule modpow_sq [OF c56_436688_b_39, where q = 40033264313372528]) (simp_all only: arith_simps rel_simps)

lemma c56_436688_b_41: "modpow 65865678001877903 8595199928015311 639533339 = 1"
  by (rule modpow_mul [OF c56_436688_b_40, where q = 2203555839839122]) (simp_all only: arith_simps rel_simps)

lemma prime_56_bits_436688: "is_prime 65865678001877903"
  by (rule pocklington1 [where d = 8595199928015310 and u = 39033286818209505 and v = 5093683299525283, OF prime_30_bits_531422 _ _ _ c56_436688_a_26 c56_436688_b_41])
    (simp_all only: arith_simps rel_simps)

lemma c94_801186_a_0: "modpow 13818364434197438864469338081 2 Numeral1 = 2"
  by (rule modpow_start) (simp_all only: arith_simps rel_simps)

lemma c94_801186_a_1: "modpow 13818364434197438864469338081 2 3 = 8"
  by (rule modpow_sq_mul [OF c94_801186_a_0, where q = 0]) (simp_all only: arith_simps rel_simps)

lemma c94_801186_a_2: "modpow 13818364434197438864469338081 2 6 = 64"
  by (rule modpow_sq [OF c94_801186_a_1, where q = 0]) (simp_all only: arith_simps rel_simps)

lemma c94_801186_a_3: "modpow 13818364434197438864469338081 2 12 = 4096"
  by (rule modpow_sq [OF c94_801186_a_2, where q = 0]) (simp_all only: arith_simps rel_simps)

lemma c94_801186_a_4: "modpow 13818364434197438864469338081 2 24 = 16777216"
  by (rule modpow_sq [OF c94_801186_a_3, where q = 0]) (simp_all only: arith_simps rel_simps)

lemma c94_801186_a_5: "modpow 13818364434197438864469338081 2 48 = 281474976710656"
  by (rule modpow_sq [OF c94_801186_a_4, where q = 0]) (simp_all only: arith_simps rel_simps)

lemma c94_801186_a_6: "modpow 13818364434197438864469338081 2 97 = 6454316252356847677925181781"
  by (rule modpow_sq_mul [OF c94_801186_a_5, where q = 11]) (simp_all only: arith_simps rel_simps)

lemma c94_801186_a_7: "modpow 13818364434197438864469338081 2 195 = 3495777377331334031211076330"
  by (rule modpow_sq_mul [OF c94_801186_a_6, where q = 6029396385341059018488849032]) (simp_all only: arith_simps rel_simps)

lemma c94_801186_a_8: "modpow 13818364434197438864469338081 2 390 = 5951512278320042950352511356"
  by (rule modpow_sq [OF c94_801186_a_7, where q = 884363669090863434061195624]) (simp_all only: arith_simps rel_simps)

lemma c94_801186_a_9: "modpow 13818364434197438864469338081 2 781 = 3033976872573099009872716038"
  by (rule modpow_sq_mul [OF c94_801186_a_8, where q = 5126583333022570793371124314]) (simp_all only: arith_simps rel_simps)

lemma c94_801186_a_10: "modpow 13818364434197438864469338081 2 1563 = 5465722792888113942790748758"
  by (rule modpow_sq_mul [OF c94_801186_a_9, where q = 1332287291617238877341127730]) (simp_all only: arith_simps rel_simps)

lemma c94_801186_a_11: "modpow 13818364434197438864469338081 2 3126 = 2529445442512532155623637994"
  by (rule modpow_sq [OF c94_801186_a_10, where q = 2161914732453046151362086970]) (simp_all only: arith_simps rel_simps)

lemma c94_801186_a_12: "modpow 13818364434197438864469338081 2 6252 = 440353389748771911165647087"
  by (rule modpow_sq [OF c94_801186_a_11, where q = 463013859354695514139124629]) (simp_all only: arith_simps rel_simps)

lemma c94_801186_a_13: "modpow 13818364434197438864469338081 2 12504 = 3112286383224838334422801731"
  by (rule modpow_sq [OF c94_801186_a_12, where q = 14032855247567947294659998]) (simp_all only: arith_simps rel_simps)

lemma c94_801186_a_14: "modpow 13818364434197438864469338081 2 25009 = 10883367953763375060713818947"
  by (rule modpow_sq_mul [OF c94_801186_a_13, where q = 1401949786073842315533881775]) (simp_all only: arith_simps rel_simps)

lemma c94_801186_a_15: "modpow 13818364434197438864469338081 2 50019 = 1565875933293083035397743092"
  by (rule modpow_sq_mul [OF c94_801186_a_14, where q = 17143519203165805732740378846]) (simp_all only: arith_simps rel_simps)

lemma c94_801186_a_16: "modpow 13818364434197438864469338081 2 100038 = 490821471181962507738633853"
  by (rule modpow_sq [OF c94_801186_a_15, where q = 177442666977171268995158131]) (simp_all only: arith_simps rel_simps)

lemma c94_801186_a_17: "modpow 13818364434197438864469338081 2 200077 = 3614946713776805242456025115"
  by (rule modpow_sq_mul [OF c94_801186_a_16, where q = 34867471866212608159567063]) (simp_all only: arith_simps rel_simps)

lemma c94_801186_a_18: "modpow 13818364434197438864469338081 2 400154 = 6928623037275597399094225425"
  by (rule modpow_sq [OF c94_801186_a_17, where q = 945686430957463357797433800]) (simp_all only: arith_simps rel_simps)

lemma c94_801186_a_19: "modpow 13818364434197438864469338081 2 800308 = 6696758088301655987143847572"
  by (rule modpow_sq [OF c94_801186_a_18, where q = 3474059279683071211899348013]) (simp_all only: arith_simps rel_simps)

lemma c94_801186_a_20: "modpow 13818364434197438864469338081 2 1600617 = 7819367881320079670549657171"
  by (rule modpow_sq_mul [OF c94_801186_a_19, where q = 6490864979975223539824368237]) (simp_all only: arith_simps rel_simps)

lemma c94_801186_a_21: "modpow 13818364434197438864469338081 2 3201234 = 10070268653200299995843475387"
  by (rule modpow_sq [OF c94_801186_a_20, where q = 4424728726368345116139345134]) (simp_all only: arith_simps rel_simps)

lemma c94_801186_a_22: "modpow 13818364434197438864469338081 2 6402469 = 3816707788476410042118326014"
  by (rule modpow_sq_mul [OF c94_801186_a_21, where q = 14677614160567393559483905204]) (simp_all only: arith_simps rel_simps)

lemma c94_801186_a_23: "modpow 13818364434197438864469338081 2 12804939 = 10583777458174873562128618897"
  by (rule modpow_sq_mul [OF c94_801186_a_22, where q = 2108391106919383424229655895]) (simp_all only: arith_simps rel_simps)

lemma c94_801186_a_24: "modpow 13818364434197438864469338081 2 25609879 = 61611541808797052178780058"
  by (rule modpow_sq_mul [OF c94_801186_a_23, where q = 16212677819808335378335784360]) (simp_all only: arith_simps rel_simps)

lemma c94_801186_a_25: "modpow 13818364434197438864469338081 2 51219758 = 13703444609288914443892883008"
  by (rule modpow_sq [OF c94_801186_a_24, where q = 274705599358989201090276]) (simp_all only: arith_simps rel_simps)

lemma c94_801186_a_26: "modpow 13818364434197438864469338081 2 102439517 = 11889075508072828027261057686"
  by (rule modpow_sq_mul [OF c94_801186_a_25, where q = 27178961020180359420052531882]) (simp_all only: arith_simps rel_simps)

lemma c94_801186_a_27: "modpow 13818364434197438864469338081 2 204879034 = 6696750377520025105869736712"
  by (rule modpow_sq [OF c94_801186_a_26, where q = 10229149557443025403805724764]) (simp_all only: arith_simps rel_simps)

lemma c94_801186_a_28: "modpow 13818364434197438864469338081 2 409758069 = 9102474818579538724333781260"
  by (rule modpow_sq_mul [OF c94_801186_a_27, where q = 6490850032559479353922649588]) (simp_all only: arith_simps rel_simps)

lemma c94_801186_a_29: "modpow 13818364434197438864469338081 2 819516138 = 7993853100498013929712605736"
  by (rule modpow_sq [OF c94_801186_a_28, where q = 5996009746119188294764522344]) (simp_all only: arith_simps rel_simps)

lemma c94_801186_a_30: "modpow 13818364434197438864469338081 2 1639032276 = 13077241212351534571391395675"
  by (rule modpow_sq [OF c94_801186_a_29, where q = 4624403104769690972397348741]) (simp_all only: arith_simps rel_simps)

lemma c94_801186_a_31: "modpow 13818364434197438864469338081 2 3278064552 = 776611901396362500027549364"
  by (rule modpow_sq [OF c94_801186_a_30, where q = 12375866806841661028364915781]) (simp_all only: arith_simps rel_simps)

lemma c94_801186_a_32: "modpow 13818364434197438864469338081 2 6556129105 = 692313430825461849034301520"
  by (rule modpow_sq_mul [OF c94_801186_a_31, where q = 87293405563666857765410512]) (simp_all only: arith_simps rel_simps)

lemma c94_801186_a_33: "modpow 13818364434197438864469338081 2 13112258210 = 9108418817094604941133376915"
  by (rule modpow_sq [OF c94_801186_a_32, where q = 34685572868172718843708685]) (simp_all only: arith_simps rel_simps)

lemma c94_801186_a_34: "modpow 13818364434197438864469338081 2 26224516420 = 13554696113211819504756156809"
  by (rule modpow_sq [OF c94_801186_a_33, where q = 6003843200305748308873229536]) (simp_all only: arith_simps rel_simps)

lemma c94_801186_a_35: "modpow 13818364434197438864469338081 2 52449032840 = 9851413725777882755728564398"
  by (rule modpow_sq [OF c94_801186_a_34, where q = 13296058849542891426351952643]) (simp_all only: arith_simps rel_simps)

lemma c94_801186_a_36: "modpow 13818364434197438864469338081 2 104898065680 = 11475781924502439791542453899"
  by (rule modpow_sq [OF c94_801186_a_35, where q = 7023287948338256667858150105]) (simp_all only: arith_simps rel_simps)

lemma c94_801186_a_37: "modpow 13818364434197438864469338081 2 209796131360 = 7935281130018080704632618576"
  by (rule modpow_sq [OF c94_801186_a_36, where q = 9530329830701529986281943625]) (simp_all only: arith_simps rel_simps)

lemma c94_801186_b_0: "modpow 13818364434197438864469338081 7935281130018080704632618576 Numeral1 = 7935281130018080704632618576"
  by (rule modpow_start) (simp_all only: arith_simps rel_simps)

lemma c94_801186_b_1: "modpow 13818364434197438864469338081 7935281130018080704632618576 2 = 8737664600113107555932973207"
  by (rule modpow_sq [OF c94_801186_b_0, where q = 4556884203790953644048480649]) (simp_all only: arith_simps rel_simps)

lemma c94_801186_b_2: "modpow 13818364434197438864469338081 7935281130018080704632618576 3 = 6024626098376368604520791548"
  by (rule modpow_mul [OF c94_801186_b_1, where q = 5017657867678860257462704564]) (simp_all only: arith_simps rel_simps)

lemma c94_801186_b_3: "modpow 13818364434197438864469338081 7935281130018080704632618576 6 = 10858316662900553865761844595"
  by (rule modpow_sq [OF c94_801186_b_2, where q = 2626658154666458512022102589]) (simp_all only: arith_simps rel_simps)

lemma c94_801186_b_4: "modpow 13818364434197438864469338081 7935281130018080704632618576 7 = 12956526157738010221657952029"
  by (rule modpow_mul [OF c94_801186_b_3, where q = 6235455413640637301026581811]) (simp_all only: arith_simps rel_simps)

lemma c94_801186_b_5: "modpow 13818364434197438864469338081 7935281130018080704632618576 14 = 13033178315209579486208481915"
  by (rule modpow_sq [OF c94_801186_b_4, where q = 12148439916717187945993007246]) (simp_all only: arith_simps rel_simps)

lemma c94_801186_b_6: "modpow 13818364434197438864469338081 7935281130018080704632618576 28 = 5621062163834556471109875244"
  by (rule modpow_sq [OF c94_801186_b_5, where q = 12292607985911379118920501901]) (simp_all only: arith_simps rel_simps)

lemma c94_801186_b_7: "modpow 13818364434197438864469338081 7935281130018080704632618576 29 = 9317283377009505927246043607"
  by (rule modpow_mul [OF c94_801186_b_6, where q = 3227929667924232023739200777]) (simp_all only: arith_simps rel_simps)

lemma c94_801186_b_8: "modpow 13818364434197438864469338081 7935281130018080704632618576 58 = 3487141057479528001213568715"
  by (rule modpow_sq [OF c94_801186_b_7, where q = 6282347664290678482172820614]) (simp_all only: arith_simps rel_simps)

lemma c94_801186_b_9: "modpow 13818364434197438864469338081 7935281130018080704632618576 116 = 3827346866853743770505767108"
  by (rule modpow_sq [OF c94_801186_b_8, where q = 879999424871565427703033557]) (simp_all only: arith_simps rel_simps)

lemma c94_801186_b_10: "modpow 13818364434197438864469338081 7935281130018080704632618576 117 = 8970463893610592358603246707"
  by (rule modpow_mul [OF c94_801186_b_9, where q = 2197877579159553238824627821]) (simp_all only: arith_simps rel_simps)

lemma c94_801186_b_11: "modpow 13818364434197438864469338081 7935281130018080704632618576 234 = 13047074007182443388793947416"
  by (rule modpow_sq [OF c94_801186_b_10, where q = 5823353613936214452629922993]) (simp_all only: arith_simps rel_simps)

lemma c94_801186_b_12: "modpow 13818364434197438864469338081 7935281130018080704632618576 468 = 1735893499133178782183529707"
  by (rule modpow_sq [OF c94_801186_b_11, where q = 12318834183271586178204503029]) (simp_all only: arith_simps rel_simps)

lemma c94_801186_b_13: "modpow 13818364434197438864469338081 7935281130018080704632618576 936 = 2277860932176299701036661121"
  by (rule modpow_sq [OF c94_801186_b_12, where q = 218066780238875881708645688]) (simp_all only: arith_simps rel_simps)

lemma c94_801186_b_14: "modpow 13818364434197438864469338081 7935281130018080704632618576 1872 = 10456841577218911324352461447"
  by (rule modpow_sq [OF c94_801186_b_13, where q = 375489476416926927519801274]) (simp_all only: arith_simps rel_simps)

lemma c94_801186_b_15: "modpow 13818364434197438864469338081 7935281130018080704632618576 3744 = 11582084072275290222046741408"
  by (rule modpow_sq [OF c94_801186_b_14, where q = 7913059196821277262825356721]) (simp_all only: arith_simps rel_simps)

lemma c94_801186_b_16: "modpow 13818364434197438864469338081 7935281130018080704632618576 7488 = 4440869139873206848644823141"
  by (rule modpow_sq [OF c94_801186_b_15, where q = 9707709772458610131767890683]) (simp_all only: arith_simps rel_simps)

lemma c94_801186_b_17: "modpow 13818364434197438864469338081 7935281130018080704632618576 14976 = 8368951715619670804580817870"
  by (rule modpow_sq [OF c94_801186_b_16, where q = 1427181835548658164227207531]) (simp_all only: arith_simps rel_simps)

lemma c94_801186_b_18: "modpow 13818364434197438864469338081 7935281130018080704632618576 29952 = 9262168650417991593144528480"
  by (rule modpow_sq [OF c94_801186_b_17, where q = 5068570390649222222447822820]) (simp_all only: arith_simps rel_simps)

lemma c94_801186_b_19: "modpow 13818364434197438864469338081 7935281130018080704632618576 59904 = 10413093752592839881829586129"
  by (rule modpow_sq [OF c94_801186_b_18, where q = 6208243277799203197439006991]) (simp_all only: arith_simps rel_simps)

lemma c94_801186_b_20: "modpow 13818364434197438864469338081 7935281130018080704632618576 119808 = 11541844625233648289585365274"
  by (rule modpow_sq [OF c94_801186_b_19, where q = 7846986668837679889618568807]) (simp_all only: arith_simps rel_simps)

lemma c94_801186_b_21: "modpow 13818364434197438864469338081 7935281130018080704632618576 239616 = 7370261739600282849502094594"
  by (rule modpow_sq [OF c94_801186_b_20, where q = 9640372273245219505906826722]) (simp_all only: arith_simps rel_simps)

lemma c94_801186_b_22: "modpow 13818364434197438864469338081 7935281130018080704632618576 239617 = 4089172793395676412059969189"
  by (rule modpow_mul [OF c94_801186_b_21, where q = 4232418328815130299746654555]) (simp_all only: arith_simps rel_simps)

lemma c94_801186_b_23: "modpow 13818364434197438864469338081 7935281130018080704632618576 479234 = 5171473324818621618623942445"
  by (rule modpow_sq [OF c94_801186_b_22, where q = 1210080557208763680525159596]) (simp_all only: arith_simps rel_simps)

lemma c94_801186_b_24: "modpow 13818364434197438864469338081 7935281130018080704632618576 479235 = 123795530186511610780831045"
  by (rule modpow_mul [OF c94_801186_b_23, where q = 2969750500085756279170655275]) (simp_all only: arith_simps rel_simps)

lemma c94_801186_b_25: "modpow 13818364434197438864469338081 7935281130018080704632618576 958470 = 860834511362378394843966920"
  by (rule modpow_sq [OF c94_801186_b_24, where q = 1109055515733298309438705]) (simp_all only: arith_simps rel_simps)

lemma c94_801186_b_26: "modpow 13818364434197438864469338081 7935281130018080704632618576 958471 = 3995911146589813549241500956"
  by (rule modpow_mul [OF c94_801186_b_25, where q = 494339535377795531552937444]) (simp_all only: arith_simps rel_simps)

lemma c94_801186_b_27: "modpow 13818364434197438864469338081 7935281130018080704632618576 1916942 = 12938755124550705220164169611"
  by (rule modpow_sq [OF c94_801186_b_26, where q = 1155513444986667017935628325]) (simp_all only: arith_simps rel_simps)

lemma c94_801186_b_28: "modpow 13818364434197438864469338081 7935281130018080704632618576 1916943 = 7213163208392189156475395815"
  by (rule modpow_mul [OF c94_801186_b_27, where q = 7430160050756767463919612841]) (simp_all only: arith_simps rel_simps)

lemma c94_801186_b_29: "modpow 13818364434197438864469338081 7935281130018080704632618576 3833886 = 9014099797620607050401944390"
  by (rule modpow_sq [OF c94_801186_b_28, where q = 3765259175111960399778577035]) (simp_all only: arith_simps rel_simps)

lemma c94_801186_b_30: "modpow 13818364434197438864469338081 7935281130018080704632618576 3833887 = 3274665168306567780251474939"
  by (rule modpow_mul [OF c94_801186_b_29, where q = 5176402487340607091201894021]) (simp_all only: arith_simps rel_simps)

lemma c94_801186_b_31: "modpow 13818364434197438864469338081 7935281130018080704632618576 7667774 = 7783209883449169180516943092"
  by (rule modpow_sq [OF c94_801186_b_30, where q = 776027583842131564554195909]) (simp_all only: arith_simps rel_simps)

lemma c94_801186_b_32: "modpow 13818364434197438864469338081 7935281130018080704632618576 15335548 = 12137052172119357729802499609"
  by (rule modpow_sq [OF c94_801186_b_31, where q = 4383902044145152776301274455]) (simp_all only: arith_simps rel_simps)

lemma c94_801186_b_33: "modpow 13818364434197438864469338081 7935281130018080704632618576 30671096 = 753190004820108438227960086"
  by (rule modpow_sq [OF c94_801186_b_32, where q = 10660309049614580476033707195]) (simp_all only: arith_simps rel_simps)

lemma c94_801186_b_34: "modpow 13818364434197438864469338081 7935281130018080704632618576 61342192 = 9480013504884722808418395875"
  by (rule modpow_sq [OF c94_801186_b_33, where q = 41053714139785103145534241]) (simp_all only: arith_simps rel_simps)

lemma c94_801186_b_35: "modpow 13818364434197438864469338081 7935281130018080704632618576 122684384 = 10028815540989260895362069621"
  by (rule modpow_sq [OF c94_801186_b_34, where q = 6503711526842239666776851284]) (simp_all only: arith_simps rel_simps)

lemma c94_801186_b_36: "modpow 13818364434197438864469338081 7935281130018080704632618576 122684385 = 10310184326597100927003724519"
  by (rule modpow_mul [OF c94_801186_b_35, where q = 5759109270696129881246703817]) (simp_all only: arith_simps rel_simps)

lemma c94_801186_b_37: "modpow 13818364434197438864469338081 7935281130018080704632618576 245368770 = 7990899437904117954595094713"
  by (rule modpow_sq [OF c94_801186_b_36, where q = 7692654319156573966798222008]) (simp_all only: arith_simps rel_simps)

lemma c94_801186_b_38: "modpow 13818364434197438864469338081 7935281130018080704632618576 245368771 = 3138503201478530464709256003"
  by (rule modpow_mul [OF c94_801186_b_37, where q = 4588823360639311893639651885]) (simp_all only: arith_simps rel_simps)

lemma c94_801186_b_39: "modpow 13818364434197438864469338081 7935281130018080704632618576 490737542 = 12483562629543047011950850809"
  by (rule modpow_sq [OF c94_801186_b_38, where q = 712834170252007700279149200]) (simp_all only: arith_simps rel_simps)

lemma c94_801186_b_40: "modpow 13818364434197438864469338081 7935281130018080704632618576 981475084 = 12006506795127311564669325617"
  by (rule modpow_sq [OF c94_801186_b_39, where q = 11277697636925491626123609344]) (simp_all only: arith_simps rel_simps)

lemma c94_801186_b_41: "modpow 13818364434197438864469338081 7935281130018080704632618576 981475085 = 2281409498763660828057122321"
  by (rule modpow_mul [OF c94_801186_b_40, where q = 6894810689246460346796757791]) (simp_all only: arith_simps rel_simps)

lemma c94_801186_b_42: "modpow 13818364434197438864469338081 7935281130018080704632618576 1962950170 = 8432267785655359550494713763"
  by (rule modpow_sq [OF c94_801186_b_41, where q = 376660300561203939319250238]) (simp_all only: arith_simps rel_simps)

lemma c94_801186_b_43: "modpow 13818364434197438864469338081 7935281130018080704632618576 3925900340 = 9286782187083334098797683226"
  by (rule modpow_sq [OF c94_801186_b_42, where q = 5145553972584220841260386703]) (simp_all only: arith_simps rel_simps)

lemma c94_801186_b_44: "modpow 13818364434197438864469338081 7935281130018080704632618576 7851800680 = 7349931621413274043139007121"
  by (rule modpow_sq [OF c94_801186_b_43, where q = 6241283026006494625360125555]) (simp_all only: arith_simps rel_simps)

lemma c94_801186_b_45: "modpow 13818364434197438864469338081 7935281130018080704632618576 15703601360 = 11241010701785258861774228018"
  by (rule modpow_sq [OF c94_801186_b_44, where q = 3909398619257669835214187983]) (simp_all only: arith_simps rel_simps)

lemma c94_801186_b_46: "modpow 13818364434197438864469338081 7935281130018080704632618576 31407202720 = 7175543025635722158034263075"
  by (rule modpow_sq [OF c94_801186_b_45, where q = 9144376109008709814932628929]) (simp_all only: arith_simps rel_simps)

lemma c94_801186_b_47: "modpow 13818364434197438864469338081 7935281130018080704632618576 31407202721 = 10495543114326162342869356054"
  by (rule modpow_mul [OF c94_801186_b_46, where q = 4120599904576697068930787866]) (simp_all only: arith_simps rel_simps)

lemma c94_801186_b_48: "modpow 13818364434197438864469338081 7935281130018080704632618576 62814405442 = 7872015098463333180123611745"
  by (rule modpow_sq [OF c94_801186_b_47, where q = 7971741213603122672321489891]) (simp_all only: arith_simps rel_simps)

lemma c94_801186_b_49: "modpow 13818364434197438864469338081 7935281130018080704632618576 62814405443 = 1878424754868214010089219927"
  by (rule modpow_mul [OF c94_801186_b_48, where q = 4520553294387153840190844953]) (simp_all only: arith_simps rel_simps)

lemma c94_801186_b_50: "modpow 13818364434197438864469338081 7935281130018080704632618576 125628810886 = 7214738950431482892676211854"
  by (rule modpow_sq [OF c94_801186_b_49, where q = 255347119878347713289285475]) (simp_all only: arith_simps rel_simps)

lemma c94_801186_b_51: "modpow 13818364434197438864469338081 7935281130018080704632618576 251257621772 = 8378849114816027470545259614"
  by (rule modpow_sq [OF c94_801186_b_50, where q = 3766904424235236668690114342]) (simp_all only: arith_simps rel_simps)

lemma c94_801186_b_52: "modpow 13818364434197438864469338081 7935281130018080704632618576 502515243544 = 12903809095485579282294832217"
  by (rule modpow_sq [OF c94_801186_b_51, where q = 5080565997746519261641650059]) (simp_all only: arith_simps rel_simps)

lemma c94_801186_b_53: "modpow 13818364434197438864469338081 7935281130018080704632618576 1005030487088 = 6551789205294103496359819825"
  by (rule modpow_sq [OF c94_801186_b_52, where q = 12049782734103079186712343744]) (simp_all only: arith_simps rel_simps)

lemma c94_801186_b_54: "modpow 13818364434197438864469338081 7935281130018080704632618576 1005030487089 = 10620567016425678254099014230"
  by (rule modpow_mul [OF c94_801186_b_53, where q = 3762405420424563936962765370]) (simp_all only: arith_simps rel_simps)

lemma c94_801186_b_55: "modpow 13818364434197438864469338081 7935281130018080704632618576 2010060974178 = 2552326705477704630885573290"
  by (rule modpow_sq [OF c94_801186_b_54, where q = 8162792658097975055380754810]) (simp_all only: arith_simps rel_simps)

lemma c94_801186_b_56: "modpow 13818364434197438864469338081 7935281130018080704632618576 4020121948356 = 93879213923488799007543223"
  by (rule modpow_sq [OF c94_801186_b_55, where q = 471428557447292700283853517]) (simp_all only: arith_simps rel_simps)

lemma c94_801186_b_57: "modpow 13818364434197438864469338081 7935281130018080704632618576 8040243896712 = 9571304684961031895341961391"
  by (rule modpow_sq [OF c94_801186_b_56, where q = 637796668980676221542498]) (simp_all only: arith_simps rel_simps)

lemma c94_801186_b_58: "modpow 13818364434197438864469338081 7935281130018080704632618576 8040243896713 = 5861745727356882287855134263"
  by (rule modpow_mul [OF c94_801186_b_57, where q = 5496380835655396344463637913]) (simp_all only: arith_simps rel_simps)

lemma c94_801186_b_59: "modpow 13818364434197438864469338081 7935281130018080704632618576 16080487793426 = 7033083702272804773706088375"
  by (rule modpow_sq [OF c94_801186_b_58, where q = 2486550643226126051195222874]) (simp_all only: arith_simps rel_simps)

lemma c94_801186_b_60: "modpow 13818364434197438864469338081 7935281130018080704632618576 16080487793427 = 5715998367833451257024545553"
  by (rule modpow_mul [OF c94_801186_b_59, where q = 4038791758188599709026623487]) (simp_all only: arith_simps rel_simps)

lemma c94_801186_b_61: "modpow 13818364434197438864469338081 7935281130018080704632618576 32160975586854 = 9315829236175563345934962545"
  by (rule modpow_sq [OF c94_801186_b_60, where q = 2364435928482029727391501744]) (simp_all only: arith_simps rel_simps)

lemma c94_801186_b_62: "modpow 13818364434197438864469338081 7935281130018080704632618576 64321951173708 = 6932638189365131593329946845"
  by (rule modpow_sq [OF c94_801186_b_61, where q = 6280386855539157330383867780]) (simp_all only: arith_simps rel_simps)

lemma c94_801186_b_63: "modpow 13818364434197438864469338081 7935281130018080704632618576 128643902347416 = 11671882327502556405475081550"
  by (rule modpow_sq [OF c94_801186_b_62, where q = 3478086896138170026909664475]) (simp_all only: arith_simps rel_simps)

lemma c94_801186_b_64: "modpow 13818364434197438864469338081 7935281130018080704632618576 128643902347417 = 3083762274448825405925025177"
  by (rule modpow_mul [OF c94_801186_b_63, where q = 6702650521794682898868994983]) (simp_all only: arith_simps rel_simps)

lemma c94_801186_b_65: "modpow 13818364434197438864469338081 7935281130018080704632618576 257287804694834 = 11426914785624813902969267960"
  by (rule modpow_sq [OF c94_801186_b_64, where q = 688184901375131755302615449]) (simp_all only: arith_simps rel_simps)

lemma c94_801186_b_66: "modpow 13818364434197438864469338081 7935281130018080704632618576 257287804694835 = 3124199797785987746960266099"
  by (rule modpow_mul [OF c94_801186_b_65, where q = 6561976397748665609295550381]) (simp_all only: arith_simps rel_simps)

lemma c94_801186_b_67: "modpow 13818364434197438864469338081 7935281130018080704632618576 514575609389670 = 6960506881159780353770725195"
  by (rule modpow_sq [OF c94_801186_b_66, where q = 706351639730284556117162526]) (simp_all only: arith_simps rel_simps)

lemma c94_801186_b_68: "modpow 13818364434197438864469338081 7935281130018080704632618576 514575609389671 = 3057894684126085342478126306"
  by (rule modpow_mul [OF c94_801186_b_67, where q = 3997114070369800377347964494]) (simp_all only: arith_simps rel_simps)

lemma c94_801186_b_69: "modpow 13818364434197438864469338081 7935281130018080704632618576 1029151218779342 = 3859583265371772333019919582"
  by (rule modpow_sq [OF c94_801186_b_68, where q = 676687891952362932159807334]) (simp_all only: arith_simps rel_simps)

lemma c94_801186_b_70: "modpow 13818364434197438864469338081 7935281130018080704632618576 2058302437558684 = 6246147404744190337875264163"
  by (rule modpow_sq [OF c94_801186_b_69, where q = 1078013469197015318761326081]) (simp_all only: arith_simps rel_simps)

lemma c94_801186_b_71: "modpow 13818364434197438864469338081 7935281130018080704632618576 4116604875117368 = 7624688656232388209735739235"
  by (rule modpow_sq [OF c94_801186_b_70, where q = 2823370130928126115010642214]) (simp_all only: arith_simps rel_simps)

lemma c94_801186_b_72: "modpow 13818364434197438864469338081 7935281130018080704632618576 8233209750234736 = 11741887193342201391162951123"
  by (rule modpow_sq [OF c94_801186_b_71, where q = 4207146032464250442699538742]) (simp_all only: arith_simps rel_simps)

lemma c94_801186_b_73: "modpow 13818364434197438864469338081 7935281130018080704632618576 8233209750234737 = 5751857602344423908298335459"
  by (rule modpow_mul [OF c94_801186_b_72, where q = 6742851248411215048459293869]) (simp_all only: arith_simps rel_simps)

lemma c94_801186_b_74: "modpow 13818364434197438864469338081 7935281130018080704632618576 16466419500469474 = 4650776760185159860128621071"
  by (rule modpow_sq [OF c94_801186_b_73, where q = 2394195495074076269275954810]) (simp_all only: arith_simps rel_simps)

lemma c94_801186_b_75: "modpow 13818364434197438864469338081 7935281130018080704632618576 16466419500469475 = 9228697715789270620358885072"
  by (rule modpow_mul [OF c94_801186_b_74, where q = 2670737281591122951914177504]) (simp_all only: arith_simps rel_simps)

lemma c94_801186_b_76: "modpow 13818364434197438864469338081 7935281130018080704632618576 32932839000938950 = 9529286644102868787309791450"
  by (rule modpow_sq [OF c94_801186_b_75, where q = 6163454577781994231476112614]) (simp_all only: arith_simps rel_simps)

lemma c94_801186_b_77: "modpow 13818364434197438864469338081 7935281130018080704632618576 32932839000938951 = 7213377970993644489293477400"
  by (rule modpow_mul [OF c94_801186_b_76, where q = 5472251716154324542910593800]) (simp_all only: arith_simps rel_simps)

lemma c94_801186_b_78: "modpow 13818364434197438864469338081 7935281130018080704632618576 65865678001877902 = 11146709082772323365815564263"
  by (rule modpow_sq [OF c94_801186_b_77, where q = 3765483389889942359474483577]) (simp_all only: arith_simps rel_simps)

lemma c94_801186_b_79: "modpow 13818364434197438864469338081 7935281130018080704632618576 65865678001877903 = 1"
  by (rule modpow_mul [OF c94_801186_b_78, where q = 6401066542102789263873037327]) (simp_all only: arith_simps rel_simps)

lemma prime_94_bits_801186: "is_prime 13818364434197438864469338081"
  by (rule pocklington1 [where d = 7935281130018080704632618575 and u = 12281824895882260584345986666 and v = 7052913809197938965814028629, OF prime_56_bits_436688 _ _ _ c94_801186_a_37 c94_801186_b_79])
    (simp_all only: arith_simps rel_simps)

lemma prime_93001: "is_prime 93001"
  by (rule trial_division [where k = 305]) (simp_all add: upt_rec_numeral)

lemma prime_661: "is_prime 661"
  by (rule trial_division [where k = 26]) (simp_all add: upt_rec_numeral)

lemma c34_801413_a_0: "modpow 12048837557 2 Numeral1 = 2"
  by (rule modpow_start) (simp_all only: arith_simps rel_simps)

lemma c34_801413_a_1: "modpow 12048837557 2 3 = 8"
  by (rule modpow_sq_mul [OF c34_801413_a_0, where q = 0]) (simp_all only: arith_simps rel_simps)

lemma c34_801413_a_2: "modpow 12048837557 2 6 = 64"
  by (rule modpow_sq [OF c34_801413_a_1, where q = 0]) (simp_all only: arith_simps rel_simps)

lemma c34_801413_a_3: "modpow 12048837557 2 12 = 4096"
  by (rule modpow_sq [OF c34_801413_a_2, where q = 0]) (simp_all only: arith_simps rel_simps)

lemma c34_801413_a_4: "modpow 12048837557 2 24 = 16777216"
  by (rule modpow_sq [OF c34_801413_a_3, where q = 0]) (simp_all only: arith_simps rel_simps)

lemma c34_801413_a_5: "modpow 12048837557 2 49 = 4165083158"
  by (rule modpow_sq_mul [OF c34_801413_a_4, where q = 46722]) (simp_all only: arith_simps rel_simps)

lemma c34_801413_a_6: "modpow 12048837557 2 98 = 821496352"
  by (rule modpow_sq [OF c34_801413_a_5, where q = 1439800116]) (simp_all only: arith_simps rel_simps)

lemma c34_801413_a_7: "modpow 12048837557 2 196 = 9314271357"
  by (rule modpow_sq [OF c34_801413_a_6, where q = 56010071]) (simp_all only: arith_simps rel_simps)

lemma c34_801413_b_0: "modpow 12048837557 9314271357 Numeral1 = 9314271357"
  by (rule modpow_start) (simp_all only: arith_simps rel_simps)

lemma c34_801413_b_1: "modpow 12048837557 9314271357 2 = 9168089018"
  by (rule modpow_sq [OF c34_801413_b_0, where q = 7200333683]) (simp_all only: arith_simps rel_simps)

lemma c34_801413_b_2: "modpow 12048837557 9314271357 4 = 8478665942"
  by (rule modpow_sq [OF c34_801413_b_1, where q = 6976096726]) (simp_all only: arith_simps rel_simps)

lemma c34_801413_b_3: "modpow 12048837557 9314271357 5 = 4061668814"
  by (rule modpow_mul [OF c34_801413_b_2, where q = 6554374640]) (simp_all only: arith_simps rel_simps)

lemma c34_801413_b_4: "modpow 12048837557 9314271357 10 = 9046522363"
  by (rule modpow_sq [OF c34_801413_b_3, where q = 1369190469]) (simp_all only: arith_simps rel_simps)

lemma c34_801413_b_5: "modpow 12048837557 9314271357 20 = 6578070318"
  by (rule modpow_sq [OF c34_801413_b_4, where q = 6792320543]) (simp_all only: arith_simps rel_simps)

lemma c34_801413_b_6: "modpow 12048837557 9314271357 40 = 5960769761"
  by (rule modpow_sq [OF c34_801413_b_5, where q = 3591301559]) (simp_all only: arith_simps rel_simps)

lemma c34_801413_b_7: "modpow 12048837557 9314271357 41 = 5082060440"
  by (rule modpow_mul [OF c34_801413_b_6, where q = 4607932241]) (simp_all only: arith_simps rel_simps)

lemma c34_801413_b_8: "modpow 12048837557 9314271357 82 = 1427382409"
  by (rule modpow_sq [OF c34_801413_b_7, where q = 2143554363]) (simp_all only: arith_simps rel_simps)

lemma c34_801413_b_9: "modpow 12048837557 9314271357 164 = 4228060046"
  by (rule modpow_sq [OF c34_801413_b_8, where q = 169096855]) (simp_all only: arith_simps rel_simps)

lemma c34_801413_b_10: "modpow 12048837557 9314271357 165 = 8433024288"
  by (rule modpow_mul [OF c34_801413_b_9, where q = 3268472862]) (simp_all only: arith_simps rel_simps)

lemma c34_801413_b_11: "modpow 12048837557 9314271357 330 = 4031795360"
  by (rule modpow_sq [OF c34_801413_b_10, where q = 5902303712]) (simp_all only: arith_simps rel_simps)

lemma c34_801413_b_12: "modpow 12048837557 9314271357 660 = 1165196518"
  by (rule modpow_sq [OF c34_801413_b_11, where q = 1349123826]) (simp_all only: arith_simps rel_simps)

lemma c34_801413_b_13: "modpow 12048837557 9314271357 661 = 4746995210"
  by (rule modpow_mul [OF c34_801413_b_12, where q = 900747188]) (simp_all only: arith_simps rel_simps)

lemma c34_801413_c_0: "modpow 12048837557 9314271357 Numeral1 = 9314271357"
  by (rule modpow_start) (simp_all only: arith_simps rel_simps)

lemma c34_801413_c_1: "modpow 12048837557 9314271357 2 = 9168089018"
  by (rule modpow_sq [OF c34_801413_c_0, where q = 7200333683]) (simp_all only: arith_simps rel_simps)

lemma c34_801413_c_2: "modpow 12048837557 9314271357 4 = 8478665942"
  by (rule modpow_sq [OF c34_801413_c_1, where q = 6976096726]) (simp_all only: arith_simps rel_simps)

lemma c34_801413_c_3: "modpow 12048837557 9314271357 5 = 4061668814"
  by (rule modpow_mul [OF c34_801413_c_2, where q = 6554374640]) (simp_all only: arith_simps rel_simps)

lemma c34_801413_c_4: "modpow 12048837557 9314271357 10 = 9046522363"
  by (rule modpow_sq [OF c34_801413_c_3, where q = 1369190469]) (simp_all only: arith_simps rel_simps)

lemma c34_801413_c_5: "modpow 12048837557 9314271357 11 = 7562296142"
  by (rule modpow_mul [OF c34_801413_c_4, where q = 6993352157]) (simp_all only: arith_simps rel_simps)

lemma c34_801413_c_6: "modpow 12048837557 9314271357 22 = 234144577"
  by (rule modpow_sq [OF c34_801413_c_5, where q = 4746376791]) (simp_all only: arith_simps rel_simps)

lemma c34_801413_c_7: "modpow 12048837557 9314271357 44 = 2095976975"
  by (rule modpow_sq [OF c34_801413_c_6, where q = 4550122]) (simp_all only: arith_simps rel_simps)

lemma c34_801413_c_8: "modpow 12048837557 9314271357 45 = 2768983253"
  by (rule modpow_mul [OF c34_801413_c_7, where q = 1620280646]) (simp_all only: arith_simps rel_simps)

lemma c34_801413_c_9: "modpow 12048837557 9314271357 90 = 6628019596"
  by (rule modpow_sq [OF c34_801413_c_8, where q = 636349209]) (simp_all only: arith_simps rel_simps)

lemma c34_801413_c_10: "modpow 12048837557 9314271357 180 = 990974774"
  by (rule modpow_sq [OF c34_801413_c_9, where q = 3646048306]) (simp_all only: arith_simps rel_simps)

lemma c34_801413_c_11: "modpow 12048837557 9314271357 181 = 4241546384"
  by (rule modpow_mul [OF c34_801413_c_10, where q = 766066262]) (simp_all only: arith_simps rel_simps)

lemma c34_801413_c_12: "modpow 12048837557 9314271357 362 = 2003054184"
  by (rule modpow_sq [OF c34_801413_c_11, where q = 1493149496]) (simp_all only: arith_simps rel_simps)

lemma c34_801413_c_13: "modpow 12048837557 9314271357 363 = 347048005"
  by (rule modpow_mul [OF c34_801413_c_12, where q = 1548447319]) (simp_all only: arith_simps rel_simps)

lemma c34_801413_c_14: "modpow 12048837557 9314271357 726 = 4910460436"
  by (rule modpow_sq [OF c34_801413_c_13, where q = 9996177]) (simp_all only: arith_simps rel_simps)

lemma c34_801413_c_15: "modpow 12048837557 9314271357 1452 = 8580689153"
  by (rule modpow_sq [OF c34_801413_c_14, where q = 2001240499]) (simp_all only: arith_simps rel_simps)

lemma c34_801413_c_16: "modpow 12048837557 9314271357 1453 = 10782540533"
  by (rule modpow_mul [OF c34_801413_c_15, where q = 6633242984]) (simp_all only: arith_simps rel_simps)

lemma c34_801413_c_17: "modpow 12048837557 9314271357 2906 = 4918240498"
  by (rule modpow_sq [OF c34_801413_c_16, where q = 9649327563]) (simp_all only: arith_simps rel_simps)

lemma c34_801413_c_18: "modpow 12048837557 9314271357 5812 = 11866516789"
  by (rule modpow_sq [OF c34_801413_c_17, where q = 2007586995]) (simp_all only: arith_simps rel_simps)

lemma c34_801413_c_19: "modpow 12048837557 9314271357 11624 = 11291843273"
  by (rule modpow_sq [OF c34_801413_c_18, where q = 11686954864]) (simp_all only: arith_simps rel_simps)

lemma c34_801413_c_20: "modpow 12048837557 9314271357 11625 = 332226191"
  by (rule modpow_mul [OF c34_801413_c_19, where q = 8729082110]) (simp_all only: arith_simps rel_simps)

lemma c34_801413_c_21: "modpow 12048837557 9314271357 23250 = 10078003434"
  by (rule modpow_sq [OF c34_801413_c_20, where q = 9160571]) (simp_all only: arith_simps rel_simps)

lemma c34_801413_c_22: "modpow 12048837557 9314271357 46500 = 3456573169"
  by (rule modpow_sq [OF c34_801413_c_21, where q = 8429539591]) (simp_all only: arith_simps rel_simps)

lemma c34_801413_c_23: "modpow 12048837557 9314271357 93000 = 1700759214"
  by (rule modpow_sq [OF c34_801413_c_22, where q = 991622471]) (simp_all only: arith_simps rel_simps)

lemma c34_801413_c_24: "modpow 12048837557 9314271357 93001 = 8877273464"
  by (rule modpow_mul [OF c34_801413_c_23, where q = 1314760262]) (simp_all only: arith_simps rel_simps)

lemma c34_801413_d_0: "modpow 12048837557 8877273464 Numeral1 = 8877273464"
  by (rule modpow_start) (simp_all only: arith_simps rel_simps)

lemma c34_801413_d_1: "modpow 12048837557 8877273464 2 = 10710350132"
  by (rule modpow_sq [OF c34_801413_d_0, where q = 6540546652]) (simp_all only: arith_simps rel_simps)

lemma c34_801413_d_2: "modpow 12048837557 8877273464 4 = 2451205350"
  by (rule modpow_sq [OF c34_801413_d_1, where q = 9520553282]) (simp_all only: arith_simps rel_simps)

lemma c34_801413_d_3: "modpow 12048837557 8877273464 5 = 11770248475"
  by (rule modpow_mul [OF c34_801413_d_2, where q = 1805985025]) (simp_all only: arith_simps rel_simps)

lemma c34_801413_d_4: "modpow 12048837557 8877273464 10 = 367603087"
  by (rule modpow_sq [OF c34_801413_d_3, where q = 11498100834]) (simp_all only: arith_simps rel_simps)

lemma c34_801413_d_5: "modpow 12048837557 8877273464 20 = 2886329163"
  by (rule modpow_sq [OF c34_801413_d_4, where q = 11215358]) (simp_all only: arith_simps rel_simps)

lemma c34_801413_d_6: "modpow 12048837557 8877273464 40 = 9737058150"
  by (rule modpow_sq [OF c34_801413_d_5, where q = 691427367]) (simp_all only: arith_simps rel_simps)

lemma c34_801413_d_7: "modpow 12048837557 8877273464 41 = 392452655"
  by (rule modpow_mul [OF c34_801413_d_6, where q = 7174013885]) (simp_all only: arith_simps rel_simps)

lemma c34_801413_d_8: "modpow 12048837557 8877273464 82 = 809173725"
  by (rule modpow_sq [OF c34_801413_d_7, where q = 12782900]) (simp_all only: arith_simps rel_simps)

lemma c34_801413_d_9: "modpow 12048837557 8877273464 164 = 5761249346"
  by (rule modpow_sq [OF c34_801413_d_8, where q = 54342347]) (simp_all only: arith_simps rel_simps)

lemma c34_801413_d_10: "modpow 12048837557 8877273464 165 = 2042184382"
  by (rule modpow_mul [OF c34_801413_d_9, where q = 4244740266]) (simp_all only: arith_simps rel_simps)

lemma c34_801413_d_11: "modpow 12048837557 8877273464 330 = 34599137"
  by (rule modpow_sq [OF c34_801413_d_10, where q = 346134391]) (simp_all only: arith_simps rel_simps)

lemma c34_801413_d_12: "modpow 12048837557 8877273464 660 = 74506591"
  by (rule modpow_sq [OF c34_801413_d_11, where q = 99354]) (simp_all only: arith_simps rel_simps)

lemma c34_801413_d_13: "modpow 12048837557 8877273464 661 = 1"
  by (rule modpow_mul [OF c34_801413_d_12, where q = 54894539]) (simp_all only: arith_simps rel_simps)

lemma prime_34_bits_801413: "is_prime 12048837557"
  by (rule pocklington2 [where ?d1.0 = 4746995209 and ?u1.0 = 10304344409 and ?v1.0 = 4059700640 and ?d2.0 = 8877273463 and ?u2.0 = 1826643224 and ?v2.0 = 1345823723,
      OF prime_93001 prime_661 _ _ _ c34_801413_a_7 c34_801413_b_13 c34_801413_c_24 c34_801413_d_13])
    (simp_all only: arith_simps rel_simps)

lemma c43_3736_a_0: "modpow 5156902474397 2 Numeral1 = 2"
  by (rule modpow_start) (simp_all only: arith_simps rel_simps)

lemma c43_3736_a_1: "modpow 5156902474397 2 3 = 8"
  by (rule modpow_sq_mul [OF c43_3736_a_0, where q = 0]) (simp_all only: arith_simps rel_simps)

lemma c43_3736_a_2: "modpow 5156902474397 2 6 = 64"
  by (rule modpow_sq [OF c43_3736_a_1, where q = 0]) (simp_all only: arith_simps rel_simps)

lemma c43_3736_a_3: "modpow 5156902474397 2 13 = 8192"
  by (rule modpow_sq_mul [OF c43_3736_a_2, where q = 0]) (simp_all only: arith_simps rel_simps)

lemma c43_3736_a_4: "modpow 5156902474397 2 26 = 67108864"
  by (rule modpow_sq [OF c43_3736_a_3, where q = 0]) (simp_all only: arith_simps rel_simps)

lemma c43_3736_a_5: "modpow 5156902474397 2 53 = 3247534443830"
  by (rule modpow_sq_mul [OF c43_3736_a_4, where q = 1746]) (simp_all only: arith_simps rel_simps)

lemma c43_3736_a_6: "modpow 5156902474397 2 107 = 3848293325051"
  by (rule modpow_sq_mul [OF c43_3736_a_5, where q = 4090238284017]) (simp_all only: arith_simps rel_simps)

lemma c43_3736_a_7: "modpow 5156902474397 2 214 = 5053068510787"
  by (rule modpow_sq [OF c43_3736_a_6, where q = 2871755203662]) (simp_all only: arith_simps rel_simps)

lemma c43_3736_a_8: "modpow 5156902474397 2 428 = 4746712836098"
  by (rule modpow_sq [OF c43_3736_a_7, where q = 4951325238643]) (simp_all only: arith_simps rel_simps)

lemma c43_3736_b_0: "modpow 5156902474397 4746712836098 Numeral1 = 4746712836098"
  by (rule modpow_start) (simp_all only: arith_simps rel_simps)

lemma c43_3736_b_1: "modpow 5156902474397 4746712836098 2 = 4873537632190"
  by (rule modpow_sq [OF c43_3736_b_0, where q = 4369150446462]) (simp_all only: arith_simps rel_simps)

lemma c43_3736_b_2: "modpow 5156902474397 4746712836098 4 = 1106701282011"
  by (rule modpow_sq [OF c43_3736_b_1, where q = 4605743306237]) (simp_all only: arith_simps rel_simps)

lemma c43_3736_b_3: "modpow 5156902474397 4746712836098 5 = 3644367028578"
  by (rule modpow_mul [OF c43_3736_b_2, where q = 1018672198500]) (simp_all only: arith_simps rel_simps)

lemma c43_3736_b_4: "modpow 5156902474397 4746712836098 10 = 147319883759"
  by (rule modpow_sq [OF c43_3736_b_3, where q = 2575462907225]) (simp_all only: arith_simps rel_simps)

lemma c43_3736_b_5: "modpow 5156902474397 4746712836098 11 = 1512708647324"
  by (rule modpow_mul [OF c43_3736_b_4, where q = 135601785514]) (simp_all only: arith_simps rel_simps)

lemma c43_3736_b_6: "modpow 5156902474397 4746712836098 22 = 2458361394247"
  by (rule modpow_sq [OF c43_3736_b_5, where q = 443732931357]) (simp_all only: arith_simps rel_simps)

lemma c43_3736_b_7: "modpow 5156902474397 4746712836098 44 = 1372198352576"
  by (rule modpow_sq [OF c43_3736_b_6, where q = 1171932332389]) (simp_all only: arith_simps rel_simps)

lemma c43_3736_b_8: "modpow 5156902474397 4746712836098 88 = 3736356626778"
  by (rule modpow_sq [OF c43_3736_b_7, where q = 365127773534]) (simp_all only: arith_simps rel_simps)

lemma c43_3736_b_9: "modpow 5156902474397 4746712836098 89 = 3985494425225"
  by (rule modpow_mul [OF c43_3736_b_8, where q = 3439159853927]) (simp_all only: arith_simps rel_simps)

lemma c43_3736_b_10: "modpow 5156902474397 4746712836098 178 = 1277781969105"
  by (rule modpow_sq [OF c43_3736_b_9, where q = 3080175724160]) (simp_all only: arith_simps rel_simps)

lemma c43_3736_b_11: "modpow 5156902474397 4746712836098 179 = 3534033127334"
  by (rule modpow_mul [OF c43_3736_b_10, where q = 1176144808748]) (simp_all only: arith_simps rel_simps)

lemma c43_3736_b_12: "modpow 5156902474397 4746712836098 358 = 4296540365600"
  by (rule modpow_sq [OF c43_3736_b_11, where q = 2421878289748]) (simp_all only: arith_simps rel_simps)

lemma c43_3736_b_13: "modpow 5156902474397 4746712836098 359 = 2097983046559"
  by (rule modpow_mul [OF c43_3736_b_12, where q = 3954785533653]) (simp_all only: arith_simps rel_simps)

lemma c43_3736_b_14: "modpow 5156902474397 4746712836098 718 = 3949638834514"
  by (rule modpow_sq [OF c43_3736_b_13, where q = 853522610811]) (simp_all only: arith_simps rel_simps)

lemma c43_3736_b_15: "modpow 5156902474397 4746712836098 1436 = 2886924168213"
  by (rule modpow_sq [OF c43_3736_b_14, where q = 3025003284539]) (simp_all only: arith_simps rel_simps)

lemma c43_3736_b_16: "modpow 5156902474397 4746712836098 2872 = 4889216364411"
  by (rule modpow_sq [OF c43_3736_b_15, where q = 1616150624214]) (simp_all only: arith_simps rel_simps)

lemma c43_3736_b_17: "modpow 5156902474397 4746712836098 5744 = 4621572472490"
  by (rule modpow_sq [OF c43_3736_b_16, where q = 4635425388923]) (simp_all only: arith_simps rel_simps)

lemma c43_3736_b_18: "modpow 5156902474397 4746712836098 5745 = 1186104587753"
  by (rule modpow_mul [OF c43_3736_b_17, where q = 4253963980711]) (simp_all only: arith_simps rel_simps)

lemma c43_3736_b_19: "modpow 5156902474397 4746712836098 11490 = 4863306363187"
  by (rule modpow_sq [OF c43_3736_b_18, where q = 272807969526]) (simp_all only: arith_simps rel_simps)

lemma c43_3736_b_20: "modpow 5156902474397 4746712836098 22980 = 653423935096"
  by (rule modpow_sq [OF c43_3736_b_19, where q = 4586425455909]) (simp_all only: arith_simps rel_simps)

lemma c43_3736_b_21: "modpow 5156902474397 4746712836098 22981 = 3528003011007"
  by (rule modpow_mul [OF c43_3736_b_20, where q = 601449376933]) (simp_all only: arith_simps rel_simps)

lemma c43_3736_b_22: "modpow 5156902474397 4746712836098 45962 = 569229458997"
  by (rule modpow_sq [OF c43_3736_b_21, where q = 2413620445116]) (simp_all only: arith_simps rel_simps)

lemma c43_3736_b_23: "modpow 5156902474397 4746712836098 91924 = 191509284847"
  by (rule modpow_sq [OF c43_3736_b_22, where q = 62832713746]) (simp_all only: arith_simps rel_simps)

lemma c43_3736_b_24: "modpow 5156902474397 4746712836098 91925 = 4322973491138"
  by (rule modpow_mul [OF c43_3736_b_23, where q = 176276279244]) (simp_all only: arith_simps rel_simps)

lemma c43_3736_b_25: "modpow 5156902474397 4746712836098 183850 = 1056634934969"
  by (rule modpow_sq [OF c43_3736_b_24, where q = 3623900179975]) (simp_all only: arith_simps rel_simps)

lemma c43_3736_b_26: "modpow 5156902474397 4746712836098 367700 = 1535337886569"
  by (rule modpow_sq [OF c43_3736_b_25, where q = 216501551336]) (simp_all only: arith_simps rel_simps)

lemma c43_3736_b_27: "modpow 5156902474397 4746712836098 367701 = 2967256843868"
  by (rule modpow_mul [OF c43_3736_b_26, where q = 1413214248302]) (simp_all only: arith_simps rel_simps)

lemma c43_3736_b_28: "modpow 5156902474397 4746712836098 735402 = 4214317258230"
  by (rule modpow_sq [OF c43_3736_b_27, where q = 1707345295202]) (simp_all only: arith_simps rel_simps)

lemma c43_3736_b_29: "modpow 5156902474397 4746712836098 1470804 = 2510012723263"
  by (rule modpow_sq [OF c43_3736_b_28, where q = 3444018970921]) (simp_all only: arith_simps rel_simps)

lemma c43_3736_b_30: "modpow 5156902474397 4746712836098 1470805 = 2005289838737"
  by (rule modpow_mul [OF c43_3736_b_29, where q = 2310361631121]) (simp_all only: arith_simps rel_simps)

lemma c43_3736_b_31: "modpow 5156902474397 4746712836098 2941610 = 2188467409472"
  by (rule modpow_sq [OF c43_3736_b_30, where q = 779767962901]) (simp_all only: arith_simps rel_simps)

lemma c43_3736_b_32: "modpow 5156902474397 4746712836098 5883220 = 965390457939"
  by (rule modpow_sq [OF c43_3736_b_31, where q = 928733794385]) (simp_all only: arith_simps rel_simps)

lemma c43_3736_b_33: "modpow 5156902474397 4746712836098 5883221 = 2598843926205"
  by (rule modpow_mul [OF c43_3736_b_32, where q = 888601500861]) (simp_all only: arith_simps rel_simps)

lemma c43_3736_b_34: "modpow 5156902474397 4746712836098 11766442 = 4903139152562"
  by (rule modpow_sq [OF c43_3736_b_33, where q = 1309698949379]) (simp_all only: arith_simps rel_simps)

lemma c43_3736_b_35: "modpow 5156902474397 4746712836098 23532884 = 3081522112524"
  by (rule modpow_sq [OF c43_3736_b_34, where q = 4661863137560]) (simp_all only: arith_simps rel_simps)

lemma c43_3736_b_36: "modpow 5156902474397 4746712836098 23532885 = 2379638444348"
  by (rule modpow_mul [OF c43_3736_b_35, where q = 2836412097932]) (simp_all only: arith_simps rel_simps)

lemma c43_3736_b_37: "modpow 5156902474397 4746712836098 47065770 = 931008763675"
  by (rule modpow_sq [OF c43_3736_b_36, where q = 1098077606457]) (simp_all only: arith_simps rel_simps)

lemma c43_3736_b_38: "modpow 5156902474397 4746712836098 47065771 = 4488210961748"
  by (rule modpow_mul [OF c43_3736_b_37, where q = 856954590666]) (simp_all only: arith_simps rel_simps)

lemma c43_3736_b_39: "modpow 5156902474397 4746712836098 94131542 = 4421517071964"
  by (rule modpow_sq [OF c43_3736_b_38, where q = 3906228154820]) (simp_all only: arith_simps rel_simps)

lemma c43_3736_b_40: "modpow 5156902474397 4746712836098 94131543 = 2385369468561"
  by (rule modpow_mul [OF c43_3736_b_39, where q = 4069821359763]) (simp_all only: arith_simps rel_simps)

lemma c43_3736_b_41: "modpow 5156902474397 4746712836098 188263086 = 2260607923718"
  by (rule modpow_sq [OF c43_3736_b_40, where q = 1103373106199]) (simp_all only: arith_simps rel_simps)

lemma c43_3736_b_42: "modpow 5156902474397 4746712836098 376526172 = 3392779171238"
  by (rule modpow_sq [OF c43_3736_b_41, where q = 990972431638]) (simp_all only: arith_simps rel_simps)

lemma c43_3736_b_43: "modpow 5156902474397 4746712836098 376526173 = 4942587966814"
  by (rule modpow_mul [OF c43_3736_b_42, where q = 3122911189830]) (simp_all only: arith_simps rel_simps)

lemma c43_3736_b_44: "modpow 5156902474397 4746712836098 753052346 = 2265208733045"
  by (rule modpow_sq [OF c43_3736_b_43, where q = 4737180105883]) (simp_all only: arith_simps rel_simps)

lemma c43_3736_b_45: "modpow 5156902474397 4746712836098 753052347 = 1513905999439"
  by (rule modpow_mul [OF c43_3736_b_44, where q = 2085029806743]) (simp_all only: arith_simps rel_simps)

lemma c43_3736_b_46: "modpow 5156902474397 4746712836098 1506104694 = 3368897426571"
  by (rule modpow_sq [OF c43_3736_b_45, where q = 444435663950]) (simp_all only: arith_simps rel_simps)

lemma c43_3736_b_47: "modpow 5156902474397 4746712836098 3012209388 = 1528519196221"
  by (rule modpow_sq [OF c43_3736_b_46, where q = 2200830814060]) (simp_all only: arith_simps rel_simps)

lemma c43_3736_b_48: "modpow 5156902474397 4746712836098 3012209389 = 4570632802352"
  by (rule modpow_mul [OF c43_3736_b_47, where q = 1406937929298]) (simp_all only: arith_simps rel_simps)

lemma c43_3736_b_49: "modpow 5156902474397 4746712836098 6024418778 = 3938668016706"
  by (rule modpow_sq [OF c43_3736_b_48, where q = 4051014018134]) (simp_all only: arith_simps rel_simps)

lemma c43_3736_b_50: "modpow 5156902474397 4746712836098 12048837556 = 4078321881899"
  by (rule modpow_sq [OF c43_3736_b_49, where q = 3008221664621]) (simp_all only: arith_simps rel_simps)

lemma c43_3736_b_51: "modpow 5156902474397 4746712836098 12048837557 = 1"
  by (rule modpow_mul [OF c43_3736_b_50, where q = 3753924555033]) (simp_all only: arith_simps rel_simps)

lemma prime_43_bits_3736: "is_prime 5156902474397"
  by (rule pocklington1 [where d = 4746712836097 and u = 5089286551700 and v = 4684475209967, OF prime_34_bits_801413 _ _ _ c43_3736_a_8 c43_3736_b_51])
    (simp_all only: arith_simps rel_simps)

lemma c51_210462_a_0: "modpow 1670836401704629 2 Numeral1 = 2"
  by (rule modpow_start) (simp_all only: arith_simps rel_simps)

lemma c51_210462_a_1: "modpow 1670836401704629 2 2 = 4"
  by (rule modpow_sq [OF c51_210462_a_0, where q = 0]) (simp_all only: arith_simps rel_simps)

lemma c51_210462_a_2: "modpow 1670836401704629 2 5 = 32"
  by (rule modpow_sq_mul [OF c51_210462_a_1, where q = 0]) (simp_all only: arith_simps rel_simps)

lemma c51_210462_a_3: "modpow 1670836401704629 2 10 = 1024"
  by (rule modpow_sq [OF c51_210462_a_2, where q = 0]) (simp_all only: arith_simps rel_simps)

lemma c51_210462_a_4: "modpow 1670836401704629 2 20 = 1048576"
  by (rule modpow_sq [OF c51_210462_a_3, where q = 0]) (simp_all only: arith_simps rel_simps)

lemma c51_210462_a_5: "modpow 1670836401704629 2 40 = 1099511627776"
  by (rule modpow_sq [OF c51_210462_a_4, where q = 0]) (simp_all only: arith_simps rel_simps)

lemma c51_210462_a_6: "modpow 1670836401704629 2 81 = 1551356960661984"
  by (rule modpow_sq_mul [OF c51_210462_a_5, where q = 1447090592]) (simp_all only: arith_simps rel_simps)

lemma c51_210462_a_7: "modpow 1670836401704629 2 162 = 253377396054226"
  by (rule modpow_sq [OF c51_210462_a_6, where q = 1440421346422070]) (simp_all only: arith_simps rel_simps)

lemma c51_210462_a_8: "modpow 1670836401704629 2 324 = 11046204280772"
  by (rule modpow_sq [OF c51_210462_a_7, where q = 38423932328576]) (simp_all only: arith_simps rel_simps)

lemma c51_210462_b_0: "modpow 1670836401704629 11046204280772 Numeral1 = 11046204280772"
  by (rule modpow_start) (simp_all only: arith_simps rel_simps)

lemma c51_210462_b_1: "modpow 1670836401704629 11046204280772 2 = 1662414987046364"
  by (rule modpow_sq [OF c51_210462_b_0, where q = 73028471780]) (simp_all only: arith_simps rel_simps)

lemma c51_210462_b_2: "modpow 1670836401704629 11046204280772 4 = 243335622413464"
  by (rule modpow_sq [OF c51_210462_b_1, where q = 1654036018330008]) (simp_all only: arith_simps rel_simps)

lemma c51_210462_b_3: "modpow 1670836401704629 11046204280772 8 = 1641676377173132"
  by (rule modpow_sq [OF c51_210462_b_2, where q = 35438673154916]) (simp_all only: arith_simps rel_simps)

lemma c51_210462_b_4: "modpow 1670836401704629 11046204280772 9 = 938638730596843"
  by (rule modpow_mul [OF c51_210462_b_3, where q = 10853422038609]) (simp_all only: arith_simps rel_simps)

lemma c51_210462_b_5: "modpow 1670836401704629 11046204280772 18 = 824118890218688"
  by (rule modpow_sq [OF c51_210462_b_4, where q = 527306363254709]) (simp_all only: arith_simps rel_simps)

lemma c51_210462_b_6: "modpow 1670836401704629 11046204280772 36 = 1086044248581187"
  by (rule modpow_sq [OF c51_210462_b_5, where q = 406486203270633]) (simp_all only: arith_simps rel_simps)

lemma c51_210462_b_7: "modpow 1670836401704629 11046204280772 37 = 267262586498538"
  by (rule modpow_mul [OF c51_210462_b_6, where q = 7180036666394]) (simp_all only: arith_simps rel_simps)

lemma c51_210462_b_8: "modpow 1670836401704629 11046204280772 74 = 194209279414821"
  by (rule modpow_sq [OF c51_210462_b_7, where q = 42750618833187]) (simp_all only: arith_simps rel_simps)

lemma c51_210462_b_9: "modpow 1670836401704629 11046204280772 75 = 49492090486633"
  by (rule modpow_mul [OF c51_210462_b_8, where q = 1283952977951]) (simp_all only: arith_simps rel_simps)

lemma c51_210462_b_10: "modpow 1670836401704629 11046204280772 150 = 307337505430343"
  by (rule modpow_sq [OF c51_210462_b_9, where q = 1466012482274]) (simp_all only: arith_simps rel_simps)

lemma c51_210462_b_11: "modpow 1670836401704629 11046204280772 300 = 142460584602657"
  by (rule modpow_sq [OF c51_210462_b_10, where q = 56532370343248]) (simp_all only: arith_simps rel_simps)

lemma c51_210462_b_12: "modpow 1670836401704629 11046204280772 600 = 1084549957119634"
  by (rule modpow_sq [OF c51_210462_b_11, where q = 12146621982035]) (simp_all only: arith_simps rel_simps)

lemma c51_210462_b_13: "modpow 1670836401704629 11046204280772 1200 = 1080461158659793"
  by (rule modpow_sq [OF c51_210462_b_12, where q = 703987899885447]) (simp_all only: arith_simps rel_simps)

lemma c51_210462_b_14: "modpow 1670836401704629 11046204280772 2400 = 300795616085236"
  by (rule modpow_sq [OF c51_210462_b_13, where q = 698689778473497]) (simp_all only: arith_simps rel_simps)

lemma c51_210462_b_15: "modpow 1670836401704629 11046204280772 2401 = 772960424580221"
  by (rule modpow_mul [OF c51_210462_b_14, where q = 1988614695399]) (simp_all only: arith_simps rel_simps)

lemma c51_210462_b_16: "modpow 1670836401704629 11046204280772 4802 = 811442543936487"
  by (rule modpow_sq [OF c51_210462_b_15, where q = 357586067288026]) (simp_all only: arith_simps rel_simps)

lemma c51_210462_b_17: "modpow 1670836401704629 11046204280772 9604 = 1299131027166550"
  by (rule modpow_sq [OF c51_210462_b_16, where q = 394077482055311]) (simp_all only: arith_simps rel_simps)

lemma c51_210462_b_18: "modpow 1670836401704629 11046204280772 9605 = 1514683984251661"
  by (rule modpow_mul [OF c51_210462_b_17, where q = 8588792235391]) (simp_all only: arith_simps rel_simps)

lemma c51_210462_b_19: "modpow 1670836401704629 11046204280772 19210 = 1113683759450937"
  by (rule modpow_sq [OF c51_210462_b_18, where q = 1373125202328496]) (simp_all only: arith_simps rel_simps)

lemma c51_210462_b_20: "modpow 1670836401704629 11046204280772 38420 = 1260611109313610"
  by (rule modpow_sq [OF c51_210462_b_19, where q = 742317748643371]) (simp_all only: arith_simps rel_simps)

lemma c51_210462_b_21: "modpow 1670836401704629 11046204280772 38421 = 1494067479693012"
  by (rule modpow_mul [OF c51_210462_b_20, where q = 8334130030852]) (simp_all only: arith_simps rel_simps)

lemma c51_210462_b_22: "modpow 1670836401704629 11046204280772 76842 = 1497906080229613"
  by (rule modpow_sq [OF c51_210462_b_21, where q = 1336000120418039]) (simp_all only: arith_simps rel_simps)

lemma c51_210462_b_23: "modpow 1670836401704629 11046204280772 76843 = 1470387515290701"
  by (rule modpow_mul [OF c51_210462_b_22, where q = 9902930375915]) (simp_all only: arith_simps rel_simps)

lemma c51_210462_b_24: "modpow 1670836401704629 11046204280772 153686 = 603249501059476"
  by (rule modpow_sq [OF c51_210462_b_23, where q = 1293986319017825]) (simp_all only: arith_simps rel_simps)

lemma c51_210462_b_25: "modpow 1670836401704629 11046204280772 153687 = 674188219219632"
  by (rule modpow_mul [OF c51_210462_b_24, where q = 3988192508960]) (simp_all only: arith_simps rel_simps)

lemma c51_210462_b_26: "modpow 1670836401704629 11046204280772 307374 = 1473967813664310"
  by (rule modpow_sq [OF c51_210462_b_25, where q = 272037258986466]) (simp_all only: arith_simps rel_simps)

lemma c51_210462_b_27: "modpow 1670836401704629 11046204280772 307375 = 1364249210607750"
  by (rule modpow_mul [OF c51_210462_b_26, where q = 9744670128330]) (simp_all only: arith_simps rel_simps)

lemma c51_210462_b_28: "modpow 1670836401704629 11046204280772 614750 = 1330217670466045"
  by (rule modpow_sq [OF c51_210462_b_27, where q = 1113918697692395]) (simp_all only: arith_simps rel_simps)

lemma c51_210462_b_29: "modpow 1670836401704629 11046204280772 1229500 = 715853646319381"
  by (rule modpow_sq [OF c51_210462_b_28, where q = 1059037886064036]) (simp_all only: arith_simps rel_simps)

lemma c51_210462_b_30: "modpow 1670836401704629 11046204280772 1229501 = 185921603602951"
  by (rule modpow_mul [OF c51_210462_b_29, where q = 4732639056889]) (simp_all only: arith_simps rel_simps)

lemma c51_210462_b_31: "modpow 1670836401704629 11046204280772 2459002 = 1245520574938995"
  by (rule modpow_sq [OF c51_210462_b_30, where q = 20688346657414]) (simp_all only: arith_simps rel_simps)

lemma c51_210462_b_32: "modpow 1670836401704629 11046204280772 4918004 = 1651952934559732"
  by (rule modpow_sq [OF c51_210462_b_31, where q = 928470017180417]) (simp_all only: arith_simps rel_simps)

lemma c51_210462_b_33: "modpow 1670836401704629 11046204280772 4918005 = 31384141629922"
  by (rule modpow_mul [OF c51_210462_b_32, where q = 10921362234358]) (simp_all only: arith_simps rel_simps)

lemma c51_210462_b_34: "modpow 1670836401704629 11046204280772 9836010 = 532800708973965"
  by (rule modpow_sq [OF c51_210462_b_33, where q = 589503762811]) (simp_all only: arith_simps rel_simps)

lemma c51_210462_b_35: "modpow 1670836401704629 11046204280772 19672020 = 1251204258014848"
  by (rule modpow_sq [OF c51_210462_b_34, where q = 169900892267813]) (simp_all only: arith_simps rel_simps)

lemma c51_210462_b_36: "modpow 1670836401704629 11046204280772 19672021 = 338760206885147"
  by (rule modpow_mul [OF c51_210462_b_35, where q = 8271939620721]) (simp_all only: arith_simps rel_simps)

lemma c51_210462_b_37: "modpow 1670836401704629 11046204280772 39344042 = 1414472299561518"
  by (rule modpow_sq [OF c51_210462_b_36, where q = 68683252083679]) (simp_all only: arith_simps rel_simps)

lemma c51_210462_b_38: "modpow 1670836401704629 11046204280772 39344043 = 1321478185456450"
  by (rule modpow_mul [OF c51_210462_b_37, where q = 9351334430174]) (simp_all only: arith_simps rel_simps)

lemma c51_210462_b_39: "modpow 1670836401704629 11046204280772 78688086 = 583451157737883"
  by (rule modpow_sq [OF c51_210462_b_38, where q = 1045167912822373]) (simp_all only: arith_simps rel_simps)

lemma c51_210462_b_40: "modpow 1670836401704629 11046204280772 78688087 = 566863234295377"
  by (rule modpow_mul [OF c51_210462_b_39, where q = 3857302049231]) (simp_all only: arith_simps rel_simps)

lemma c51_210462_b_41: "modpow 1670836401704629 11046204280772 157376174 = 860630985012453"
  by (rule modpow_sq [OF c51_210462_b_40, where q = 192319203764044]) (simp_all only: arith_simps rel_simps)

lemma c51_210462_b_42: "modpow 1670836401704629 11046204280772 314752348 = 1651831741258945"
  by (rule modpow_sq [OF c51_210462_b_41, where q = 443302343429816]) (simp_all only: arith_simps rel_simps)

lemma c51_210462_b_43: "modpow 1670836401704629 11046204280772 629504696 = 1613023119241294"
  by (rule modpow_sq [OF c51_210462_b_42, where q = 1633043246272839]) (simp_all only: arith_simps rel_simps)

lemma c51_210462_b_44: "modpow 1670836401704629 11046204280772 1259009392 = 898584021391018"
  by (rule modpow_sq [OF c51_210462_b_43, where q = 1557210257421042]) (simp_all only: arith_simps rel_simps)

lemma c51_210462_b_45: "modpow 1670836401704629 11046204280772 1259009393 = 498053521471380"
  by (rule modpow_mul [OF c51_210462_b_44, where q = 5940702904004]) (simp_all only: arith_simps rel_simps)

lemma c51_210462_b_46: "modpow 1670836401704629 11046204280772 2518018786 = 826988066168908"
  by (rule modpow_sq [OF c51_210462_b_45, where q = 148462955437748]) (simp_all only: arith_simps rel_simps)

lemma c51_210462_b_47: "modpow 1670836401704629 11046204280772 5036037572 = 865056267209583"
  by (rule modpow_sq [OF c51_210462_b_46, where q = 409321499632189]) (simp_all only: arith_simps rel_simps)

lemma c51_210462_b_48: "modpow 1670836401704629 11046204280772 10072075144 = 1541159781249704"
  by (rule modpow_sq [OF c51_210462_b_47, where q = 447872900467765]) (simp_all only: arith_simps rel_simps)

lemma c51_210462_b_49: "modpow 1670836401704629 11046204280772 10072075145 = 287668427336427"
  by (rule modpow_mul [OF c51_210462_b_48, where q = 10188888484609]) (simp_all only: arith_simps rel_simps)

lemma c51_210462_b_50: "modpow 1670836401704629 11046204280772 20144150290 = 337174974857465"
  by (rule modpow_sq [OF c51_210462_b_49, where q = 49527963361216]) (simp_all only: arith_simps rel_simps)

lemma c51_210462_b_51: "modpow 1670836401704629 11046204280772 40288300580 = 393912734693165"
  by (rule modpow_sq [OF c51_210462_b_50, where q = 68041948065140]) (simp_all only: arith_simps rel_simps)

lemma c51_210462_b_52: "modpow 1670836401704629 11046204280772 40288300581 = 1463454570500538"
  by (rule modpow_mul [OF c51_210462_b_51, where q = 2604228954898]) (simp_all only: arith_simps rel_simps)

lemma c51_210462_b_53: "modpow 1670836401704629 11046204280772 80576601162 = 1504549373680653"
  by (rule modpow_sq [OF c51_210462_b_52, where q = 1281812676413979]) (simp_all only: arith_simps rel_simps)

lemma c51_210462_b_54: "modpow 1670836401704629 11046204280772 161153202324 = 1666035062387111"
  by (rule modpow_sq [OF c51_210462_b_53, where q = 1354811767048762]) (simp_all only: arith_simps rel_simps)

lemma c51_210462_b_55: "modpow 1670836401704629 11046204280772 322306404648 = 558015239368345"
  by (rule modpow_sq [OF c51_210462_b_54, where q = 1661247520266744]) (simp_all only: arith_simps rel_simps)

lemma c51_210462_b_56: "modpow 1670836401704629 11046204280772 322306404649 = 585835722703625"
  by (rule modpow_mul [OF c51_210462_b_55, where q = 3689140552335]) (simp_all only: arith_simps rel_simps)

lemma c51_210462_b_57: "modpow 1670836401704629 11046204280772 644612809298 = 1254302643273476"
  by (rule modpow_sq [OF c51_210462_b_56, where q = 205408197741881]) (simp_all only: arith_simps rel_simps)

lemma c51_210462_b_58: "modpow 1670836401704629 11046204280772 644612809299 = 951131594771470"
  by (rule modpow_mul [OF c51_210462_b_57, where q = 8292423610938]) (simp_all only: arith_simps rel_simps)

lemma c51_210462_b_59: "modpow 1670836401704629 11046204280772 1289225618598 = 249018753665223"
  by (rule modpow_sq [OF c51_210462_b_58, where q = 541436199049513]) (simp_all only: arith_simps rel_simps)

lemma c51_210462_b_60: "modpow 1670836401704629 11046204280772 1289225618599 = 1670143628958792"
  by (rule modpow_mul [OF c51_210462_b_59, where q = 1646308411716]) (simp_all only: arith_simps rel_simps)

lemma c51_210462_b_61: "modpow 1670836401704629 11046204280772 2578451237198 = 122502676378192"
  by (rule modpow_sq [OF c51_210462_b_60, where q = 1669451143454768]) (simp_all only: arith_simps rel_simps)

lemma c51_210462_b_62: "modpow 1670836401704629 11046204280772 5156902474396 = 624716327415675"
  by (rule modpow_sq [OF c51_210462_b_61, where q = 8981672714641]) (simp_all only: arith_simps rel_simps)

lemma c51_210462_b_63: "modpow 1670836401704629 11046204280772 5156902474397 = 1"
  by (rule modpow_mul [OF c51_210462_b_62, where q = 4130113614431]) (simp_all only: arith_simps rel_simps)

lemma prime_51_bits_210462: "is_prime 1670836401704629"
  by (rule pocklington1 [where d = 11046204280771 and u = 735766788910399 and v = 4864288475532, OF prime_43_bits_3736 _ _ _ c51_210462_a_8 c51_210462_b_63])
    (simp_all only: arith_simps rel_simps)

lemma c254_604939_a_0: "modpow 21888242871839275222246405745257275088548364400416034343698204186575808495617 2 Numeral1 = 2"
  by (rule modpow_start) (simp_all only: arith_simps rel_simps)

lemma c254_604939_a_1: "modpow 21888242871839275222246405745257275088548364400416034343698204186575808495617 2 2 = 4"
  by (rule modpow_sq [OF c254_604939_a_0, where q = 0]) (simp_all only: arith_simps rel_simps)

lemma c254_604939_a_2: "modpow 21888242871839275222246405745257275088548364400416034343698204186575808495617 2 5 = 32"
  by (rule modpow_sq_mul [OF c254_604939_a_1, where q = 0]) (simp_all only: arith_simps rel_simps)

lemma c254_604939_a_3: "modpow 21888242871839275222246405745257275088548364400416034343698204186575808495617 2 11 = 2048"
  by (rule modpow_sq_mul [OF c254_604939_a_2, where q = 0]) (simp_all only: arith_simps rel_simps)

lemma c254_604939_a_4: "modpow 21888242871839275222246405745257275088548364400416034343698204186575808495617 2 23 = 8388608"
  by (rule modpow_sq_mul [OF c254_604939_a_3, where q = 0]) (simp_all only: arith_simps rel_simps)

lemma c254_604939_a_5: "modpow 21888242871839275222246405745257275088548364400416034343698204186575808495617 2 46 = 70368744177664"
  by (rule modpow_sq [OF c254_604939_a_4, where q = 0]) (simp_all only: arith_simps rel_simps)

lemma c254_604939_a_6: "modpow 21888242871839275222246405745257275088548364400416034343698204186575808495617 2 93 = 9903520314283042199192993792"
  by (rule modpow_sq_mul [OF c254_604939_a_5, where q = 0]) (simp_all only: arith_simps rel_simps)

lemma c254_604939_a_7: "modpow 21888242871839275222246405745257275088548364400416034343698204186575808495617 2 186 = 98079714615416886934934209737619787751599303819750539264"
  by (rule modpow_sq [OF c254_604939_a_6, where q = 0]) (simp_all only: arith_simps rel_simps)

lemma c254_604939_a_8: "modpow 21888242871839275222246405745257275088548364400416034343698204186575808495617 2 373 = 3495698043062180424293424276942864478603631478588312888568185564161182265760"
  by (rule modpow_sq_mul [OF c254_604939_a_7, where q = 878976944414111450696082923235315296]) (simp_all only: arith_simps rel_simps)

lemma c254_604939_a_9: "modpow 21888242871839275222246405745257275088548364400416034343698204186575808495617 2 747 = 683342410971454129789421161102464845105246981569358911197049191567214980518"
  by (rule modpow_sq_mul [OF c254_604939_a_8, where q = 1116572479556182462652816250782719684225558776546364934163036216209830713946]) (simp_all only: arith_simps rel_simps)

lemma c254_604939_a_10: "modpow 21888242871839275222246405745257275088548364400416034343698204186575808495617 2 1495 = 4178252736633361882938849468673586753165686868234685027908798901145311052483"
  by (rule modpow_sq_mul [OF c254_604939_a_9, where q = 42667367441637054312006708737470466322250851659341126406824579385684954245]) (simp_all only: arith_simps rel_simps)

lemma c254_604939_a_11: "modpow 21888242871839275222246405745257275088548364400416034343698204186575808495617 2 2991 = 6128442394084188246909100226493096989092498916230794309779919028327380626102"
  by (rule modpow_sq_mul [OF c254_604939_a_10, where q = 1595175641407454304325342322531065059560273416849174394934077755972856321628]) (simp_all only: arith_simps rel_simps)

lemma c254_604939_a_12: "modpow 21888242871839275222246405745257275088548364400416034343698204186575808495617 2 5982 = 4287038017481359547236369560654001995372778663276240691087960217930265461865"
  by (rule modpow_sq [OF c254_604939_a_11, where q = 1715889502758077895557451290307126389188235578158521164820050222880423228667]) (simp_all only: arith_simps rel_simps)

lemma c254_604939_a_13: "modpow 21888242871839275222246405745257275088548364400416034343698204186575808495617 2 11965 = 19945044536827874730278953709984777836565870148438674734439854367975384274895"
  by (rule modpow_sq_mul [OF c254_604939_a_12, where q = 1679321183609119805542917361389562310033564615832838566950585622497246776915]) (simp_all only: arith_simps rel_simps)

lemma c254_604939_a_14: "modpow 21888242871839275222246405745257275088548364400416034343698204186575808495617 2 23931 = 2184700742416846522632719238436360461755162885661464090886489740078869727874"
  by (rule modpow_sq_mul [OF c254_604939_a_13, where q = 36348719621331559388716008785626903355100807126773254195172917480429470705728]) (simp_all only: arith_simps rel_simps)

lemma c254_604939_a_15: "modpow 21888242871839275222246405745257275088548364400416034343698204186575808495617 2 47863 = 7643061562245303834495276336375976521239212221038662742386636091263831788984"
  by (rule modpow_sq_mul [OF c254_604939_a_14, where q = 436116993206193420583424496398211574682362422140427174085838353715401229904]) (simp_all only: arith_simps rel_simps)

lemma c254_604939_a_16: "modpow 21888242871839275222246405745257275088548364400416034343698204186575808495617 2 95726 = 3438944809604841831852436736338354769656164677760082546304675724933690967247"
  by (rule modpow_sq [OF c254_604939_a_15, where q = 2668847855276145276470491348583194417312605401766728541958710375574739742577]) (simp_all only: arith_simps rel_simps)

lemma c254_604939_a_17: "modpow 21888242871839275222246405745257275088548364400416034343698204186575808495617 2 191452 = 7659209643241512122484122752557507234176540586377996843157824907879398290786"
  by (rule modpow_sq [OF c254_604939_a_16, where q = 540305655084057966383488388989783641326354955738210717880935492787521579519]) (simp_all only: arith_simps rel_simps)

lemma c254_604939_a_18: "modpow 21888242871839275222246405745257275088548364400416034343698204186575808495617 2 382904 = 18763253047867796994816394458079169978649596714827568093915113845287634272053"
  by (rule modpow_sq [OF c254_604939_a_17, where q = 2680137126703686909270535760119283533375457458962072448252827506238871616079]) (simp_all only: arith_simps rel_simps)

lemma c254_604939_a_19: "modpow 21888242871839275222246405745257275088548364400416034343698204186575808495617 2 765809 = 7949816904728894883241313797041558719925313413050338621190488762467193648727"
  by (rule modpow_sq_mul [OF c254_604939_a_18, where q = 32168837580952563733913635676937201500187120625776109834508485705701552180123]) (simp_all only: arith_simps rel_simps)

lemma c254_604939_a_20: "modpow 21888242871839275222246405745257275088548364400416034343698204186575808495617 2 1531618 = 9041413298238414067634291627193031998628889990551041150706317476559677122190"
  by (rule modpow_sq [OF c254_604939_a_19, where q = 2887376076223272812683687941122475724064579907961134488068586631042091576067]) (simp_all only: arith_simps rel_simps)

lemma c254_604939_a_21: "modpow 21888242871839275222246405745257275088548364400416034343698204186575808495617 2 3063237 = 19493374781035531509946759367953420075077720681377220355569585979969883532877"
  by (rule modpow_sq_mul [OF c254_604939_a_20, where q = 7469503596813223829427041443416907674312563763391450835132425562013568597819]) (simp_all only: arith_simps rel_simps)

lemma c254_604939_a_22: "modpow 21888242871839275222246405745257275088548364400416034343698204186575808495617 2 6126475 = 17338778181254786206802351817770101777151100354557366796471939232055235755495"
  by (rule modpow_sq_mul [OF c254_604939_a_21, where q = 34721074923999255646245382119190115508820163972048031666222908809264368044139]) (simp_all only: arith_simps rel_simps)

lemma c254_604939_a_23: "modpow 21888242871839275222246405745257275088548364400416034343698204186575808495617 2 12252951 = 5548464012629041747726572071680392311003330784785643055223681250209281582042"
  by (rule modpow_sq_mul [OF c254_604939_a_22, where q = 27469836713621474613549402021999136391235876569467237227469691760571886479624]) (simp_all only: arith_simps rel_simps)

lemma c254_604939_a_24: "modpow 21888242871839275222246405745257275088548364400416034343698204186575808495617 2 24505902 = 1571641657618685174611389636714747673527098316290199013117156410078904412802"
  by (rule modpow_sq [OF c254_604939_a_23, where q = 1406483520842468468672706709242463976112929849216678987825822978992042666786]) (simp_all only: arith_simps rel_simps)

lemma c254_604939_a_25: "modpow 21888242871839275222246405745257275088548364400416034343698204186575808495617 2 49011804 = 20555666703154621662406606000502778881715961068649092935860302326390045167500"
  by (rule modpow_sq [OF c254_604939_a_24, where q = 112848597049345917045729401006763147287653165102035252719147896067090913912]) (simp_all only: arith_simps rel_simps)

lemma c254_604939_a_26: "modpow 21888242871839275222246405745257275088548364400416034343698204186575808495617 2 98023609 = 7512436776255843634176802362845698490503658994623506199581386877870445541846"
  by (rule modpow_sq_mul [OF c254_604939_a_25, where q = 38608437971492027880510316942646848631427627582803916639399937328427350994762]) (simp_all only: arith_simps rel_simps)

lemma c254_604939_a_27: "modpow 21888242871839275222246405745257275088548364400416034343698204186575808495617 2 196047218 = 11768990373502581538584047052080502866335057946401807821350748120492836012155"
  by (rule modpow_sq [OF c254_604939_a_26, where q = 2578402782155299617180582640237466303265320372526058507721273484344302550633]) (simp_all only: arith_simps rel_simps)

lemma c254_604939_a_28: "modpow 21888242871839275222246405745257275088548364400416034343698204186575808495617 2 392094436 = 2402731283448922504696799340772769788113962573421583141453725518288147813354"
  by (rule modpow_sq [OF c254_604939_a_27, where q = 6328015237339947885716322425383841776148790667334630023457045339351876380463]) (simp_all only: arith_simps rel_simps)

lemma c254_604939_a_29: "modpow 21888242871839275222246405745257275088548364400416034343698204186575808495617 2 784188872 = 16115522174536389911339361639573658843816537878090415721063258294031486998371"
  by (rule modpow_sq [OF c254_604939_a_28, where q = 263754274578687991255956122673536663785456393785889281733774547733991635585]) (simp_all only: arith_simps rel_simps)

lemma c254_604939_a_30: "modpow 21888242871839275222246405745257275088548364400416034343698204186575808495617 2 1568377744 = 18547910507802291486036214842291924065363954793844548164695358659459211699151"
  by (rule modpow_sq [OF c254_604939_a_29, where q = 11865276554113390287203282205467724453579636308164052223448521454181994318970]) (simp_all only: arith_simps rel_simps)

lemma c254_604939_a_31: "modpow 21888242871839275222246405745257275088548364400416034343698204186575808495617 2 3136755488 = 237301912525965044288198485723843006707600638750601599556766158988129731438"
  by (rule modpow_sq [OF c254_604939_a_30, where q = 15717341324280277504037077286932808993013724278164957546277343133637240765939]) (simp_all only: arith_simps rel_simps)

lemma c254_604939_a_32: "modpow 21888242871839275222246405745257275088548364400416034343698204186575808495617 2 6273510976 = 7511012902298068091643730008894352811543012315810426360337578562144315195833"
  by (rule modpow_sq [OF c254_604939_a_31, where q = 2572714402805273502118783313532115061400349142822553346412138970570457483]) (simp_all only: arith_simps rel_simps)

lemma c254_604939_a_33: "modpow 21888242871839275222246405745257275088548364400416034343698204186575808495617 2 12547021952 = 14601459963791567925085585239001409144125276168500395333304014495767789645402"
  by (rule modpow_sq [OF c254_604939_a_32, where q = 2577425476718837840252564997695848515249814525163393116405452567417138465111]) (simp_all only: arith_simps rel_simps)

lemma c254_604939_a_34: "modpow 21888242871839275222246405745257275088548364400416034343698204186575808495617 2 25094043905 = 14542440575784112308146698241368579451672999820990563443641854589780047316834"
  by (rule modpow_sq_mul [OF c254_604939_a_33, where q = 19481018583589261745927633914537368717738730356527037091804899345384262248422]) (simp_all only: arith_simps rel_simps)

lemma c254_604939_a_35: "modpow 21888242871839275222246405745257275088548364400416034343698204186575808495617 2 50188087810 = 18830315893338309055384746006909453708403419219060320622636976353996598938572"
  by (rule modpow_sq [OF c254_604939_a_34, where q = 9661925771679871863797486982622162451541561101476811114449318216095631373752]) (simp_all only: arith_simps rel_simps)

lemma c254_604939_a_36: "modpow 21888242871839275222246405745257275088548364400416034343698204186575808495617 2 100376175621 = 4996461335652299236224681510478441295097364882978995918573512141954281577837"
  by (rule modpow_sq_mul [OF c254_604939_a_35, where q = 32399201591380532398125075010267721474066450525892736960164099867815878277043]) (simp_all only: arith_simps rel_simps)

lemma c254_604939_a_37: "modpow 21888242871839275222246405745257275088548364400416034343698204186575808495617 2 200752351242 = 615863375158791046479295267329411045726487295432201979146755512006040680428"
  by (rule modpow_sq [OF c254_604939_a_36, where q = 1140549564660901146913035833651525212996604908267009671584443856733683509373]) (simp_all only: arith_simps rel_simps)

lemma c254_604939_a_38: "modpow 21888242871839275222246405745257275088548364400416034343698204186575808495617 2 401504702485 = 21428534427967982754442364447463016526691516067250994908912576884287569333112"
  by (rule modpow_sq_mul [OF c254_604939_a_37, where q = 34656751488257417392801831711085185735905902740657977179189812013534508968]) (simp_all only: arith_simps rel_simps)

lemma c254_604939_a_39: "modpow 21888242871839275222246405745257275088548364400416034343698204186575808495617 2 803009404970 = 2881846776870378446252739677444854675296576879709586516852528277723308776573"
  by (rule modpow_sq [OF c254_604939_a_38, where q = 20978481023772737475073821257555314444493512238437164575889812695562792807363]) (simp_all only: arith_simps rel_simps)

lemma c254_604939_a_40: "modpow 21888242871839275222246405745257275088548364400416034343698204186575808495617 2 1606018809940 = 975674186049922405038281265866446626916370419405741959048858648406246019622"
  by (rule modpow_sq [OF c254_604939_a_39, where q = 379429307961636021927799216612475990071551632954621755145299259220526252771]) (simp_all only: arith_simps rel_simps)

lemma c254_604939_a_41: "modpow 21888242871839275222246405745257275088548364400416034343698204186575808495617 2 3212037619881 = 10776130714936673121847152943034932551548514383908132918775987195292463804921"
  by (rule modpow_sq_mul [OF c254_604939_a_40, where q = 86981867196741937763450954783549879647105081509925478727740615493411834191]) (simp_all only: arith_simps rel_simps)

lemma c254_604939_a_42: "modpow 21888242871839275222246405745257275088548364400416034343698204186575808495617 2 6424075239762 = 3501060622939325221723550589256816874691959298924858620295972010261768278436"
  by (rule modpow_sq [OF c254_604939_a_41, where q = 5305359313917534114985146076202324037252779024438326055715565519992535233165]) (simp_all only: arith_simps rel_simps)

lemma c254_604939_a_43: "modpow 21888242871839275222246405745257275088548364400416034343698204186575808495617 2 12848150479525 = 13448424318156089466239541067763103799885243270638594103324139200620026940023"
  by (rule modpow_sq_mul [OF c254_604939_a_42, where q = 1120000865968671614443070921565119882026873510999890190982385643787304966057]) (simp_all only: arith_simps rel_simps)

lemma c254_604939_a_44: "modpow 21888242871839275222246405745257275088548364400416034343698204186575808495617 2 25696300959051 = 14705453519505307995330609153290309658876798535266815133745559462215113381226"
  by (rule modpow_sq_mul [OF c254_604939_a_43, where q = 16525777578415032751048448411469709950493753923311938436404009805240721731896]) (simp_all only: arith_simps rel_simps)

lemma c254_604939_a_45: "modpow 21888242871839275222246405745257275088548364400416034343698204186575808495617 2 51392601918102 = 3831165978040204488067319906145412081708929870816627290265247926304057320850"
  by (rule modpow_sq [OF c254_604939_a_44, where q = 9879749803605841971439893911760505100253888844132584314941223976279209847378]) (simp_all only: arith_simps rel_simps)

lemma c254_604939_a_46: "modpow 21888242871839275222246405745257275088548364400416034343698204186575808495617 2 102785203836204 = 19012189881481831838744437641325794493114943573920637569288050273298419408395"
  by (rule modpow_sq [OF c254_604939_a_45, where q = 670580678277140032100810207938831890078559713958258449373529385030982347065]) (simp_all only: arith_simps rel_simps)

lemma c254_604939_a_47: "modpow 21888242871839275222246405745257275088548364400416034343698204186575808495617 2 205570407672408 = 6833087307797491816167125196435315447238093280456905846939843903850147497448"
  by (rule modpow_sq [OF c254_604939_a_46, where q = 16514042091271179436682854496780856670725978826274382385817776537084756020881]) (simp_all only: arith_simps rel_simps)

lemma c254_604939_a_48: "modpow 21888242871839275222246405745257275088548364400416034343698204186575808495617 2 411140815344817 = 7856047034866197947206914911841353981499642249067212891172556289181342892557"
  by (rule modpow_sq_mul [OF c254_604939_a_47, where q = 4266316161545744933477309592120289361617835283752281095390405609830033638003]) (simp_all only: arith_simps rel_simps)

lemma c254_604939_a_49: "modpow 21888242871839275222246405745257275088548364400416034343698204186575808495617 2 822281630689634 = 6273129052205839970545164780466481252413500430122694314768516248080968574080"
  by (rule modpow_sq [OF c254_604939_a_48, where q = 2819663294829104020788719019419147246752768387412032465890522515324788822057]) (simp_all only: arith_simps rel_simps)

lemma c254_604939_a_50: "modpow 21888242871839275222246405745257275088548364400416034343698204186575808495617 2 1644563261379269 = 2600197016147366602343517345697096882713888283375997171376274741851459875905"
  by (rule modpow_sq_mul [OF c254_604939_a_49, where q = 3595733868273014826773838353848256222429402526835826535706409891503386495935]) (simp_all only: arith_simps rel_simps)

lemma c254_604939_a_51: "modpow 21888242871839275222246405745257275088548364400416034343698204186575808495617 2 3289126522758538 = 18334341469890741274937013769744110410820127855328678913321315621749944966985"
  by (rule modpow_sq [OF c254_604939_a_50, where q = 308888409287535370705770653506020691378777714129698493517550665022644984120]) (simp_all only: arith_simps rel_simps)

lemma c254_604939_a_52: "modpow 21888242871839275222246405745257275088548364400416034343698204186575808495617 2 6578253045517077 = 1466426009808129911708665247666832199037017371604559362830568111492647947263"
  by (rule modpow_sq_mul [OF c254_604939_a_51, where q = 30714944009236385964663922116355810958427384916141921070991959672329101474211]) (simp_all only: arith_simps rel_simps)

lemma c254_604939_a_53: "modpow 21888242871839275222246405745257275088548364400416034343698204186575808495617 2 13156506091034154 = 3121946003212659093068080819325630801594182645828112676265997023472460346825"
  by (rule modpow_sq [OF c254_604939_a_52, where q = 98244763402567926868594316757928303417396859309503812870035871302838923832]) (simp_all only: arith_simps rel_simps)

lemma c254_604939_a_54: "modpow 21888242871839275222246405745257275088548364400416034343698204186575808495617 2 26313012182068309 = 5604713640296807101102635888067154364694882474364537871947138324806210174271"
  by (rule modpow_sq_mul [OF c254_604939_a_53, where q = 890573711562301514212496898310383990557687568265935291277882201098114789987]) (simp_all only: arith_simps rel_simps)

lemma c254_604939_a_55: "modpow 21888242871839275222246405745257275088548364400416034343698204186575808495617 2 52626024364136618 = 16680539197315292238669132393735601779340948210924412072708912534003079304216"
  by (rule modpow_sq [OF c254_604939_a_54, where q = 1435145579005970684037075739635033701559482599975480285374994181458559320425]) (simp_all only: arith_simps rel_simps)

lemma c254_604939_a_56: "modpow 21888242871839275222246405745257275088548364400416034343698204186575808495617 2 105252048728273236 = 5531435910273854460604485202953957450306215016024043477396683524246571191879"
  by (rule modpow_sq [OF c254_604939_a_55, where q = 12711864974376139843355462444511499993508623747107763241432547640090725823481]) (simp_all only: arith_simps rel_simps)

lemma c254_604939_a_57: "modpow 21888242871839275222246405745257275088548364400416034343698204186575808495617 2 210504097456546472 = 10197565499360844294221463076383361342550683510436045892384485447267239098222"
  by (rule modpow_sq [OF c254_604939_a_56, where q = 1397863839898816353469927766552381744381197558790314726088471417749385994307]) (simp_all only: arith_simps rel_simps)

lemma c254_604939_a_58: "modpow 21888242871839275222246405745257275088548364400416034343698204186575808495617 2 421008194913092945 = 16675045097788334644177688266633821503554173174201890538456543140773360876753"
  by (rule modpow_sq_mul [OF c254_604939_a_57, where q = 9501936059704937646524326457319508067225617086372003808600724158520839776695]) (simp_all only: arith_simps rel_simps)

lemma c254_604939_a_59: "modpow 21888242871839275222246405745257275088548364400416034343698204186575808495617 2 842016389826185891 = 9615858408683405198197151680671129955789313064786180126066582650909477306971"
  by (rule modpow_sq_mul [OF c254_604939_a_58, where q = 25406984986539447322674746448261148559596041254406079459623138717255119618791]) (simp_all only: arith_simps rel_simps)

lemma c254_604939_a_60: "modpow 21888242871839275222246405745257275088548364400416034343698204186575808495617 2 1684032779652371782 = 21438489773600941141370841163414553786539371531388977385856700623171511103604"
  by (rule modpow_sq [OF c254_604939_a_59, where q = 4224401815954334397326590387342362560400702138727864382919823282272279845861]) (simp_all only: arith_simps rel_simps)

lemma c254_604939_a_61: "modpow 21888242871839275222246405745257275088548364400416034343698204186575808495617 2 3368065559304743564 = 11005831895682292616874623241127081979034209184058250271500995095251917767923"
  by (rule modpow_sq [OF c254_604939_a_60, where q = 20997978068130375774575957579249601799120165480668939329975611918212026544029]) (simp_all only: arith_simps rel_simps)

lemma c254_604939_a_62: "modpow 21888242871839275222246405745257275088548364400416034343698204186575808495617 2 6736131118609487129 = 9621910903599328995520081152867985525711372213690704271988672328849389906498"
  by (rule modpow_sq_mul [OF c254_604939_a_61, where q = 11067890321324750404620514783501089097511890378623912977476167909419406136080]) (simp_all only: arith_simps rel_simps)

lemma c254_604939_a_63: "modpow 21888242871839275222246405745257275088548364400416034343698204186575808495617 2 13472262237218974259 = 20958131683518074203341184186626145426344209056491932222329891275714389900927"
  by (rule modpow_sq_mul [OF c254_604939_a_62, where q = 8459442814015525771749811194612018037486874966528637905041176555913148429193]) (simp_all only: arith_simps rel_simps)

lemma c254_604939_a_64: "modpow 21888242871839275222246405745257275088548364400416034343698204186575808495617 2 26944524474437948519 = 9260808163749251621477277880161078964708696031668442596838052708421179863549"
  by (rule modpow_sq_mul [OF c254_604939_a_63, where q = 40135088616802652484628033588781359543500848970306078086753053864663159247877]) (simp_all only: arith_simps rel_simps)

lemma c254_604939_a_65: "modpow 21888242871839275222246405745257275088548364400416034343698204186575808495617 2 53889048948875897038 = 13417584175630685511682788580360605484988539702517985764054206291413765466035"
  by (rule modpow_sq [OF c254_604939_a_64, where q = 3918202495646839141099572352957150001755336569421334982219436599288320371798]) (simp_all only: arith_simps rel_simps)

lemma c254_604939_a_66: "modpow 21888242871839275222246405745257275088548364400416034343698204186575808495617 2 107778097897751794076 = 2737073135561427753749081821020188348534957603465324010054493628783734283297"
  by (rule modpow_sq [OF c254_604939_a_65, where q = 8225035063995837291803399284440242651604607698562533461391583962481347013384]) (simp_all only: arith_simps rel_simps)

lemma c254_604939_a_67: "modpow 21888242871839275222246405745257275088548364400416034343698204186575808495617 2 215556195795503588152 = 9667532089774494009061619432635606227742254320759412545224038700569997092489"
  by (rule modpow_sq [OF c254_604939_a_66, where q = 342264538696730350374475885672149162847198332620330858382541616420268447160]) (simp_all only: arith_simps rel_simps)

lemma c254_604939_a_68: "modpow 21888242871839275222246405745257275088548364400416034343698204186575808495617 2 431112391591007176305 = 1357253473777329698493702931651774823085236120351887775026770730762596160718"
  by (rule modpow_sq_mul [OF c254_604939_a_67, where q = 8539851942803851595992162822906421665532923384745100248444748138167256700372]) (simp_all only: arith_simps rel_simps)

lemma c254_604939_a_69: "modpow 21888242871839275222246405745257275088548364400416034343698204186575808495617 2 862224783182014352611 = 4998755320182284204689067065847150105674725960292378345315704547477701871666"
  by (rule modpow_sq_mul [OF c254_604939_a_68, where q = 168322053338567812087316350946728898280172316999549814327272406942787593046]) (simp_all only: arith_simps rel_simps)

lemma c254_604939_a_70: "modpow 21888242871839275222246405745257275088548364400416034343698204186575808495617 2 1724449566364028705222 = 9070846536438772505491004034752252544752740686062823770317167409276154117442"
  by (rule modpow_sq [OF c254_604939_a_69, where q = 1141597107513773644557420037415182915237881739682985281401445555045494336642]) (simp_all only: arith_simps rel_simps)

lemma c254_604939_a_71: "modpow 21888242871839275222246405745257275088548364400416034343698204186575808495617 2 3448899132728057410445 = 653303007241731512796586821163761525798825065657732063651183085957381037173"
  by (rule modpow_sq_mul [OF c254_604939_a_70, where q = 7518214903717325412268443943169595174857503507026947788854299406083012160915]) (simp_all only: arith_simps rel_simps)

lemma c254_604939_a_72: "modpow 21888242871839275222246405745257275088548364400416034343698204186575808495617 2 6897798265456114820890 = 10201388310241605023587969740772969209327549779200181896757880614794769090139"
  by (rule modpow_sq [OF c254_604939_a_71, where q = 19499272818294772882573557014759028816055369704747104842390140960774915870]) (simp_all only: arith_simps rel_simps)

lemma c254_604939_a_73: "modpow 21888242871839275222246405745257275088548364400416034343698204186575808495617 2 13795596530912229641781 = 15745267001599969865780052382846235557376723581615501627813198049607326788057"
  by (rule modpow_sq_mul [OF c254_604939_a_72, where q = 9509061468814849536013848845798066106913735281407846485323707910230468812505]) (simp_all only: arith_simps rel_simps)

lemma c254_604939_a_74: "modpow 21888242871839275222246405745257275088548364400416034343698204186575808495617 2 27591193061824459283562 = 15192809858560222922136799324560781275794736479214981642689923634134943281996"
  by (rule modpow_sq [OF c254_604939_a_73, where q = 11326328678060792632428697840821791001569396046747308727322828014159601043109]) (simp_all only: arith_simps rel_simps)

lemma c254_604939_a_75: "modpow 21888242871839275222246405745257275088548364400416034343698204186575808495617 2 55182386123648918567124 = 21683234898089000903237043869030906439642099879054012436225660003973813222615"
  by (rule modpow_sq [OF c254_604939_a_74, where q = 10545454596327252260893782939018844354455575918994980455888617861311103476153]) (simp_all only: arith_simps rel_simps)

lemma c254_604939_a_76: "modpow 21888242871839275222246405745257275088548364400416034343698204186575808495617 2 110364772247297837134248 = 4242079070243085143808859039540845276163467389411898828449605027646555005537"
  by (rule modpow_sq [OF c254_604939_a_75, where q = 21480147054225226766181634619898179899386652738787324327124748408184312879664]) (simp_all only: arith_simps rel_simps)

lemma c254_604939_a_77: "modpow 21888242871839275222246405745257275088548364400416034343698204186575808495617 2 220729544494595674268496 = 17242717454821934955789451689723350474215049300956985455238483018179966587196"
  by (rule modpow_sq [OF c254_604939_a_76, where q = 822141591883857465735800137410066228775912529637484434868989632481245140869]) (simp_all only: arith_simps rel_simps)

lemma c254_604939_a_78: "modpow 21888242871839275222246405745257275088548364400416034343698204186575808495617 2 441459088989191348536992 = 8505690545419950234256866895908666302008161474991687386772575559995860058170"
  by (rule modpow_sq [OF c254_604939_a_77, where q = 13583150870887511935593964048739721552148811227994705555770181796896697812438]) (simp_all only: arith_simps rel_simps)

lemma c254_604939_a_79: "modpow 21888242871839275222246405745257275088548364400416034343698204186575808495617 2 882918177978382697073984 = 15982174973343244604919164814271745824743303672742305589233964279099940213021"
  by (rule modpow_sq [OF c254_604939_a_78, where q = 3305280011650702725912289965729304021898564749183767734405798545765422791687]) (simp_all only: arith_simps rel_simps)

lemma c254_604939_a_80: "modpow 21888242871839275222246405745257275088548364400416034343698204186575808495617 2 1765836355956765394147969 = 8130209490000835130911799783110670146031158794342866311038594388506323595370"
  by (rule modpow_sq_mul [OF c254_604939_a_79, where q = 23339462959558735327282435273110404005971759906150060189692918151528701200936]) (simp_all only: arith_simps rel_simps)

lemma c254_604939_a_81: "modpow 21888242871839275222246405745257275088548364400416034343698204186575808495617 2 3531672711913530788295939 = 11945868222316804880392745220810750588513885904109248741549072835227521884524"
  by (rule modpow_sq_mul [OF c254_604939_a_80, where q = 6039800155575047517900136388321550560207399111272684806935599958744261736028]) (simp_all only: arith_simps rel_simps)

lemma c254_604939_a_82: "modpow 21888242871839275222246405745257275088548364400416034343698204186575808495617 2 7063345423827061576591878 = 18249286758231888828232633349383762943278274086387328341783668769586213507722"
  by (rule modpow_sq [OF c254_604939_a_81, where q = 6519653880876689219133178554044827658000456699875175009190218821075877081862]) (simp_all only: arith_simps rel_simps)

lemma c254_604939_a_83: "modpow 21888242871839275222246405745257275088548364400416034343698204186575808495617 2 14126690847654123153183756 = 3248337901750163290226300140871615234990176503775455595544337043403165044849"
  by (rule modpow_sq [OF c254_604939_a_82, where q = 15215313039707358370342555055489408520938840998631322785852304373416838701555]) (simp_all only: arith_simps rel_simps)

lemma c254_604939_a_84: "modpow 21888242871839275222246405745257275088548364400416034343698204186575808495617 2 28253381695308246306367512 = 84340426960347587331228640469535379432493425561268398289583357508349416281"
  by (rule modpow_sq [OF c254_604939_a_83, where q = 482071547987167927617292792261687820302775052229379851594634496016221863560]) (simp_all only: arith_simps rel_simps)

lemma c254_604939_a_85: "modpow 21888242871839275222246405745257275088548364400416034343698204186575808495617 2 56506763390616492612735024 = 5913974528731395704055590681857956724009853598974884908819574694993566820917"
  by (rule modpow_sq [OF c254_604939_a_84, where q = 324983035938690355174732004677587869327836744287204726076561927442655932]) (simp_all only: arith_simps rel_simps)

lemma c254_604939_a_86: "modpow 21888242871839275222246405745257275088548364400416034343698204186575808495617 2 113013526781232985225470048 = 13003192062536422660172853358970393330843023541204102854951771168255628612827"
  by (rule modpow_sq [OF c254_604939_a_85, where q = 1597894126598969286612962971942850520514228845366702398245928472148164205086]) (simp_all only: arith_simps rel_simps)

lemma c254_604939_a_87: "modpow 21888242871839275222246405745257275088548364400416034343698204186575808495617 2 226027053562465970450940096 = 10839653678352608288574077155794139931985331812076842920454576538625137236287"
  by (rule modpow_sq [OF c254_604939_a_86, where q = 7724832221811057284561881384640109000797083270840663163907202164335739148826]) (simp_all only: arith_simps rel_simps)

lemma c254_604939_a_88: "modpow 21888242871839275222246405745257275088548364400416034343698204186575808495617 2 452054107124931940901880192 = 14337687431541349900494088126148576827330124827659086315983624379639746844548"
  by (rule modpow_sq [OF c254_604939_a_87, where q = 5368091561967844399549895522194149892296258341420180941775979366950925436413]) (simp_all only: arith_simps rel_simps)

lemma c254_604939_a_89: "modpow 21888242871839275222246405745257275088548364400416034343698204186575808495617 2 904108214249863881803760384 = 16111008459028796491357257069247621992653499540979973157550853407109493280547"
  by (rule modpow_sq [OF c254_604939_a_88, where q = 9391767173282683263398083385269053269511794677266934136926619563687450717421]) (simp_all only: arith_simps rel_simps)

lemma c254_604939_a_90: "modpow 21888242871839275222246405745257275088548364400416034343698204186575808495617 2 1808216428499727763607520768 = 8503256354671486288158502225198393077229691433040010644616391275503237275164"
  by (rule modpow_sq [OF c254_604939_a_89, where q = 11858630913715101229746724153475488749171812534271760347510941739454828019885]) (simp_all only: arith_simps rel_simps)

lemma c254_604939_a_91: "modpow 21888242871839275222246405745257275088548364400416034343698204186575808495617 2 3616432856999455527215041536 = 10513002122215437020565315871481284487610256077402723252469598904339673518651"
  by (rule modpow_sq [OF c254_604939_a_90, where q = 3303388447242004350475254257565963990153335841045653278987053591937893302485]) (simp_all only: arith_simps rel_simps)

lemma c254_604939_a_92: "modpow 21888242871839275222246405745257275088548364400416034343698204186575808495617 2 7232865713998911054430083072 = 20176012481099705162664108572579700358062203357888934560480268125411938152368"
  by (rule modpow_sq [OF c254_604939_a_91, where q = 5049432897325073667657159569445038946143040846070278622629728196006590556649]) (simp_all only: arith_simps rel_simps)

lemma c254_604939_a_93: "modpow 21888242871839275222246405745257275088548364400416034343698204186575808495617 2 14465731427997822108860166144 = 13999309723704896655093909720466623897887431451786101092779649805378195241726"
  by (rule modpow_sq [OF c254_604939_a_92, where q = 18597723079965292313228615416691070620279978233189754629244899989650703048194]) (simp_all only: arith_simps rel_simps)

lemma c254_604939_a_94: "modpow 21888242871839275222246405745257275088548364400416034343698204186575808495617 2 28931462855995644217720332288 = 11135738911988498949490634905147470139790419925587037658370573189436193316164"
  by (rule modpow_sq [OF c254_604939_a_93, where q = 8953696004185015638772717311556053933380455453796626400428614895990629267136]) (simp_all only: arith_simps rel_simps)

lemma c254_604939_a_95: "modpow 21888242871839275222246405745257275088548364400416034343698204186575808495617 2 57862925711991288435440664576 = 10005690243391103465823861620864416769189617702240363279543358135518111101018"
  by (rule modpow_sq [OF c254_604939_a_94, where q = 5665355681680383785969041481581460617065028270066539926890008837058272823734]) (simp_all only: arith_simps rel_simps)

lemma c254_604939_a_96: "modpow 21888242871839275222246405745257275088548364400416034343698204186575808495617 2 115725851423982576870881329152 = 331764745599384777040012275816909840990653227752567488156647690213465239935"
  by (rule modpow_sq [OF c254_604939_a_95, where q = 4573863595761505059155466485791919087491994913748255531353788869360028167717]) (simp_all only: arith_simps rel_simps)

lemma c254_604939_a_97: "modpow 21888242871839275222246405745257275088548364400416034343698204186575808495617 2 231451702847965153741762658304 = 13398049774576265121776226031696507244231951467966789327619461861234582477336"
  by (rule modpow_sq [OF c254_604939_a_96, where q = 5028628705698177799966886710260607315599022009694694193752026645235434217]) (simp_all only: arith_simps rel_simps)

lemma c254_604939_a_98: "modpow 21888242871839275222246405745257275088548364400416034343698204186575808495617 2 462903405695930307483525316608 = 19206512275381823351211743878037353161841939005408348134056828614133676433630"
  by (rule modpow_sq [OF c254_604939_a_97, where q = 8201103159037590796340775972098170160689405547774084226650403461485510918498]) (simp_all only: arith_simps rel_simps)

lemma c254_604939_a_99: "modpow 21888242871839275222246405745257275088548364400416034343698204186575808495617 2 925806811391860614967050633216 = 12471946223622596903652224200655951809960424341965718686258418838648530619466"
  by (rule modpow_sq [OF c254_604939_a_98, where q = 16853345238552477971465955591970722337677866011576749567860060926659422188602]) (simp_all only: arith_simps rel_simps)

lemma c254_604939_a_100: "modpow 21888242871839275222246405745257275088548364400416034343698204186575808495617 2 1851613622783721229934101266432 = 10978677361024812805047105779656343014873961213011512324751885668323619176068"
  by (rule modpow_sq [OF c254_604939_a_99, where q = 7106529451254352442016961912593746219714490771637097011525238937043631408864]) (simp_all only: arith_simps rel_simps)

lemma c254_604939_a_101: "modpow 21888242871839275222246405745257275088548364400416034343698204186575808495617 2 3703227245567442459868202532864 = 3448705218317408161449204634518925392994915746829930127077269264410066469874"
  by (rule modpow_sq [OF c254_604939_a_100, where q = 5506671198013368169077878569796922947221384851664977932719580929562905374750]) (simp_all only: arith_simps rel_simps)

lemma c254_604939_a_102: "modpow 21888242871839275222246405745257275088548364400416034343698204186575808495617 2 7406454491134884919736405065728 = 2703284341874308880966499655651041630414472167790620982767336586753775729364"
  by (rule modpow_sq [OF c254_604939_a_101, where q = 543376997070496323595556082288424923696248398234707187257875824563486397936]) (simp_all only: arith_simps rel_simps)

lemma c254_604939_a_103: "modpow 21888242871839275222246405745257275088548364400416034343698204186575808495617 2 14812908982269769839472810131456 = 6064349947684875415109668276131994854241967342142240807603972595444590220725"
  by (rule modpow_sq [OF c254_604939_a_102, where q = 333866280441575862267129470909142099464811788664270521880445145637301004763]) (simp_all only: arith_simps rel_simps)

lemma c254_604939_a_104: "modpow 21888242871839275222246405745257275088548364400416034343698204186575808495617 2 29625817964539539678945620262912 = 10921317795954514300196838913030540274007574537953393019742822437199370873228"
  by (rule modpow_sq [OF c254_604939_a_103, where q = 1680186961709056773486905088255799366902635891116277350406918431181626591341]) (simp_all only: arith_simps rel_simps)

lemma c254_604939_a_105: "modpow 21888242871839275222246405745257275088548364400416034343698204186575808495617 2 59251635929079079357891240525824 = 6759105087829623030394333892647320251163831514879915362135960632262716527630"
  by (rule modpow_sq [OF c254_604939_a_104, where q = 5449280835314947454761019639189620311449856882678451822114527675782023647362]) (simp_all only: arith_simps rel_simps)

lemma c254_604939_a_106: "modpow 21888242871839275222246405745257275088548364400416034343698204186575808495617 2 118503271858158158715782481051648 = 14280935655352523159274565788554086226104130832730524002838009447259458104640"
  by (rule modpow_sq [OF c254_604939_a_105, where q = 2087216495897979337223086553822183581919604258096022964105705842780011643780]) (simp_all only: arith_simps rel_simps)

lemma c254_604939_a_107: "modpow 21888242871839275222246405745257275088548364400416034343698204186575808495617 2 237006543716316317431564962103296 = 8903078699255337328499361019425491072382086563893157380695674794362281202370"
  by (rule modpow_sq [OF c254_604939_a_106, where q = 9317564885699819261379486528406649135043323653044047299486233322178294480190]) (simp_all only: arith_simps rel_simps)

lemma c254_604939_a_108: "modpow 21888242871839275222246405745257275088548364400416034343698204186575808495617 2 474013087432632634863129924206592 = 10739194169618916720421681367163863068496094056825369984700770039998726680593"
  by (rule modpow_sq [OF c254_604939_a_107, where q = 3621341867835070531320227769063779451072926906423643855007635141126648867571]) (simp_all only: arith_simps rel_simps)

lemma c254_604939_a_109: "modpow 21888242871839275222246405745257275088548364400416034343698204186575808495617 2 948026174865265269726259848413184 = 4067217240286848671452265983065331897323918408910809300406102239489012348584"
  by (rule modpow_sq [OF c254_604939_a_108, where q = 5269052070011396822297011056999970439871432076570999197374926626254250125945]) (simp_all only: arith_simps rel_simps)

lemma c254_604939_b_0: "modpow 21888242871839275222246405745257275088548364400416034343698204186575808495617 4067217240286848671452265983065331897323918408910809300406102239489012348584 Numeral1 = 4067217240286848671452265983065331897323918408910809300406102239489012348584"
  by (rule modpow_start) (simp_all only: arith_simps rel_simps)

lemma c254_604939_b_1: "modpow 21888242871839275222246405745257275088548364400416034343698204186575808495617 4067217240286848671452265983065331897323918408910809300406102239489012348584 2 = 6386128151552337324797274583854449461328952692055052099188299042347749289856"
  by (rule modpow_sq [OF c254_604939_b_0, where q = 755759892493212219161355350478857297975545783892963330486261659317423185600]) (simp_all only: arith_simps rel_simps)

lemma c254_604939_b_2: "modpow 21888242871839275222246405745257275088548364400416034343698204186575808495617 4067217240286848671452265983065331897323918408910809300406102239489012348584 4 = 17949996608483641539305290467609836096608244695665378189887188188456516338725"
  by (rule modpow_sq [OF c254_604939_b_1, where q = 1863220954136931894536426172244779275588476929236230482656370878595393387483]) (simp_all only: arith_simps rel_simps)

lemma c254_604939_b_3: "modpow 21888242871839275222246405745257275088548364400416034343698204186575808495617 4067217240286848671452265983065331897323918408910809300406102239489012348584 5 = 13238749333881657106705305701460976550231994495162614680963707438086684607956"
  by (rule modpow_mul [OF c254_604939_b_2, where q = 3335422404465506098530415886781445942983915852574793271020294020103183958132]) (simp_all only: arith_simps rel_simps)

lemma c254_604939_b_4: "modpow 21888242871839275222246405745257275088548364400416034343698204186575808495617 4067217240286848671452265983065331897323918408910809300406102239489012348584 10 = 5733938407172708216753031560630975590047483440848545796644664945490289684544"
  by (rule modpow_sq [OF c254_604939_b_3, where q = 8007243201364591571605929920178460383036622315235017012631662238606055114576]) (simp_all only: arith_simps rel_simps)

lemma c254_604939_b_5: "modpow 21888242871839275222246405745257275088548364400416034343698204186575808495617 4067217240286848671452265983065331897323918408910809300406102239489012348584 11 = 18235214667583589543951801634235952074735239039809855166216398886623174770170"
  by (rule modpow_mul [OF c254_604939_b_4, where q = 1065465751679868233010760488508524553345909221092618151387553341223726902278]) (simp_all only: arith_simps rel_simps)

lemma c254_604939_b_6: "modpow 21888242871839275222246405745257275088548364400416034343698204186575808495617 4067217240286848671452265983065331897323918408910809300406102239489012348584 22 = 1288997372873894118674429447566628158949100853897385711408161458452740640627"
  by (rule modpow_sq [OF c254_604939_b_5, where q = 15191856921537972504066914786283018315370890443017852617319080545763642837169]) (simp_all only: arith_simps rel_simps)

lemma c254_604939_b_7: "modpow 21888242871839275222246405745257275088548364400416034343698204186575808495617 4067217240286848671452265983065331897323918408910809300406102239489012348584 23 = 5721131295557846781104367113352519192469116605711557781285702042069833871793"
  by (rule modpow_mul [OF c254_604939_b_6, where q = 239518191036803760359147949000461712606805431529260416213788697603208082375]) (simp_all only: arith_simps rel_simps)

lemma c254_604939_b_8: "modpow 21888242871839275222246405745257275088548364400416034343698204186575808495617 4067217240286848671452265983065331897323918408910809300406102239489012348584 46 = 11135201929812221375317786463120432208088350034011690381761248787536601704132"
  by (rule modpow_sq [OF c254_604939_b_7, where q = 1495384690889122173287300005003341240747062297142528720041625978869798950301]) (simp_all only: arith_simps rel_simps)

lemma c254_604939_b_9: "modpow 21888242871839275222246405745257275088548364400416034343698204186575808495617 4067217240286848671452265983065331897323918408910809300406102239489012348584 47 = 12810263647494063624899643005593105044648157316317501937529150065277159817662"
  by (rule modpow_mul [OF c254_604939_b_8, where q = 2069114708210562870344789152649303922014042862500321131668327584023490954978]) (simp_all only: arith_simps rel_simps)

lemma c254_604939_b_10: "modpow 21888242871839275222246405745257275088548364400416034343698204186575808495617 4067217240286848671452265983065331897323918408910809300406102239489012348584 94 = 15521610032794111276804907384116859780422607459397412237403815305009698800648"
  by (rule modpow_sq [OF c254_604939_b_9, where q = 7497306004834105809959308907776932410592719206964886694256884467291082228988]) (simp_all only: arith_simps rel_simps)

lemma c254_604939_b_11: "modpow 21888242871839275222246405745257275088548364400416034343698204186575808495617 4067217240286848671452265983065331897323918408910809300406102239489012348584 188 = 18522852300694468640690569527548972872096370778100699556030374315401610772119"
  by (rule modpow_sq [OF c254_604939_b_10, where q = 11006839581449244254862783196156929873820999150351776335913392233683562824105]) (simp_all only: arith_simps rel_simps)

lemma c254_604939_b_12: "modpow 21888242871839275222246405745257275088548364400416034343698204186575808495617 4067217240286848671452265983065331897323918408910809300406102239489012348584 189 = 20249946399921792289729088424322791431150985492773860345737646188678972519942"
  by (rule modpow_mul [OF c254_604939_b_11, where q = 3441868982256085413435232718072854298220550071446617536346929403856393778962]) (simp_all only: arith_simps rel_simps)

lemma c254_604939_b_13: "modpow 21888242871839275222246405745257275088548364400416034343698204186575808495617 4067217240286848671452265983065331897323918408910809300406102239489012348584 378 = 13457565648355007742264244102198490656003254210388439718159013605249154578236"
  by (rule modpow_sq [OF c254_604939_b_12, where q = 18734273536743156167061596220487846486426350642578997072266172508491025354984]) (simp_all only: arith_simps rel_simps)

lemma c254_604939_b_14: "modpow 21888242871839275222246405745257275088548364400416034343698204186575808495617 4067217240286848671452265983065331897323918408910809300406102239489012348584 379 = 2325033620393259197726907208139781713137842775629757278593502222859102667422"
  by (rule modpow_mul [OF c254_604939_b_13, where q = 2500650387414225802576314154420855797350709950485707205191329066789085095106]) (simp_all only: arith_simps rel_simps)

lemma c254_604939_b_15: "modpow 21888242871839275222246405745257275088548364400416034343698204186575808495617 4067217240286848671452265983065331897323918408910809300406102239489012348584 758 = 21212240717249622884414253873810115590157210601412179460484528913906699640020"
  by (rule modpow_sq [OF c254_604939_b_14, where q = 246971918559707428078976691837216366653414932795735171410348822249584802992]) (simp_all only: arith_simps rel_simps)

lemma c254_604939_b_16: "modpow 21888242871839275222246405745257275088548364400416034343698204186575808495617 4067217240286848671452265983065331897323918408910809300406102239489012348584 759 = 2052119478645401982669655604481129688026327006196986550614253311576832213479"
  by (rule modpow_mul [OF c254_604939_b_15, where q = 3941604250988587445827828793233898560005876513104242193524326852049001226553]) (simp_all only: arith_simps rel_simps)

lemma c254_604939_b_17: "modpow 21888242871839275222246405745257275088548364400416034343698204186575808495617 4067217240286848671452265983065331897323918408910809300406102239489012348584 1518 = 20202787429522111779687708630702028273876485606953890600983513751817585520160"
  by (rule modpow_sq [OF c254_604939_b_16, where q = 192395268057531773657320879730981855810605174192498089474499326326881267793]) (simp_all only: arith_simps rel_simps)

lemma c254_604939_b_18: "modpow 21888242871839275222246405745257275088548364400416034343698204186575808495617 4067217240286848671452265983065331897323918408910809300406102239489012348584 1519 = 5305523791343338888340056854512443001811805487901587631041101707290939404956"
  by (rule modpow_mul [OF c254_604939_b_17, where q = 3754030226013206968178790213167512328770575529433373072384590524063485809252]) (simp_all only: arith_simps rel_simps)

lemma c254_604939_b_19: "modpow 21888242871839275222246405745257275088548364400416034343698204186575808495617 4067217240286848671452265983065331897323918408910809300406102239489012348584 3038 = 6041559096962725670722272489533137882186371191392862997144279430327605038416"
  by (rule modpow_sq [OF c254_604939_b_18, where q = 1286013814143358124124503417765833002169073362166876912255528001510841434560]) (simp_all only: arith_simps rel_simps)

lemma c254_604939_b_20: "modpow 21888242871839275222246405745257275088548364400416034343698204186575808495617 4067217240286848671452265983065331897323918408910809300406102239489012348584 3039 = 7735245295831313213036549589517340446169467307398702275906908461849736090975"
  by (rule modpow_mul [OF c254_604939_b_19, where q = 1122627040519211060196240545016115783190752605849994461834431498937153095457]) (simp_all only: arith_simps rel_simps)

lemma c254_604939_b_21: "modpow 21888242871839275222246405745257275088548364400416034343698204186575808495617 4067217240286848671452265983065331897323918408910809300406102239489012348584 6078 = 13735901650901636859524824971859910367121242378529385750786171991516679521694"
  by (rule modpow_sq [OF c254_604939_b_20, where q = 2733614577333707678566809402051942482183476698305001671179205002107280782243]) (simp_all only: arith_simps rel_simps)

lemma c254_604939_b_22: "modpow 21888242871839275222246405745257275088548364400416034343698204186575808495617 4067217240286848671452265983065331897323918408910809300406102239489012348584 12156 = 14591299263583869058937788839531601423586197208846154139957573506839701511840"
  by (rule modpow_sq [OF c254_604939_b_21, where q = 8619924187975162940848868867115328830508169316662922082013740450880064335588]) (simp_all only: arith_simps rel_simps)

lemma c254_604939_b_23: "modpow 21888242871839275222246405745257275088548364400416034343698204186575808495617 4067217240286848671452265983065331897323918408910809300406102239489012348584 24312 = 14233875272554850401971955031912524519448005908035237319952871792675513453360"
  by (rule modpow_sq [OF c254_604939_b_22, where q = 9726957775737281330857474818347222235084210378574704570064144636018211264720]) (simp_all only: arith_simps rel_simps)

lemma c254_604939_b_24: "modpow 21888242871839275222246405745257275088548364400416034343698204186575808495617 4067217240286848671452265983065331897323918408910809300406102239489012348584 24313 = 9518441876853481861736351359352991275527267624348828572263517916303564912401"
  by (rule modpow_mul [OF c254_604939_b_23, where q = 2644902253853831229500326711538217373850029354797693575397719718560616595567]) (simp_all only: arith_simps rel_simps)

lemma c254_604939_b_25: "modpow 21888242871839275222246405745257275088548364400416034343698204186575808495617 4067217240286848671452265983065331897323918408910809300406102239489012348584 48626 = 12559628755166342997622902078057969571495137858813388166034290615165281903223"
  by (rule modpow_sq [OF c254_604939_b_24, where q = 4139242071349733199590106503201230229294372448742280245828453382380226161834]) (simp_all only: arith_simps rel_simps)

lemma c254_604939_b_26: "modpow 21888242871839275222246405745257275088548364400416034343698204186575808495617 4067217240286848671452265983065331897323918408910809300406102239489012348584 48627 = 9325841753298288981327243965167196678152097785136296273988568482195482840064"
  by (rule modpow_mul [OF c254_604939_b_25, where q = 2333798053307259615438621549679275082120793730585004280416191978839817006104]) (simp_all only: arith_simps rel_simps)

lemma c254_604939_b_27: "modpow 21888242871839275222246405745257275088548364400416034343698204186575808495617 4067217240286848671452265983065331897323918408910809300406102239489012348584 97254 = 21537199675553605844408746586789274630122618516551848837117809522839835106283"
  by (rule modpow_sq [OF c254_604939_b_26, where q = 3973426506494784693574579286969225821832274708046116134801808297785159328789]) (simp_all only: arith_simps rel_simps)

lemma c254_604939_b_28: "modpow 21888242871839275222246405745257275088548364400416034343698204186575808495617 4067217240286848671452265983065331897323918408910809300406102239489012348584 97255 = 6707506584316207971952693228392950314584709399326875711445791268897704110998"
  by (rule modpow_mul [OF c254_604939_b_27, where q = 4001987292484350676499382787170552401364421147603743224045572498913847081122]) (simp_all only: arith_simps rel_simps)

lemma c254_604939_b_29: "modpow 21888242871839275222246405745257275088548364400416034343698204186575808495617 4067217240286848671452265983065331897323918408910809300406102239489012348584 194510 = 3495823615951955709076375045691282919196805517726921210770951285651493961704"
  by (rule modpow_sq [OF c254_604939_b_28, where q = 2055470822490225164877075877888992772906545987068013413108709476917964667900]) (simp_all only: arith_simps rel_simps)

lemma c254_604939_b_30: "modpow 21888242871839275222246405745257275088548364400416034343698204186575808495617 4067217240286848671452265983065331897323918408910809300406102239489012348584 389020 = 5164336734644246840671690129328710296898980252530914317463748287069373836588"
  by (rule modpow_sq [OF c254_604939_b_29, where q = 558326350150759767250023203617191891037302132677488950527237794406803985684]) (simp_all only: arith_simps rel_simps)

lemma c254_604939_b_31: "modpow 21888242871839275222246405745257275088548364400416034343698204186575808495617 4067217240286848671452265983065331897323918408910809300406102239489012348584 389021 = 17875055090506025240356370126492227312793770017793380228434757736587311268860"
  by (rule modpow_mul [OF c254_604939_b_30, where q = 959623827493958943807779902606190422355571064186695434935050466079410464996]) (simp_all only: arith_simps rel_simps)

lemma c254_604939_b_32: "modpow 21888242871839275222246405745257275088548364400416034343698204186575808495617 4067217240286848671452265983065331897323918408910809300406102239489012348584 778042 = 13319657890871945125612807179002593801263433990036470038454475128813969275354"
  by (rule modpow_sq [OF c254_604939_b_31, where q = 14597681337852233572639305220494461655073734631019948622859758144616186832438]) (simp_all only: arith_simps rel_simps)

lemma c254_604939_b_33: "modpow 21888242871839275222246405745257275088548364400416034343698204186575808495617 4067217240286848671452265983065331897323918408910809300406102239489012348584 778043 = 11701486533829588687374114121175543927091329153289072077623892470291851896593"
  by (rule modpow_mul [OF c254_604939_b_32, where q = 2475024721065007461401559895880576445481243921194524499955683576500976225279]) (simp_all only: arith_simps rel_simps)

lemma c254_604939_b_34: "modpow 21888242871839275222246405745257275088548364400416034343698204186575808495617 4067217240286848671452265983065331897323918408910809300406102239489012348584 1556086 = 9373056632830500335956880943875503491138449319929929263994608351311980630154"
  by (rule modpow_sq [OF c254_604939_b_33, where q = 6255631751855162657717614571621847148469655504839417107700989239859833347735]) (simp_all only: arith_simps rel_simps)

lemma c254_604939_b_35: "modpow 21888242871839275222246405745257275088548364400416034343698204186575808495617 4067217240286848671452265983065331897323918408910809300406102239489012348584 1556087 = 7606880730808735089449470056962104616761148653896049807680072281808978620232"
  by (rule modpow_mul [OF c254_604939_b_34, where q = 1741677381526139185873163196972232410023884300804602619829475850438537987912]) (simp_all only: arith_simps rel_simps)

lemma c254_604939_b_36: "modpow 21888242871839275222246405745257275088548364400416034343698204186575808495617 4067217240286848671452265983065331897323918408910809300406102239489012348584 3112174 = 10012828953976419766897907754064047394611338007310867300197830252417052771018"
  by (rule modpow_sq [OF c254_604939_b_35, where q = 2643640003062833982602696233537066622255596656439017071879436543058209440118]) (simp_all only: arith_simps rel_simps)

lemma c254_604939_b_37: "modpow 21888242871839275222246405745257275088548364400416034343698204186575808495617 4067217240286848671452265983065331897323918408910809300406102239489012348584 3112175 = 7694521371516738082169058418996934346672614130827311342067208072937893629701"
  by (rule modpow_mul [OF c254_604939_b_36, where q = 1860558235949167766585691383985505601457713977023563377616488169409773887883]) (simp_all only: arith_simps rel_simps)

lemma c254_604939_b_38: "modpow 21888242871839275222246405745257275088548364400416034343698204186575808495617 4067217240286848671452265983065331897323918408910809300406102239489012348584 6224350 = 8679339286862363761504163591784019976629085217846334212063598421905203773607"
  by (rule modpow_sq [OF c254_604939_b_37, where q = 2704906898346781540329881841935542059555642005194250771795181998403986445682]) (simp_all only: arith_simps rel_simps)

lemma c254_604939_b_39: "modpow 21888242871839275222246405745257275088548364400416034343698204186575808495617 4067217240286848671452265983065331897323918408910809300406102239489012348584 12448700 = 9817018217964861179406049766598502403587397301701410320464763976317113600098"
  by (rule modpow_sq [OF c254_604939_b_38, where q = 3441616163414875604904305262064691086077348403918496543527815763568113935503]) (simp_all only: arith_simps rel_simps)

lemma c254_604939_b_40: "modpow 21888242871839275222246405745257275088548364400416034343698204186575808495617 4067217240286848671452265983065331897323918408910809300406102239489012348584 12448701 = 403207217671821601991585014264709338448349712570319674836587866291851246368"
  by (rule modpow_mul [OF c254_604939_b_39, where q = 1824173186404414343639500076187971776177294423596890648046476476227167449392]) (simp_all only: arith_simps rel_simps)

lemma c254_604939_b_41: "modpow 21888242871839275222246405745257275088548364400416034343698204186575808495617 4067217240286848671452265983065331897323918408910809300406102239489012348584 24897402 = 20044427735584441310161981030940585478683319332165119004897426775409179126663"
  by (rule modpow_sq [OF c254_604939_b_40, where q = 7427551920662255250310952875712171844541713659586996034655121224346458233]) (simp_all only: arith_simps rel_simps)

lemma c254_604939_b_42: "modpow 21888242871839275222246405745257275088548364400416034343698204186575808495617 4067217240286848671452265983065331897323918408910809300406102239489012348584 49794804 = 17740047454093331384430682664109474509977576834526580113655681179373728635174"
  by (rule modpow_sq [OF c254_604939_b_41, where q = 18355931337182992603982635677230043301804839401157141809303762679691489511435]) (simp_all only: arith_simps rel_simps)

lemma c254_604939_b_43: "modpow 21888242871839275222246405745257275088548364400416034343698204186575808495617 4067217240286848671452265983065331897323918408910809300406102239489012348584 49794805 = 8232648074631320254692952416522314971505800744418523364714398676793187570305"
  by (rule modpow_mul [OF c254_604939_b_42, where q = 3296410190222464825668284678726209978944317207597549116611375013088489206383]) (simp_all only: arith_simps rel_simps)

lemma c254_604939_b_44: "modpow 21888242871839275222246405745257275088548364400416034343698204186575808495617 4067217240286848671452265983065331897323918408910809300406102239489012348584 99589610 = 8629976415322310111913236549513323322989871275047921905490991820742268879913"
  by (rule modpow_sq [OF c254_604939_b_43, where q = 3096479453265291116516328491375007611368949438328303967636690117332479467736]) (simp_all only: arith_simps rel_simps)

lemma c254_604939_b_45: "modpow 21888242871839275222246405745257275088548364400416034343698204186575808495617 4067217240286848671452265983065331897323918408910809300406102239489012348584 199179220 = 17980366041083543859030201235106264289727395210669349329180701586110605329295"
  by (rule modpow_sq [OF c254_604939_b_44, where q = 3402579794325949419892304837890444219387549224492858636537209873018390629122]) (simp_all only: arith_simps rel_simps)

lemma c254_604939_b_46: "modpow 21888242871839275222246405745257275088548364400416034343698204186575808495617 4067217240286848671452265983065331897323918408910809300406102239489012348584 398358440 = 11007829547199563644351345885759890439753192393307999906038004399823998109294"
  by (rule modpow_sq [OF c254_604939_b_45, where q = 14770192603595861997536736266518786409330578725487402790174692136921244918643]) (simp_all only: arith_simps rel_simps)

lemma c254_604939_b_47: "modpow 21888242871839275222246405745257275088548364400416034343698204186575808495617 4067217240286848671452265983065331897323918408910809300406102239489012348584 796716880 = 11784280665242305053052714850129298859084726144309269807678956161303394553334"
  by (rule modpow_sq [OF c254_604939_b_46, where q = 5535954258626042322932931029096133624924903208003799552844859023871343184206]) (simp_all only: arith_simps rel_simps)

lemma c254_604939_b_48: "modpow 21888242871839275222246405745257275088548364400416034343698204186575808495617 4067217240286848671452265983065331897323918408910809300406102239489012348584 796716881 = 11284752815286972314426066890838572785018453659598163493074748069494488677795"
  by (rule modpow_mul [OF c254_604939_b_47, where q = 2189724856704542335402493218355712118884994764497898422366901256700391542733]) (simp_all only: arith_simps rel_simps)

lemma c254_604939_b_49: "modpow 21888242871839275222246405745257275088548364400416034343698204186575808495617 4067217240286848671452265983065331897323918408910809300406102239489012348584 1593433762 = 21664959117051092509571218780841901526186993695219010438790058196627281065682"
  by (rule modpow_sq [OF c254_604939_b_48, where q = 5817993104689374132959810092078050491304816361537996207416305046320782597879]) (simp_all only: arith_simps rel_simps)

lemma c254_604939_b_50: "modpow 21888242871839275222246405745257275088548364400416034343698204186575808495617 4067217240286848671452265983065331897323918408910809300406102239489012348584 1593433763 = 13768756505859399311183560326960825250207199533332247115294768620812113250806"
  by (rule modpow_mul [OF c254_604939_b_49, where q = 4025727224744355453122839403396970991454898160790137610810433426390164880346]) (simp_all only: arith_simps rel_simps)

lemma c254_604939_b_51: "modpow 21888242871839275222246405745257275088548364400416034343698204186575808495617 4067217240286848671452265983065331897323918408910809300406102239489012348584 3186867526 = 8125547412493835302655544292277789516896418318486148577548235680118494358722"
  by (rule modpow_sq [OF c254_604939_b_50, where q = 8661209436850295092981824398215856442264247734008232503856631703546851675042]) (simp_all only: arith_simps rel_simps)

lemma c254_604939_b_52: "modpow 21888242871839275222246405745257275088548364400416034343698204186575808495617 4067217240286848671452265983065331897323918408910809300406102239489012348584 6373735052 = 15210807959392480672518527411770725120669757686839245514064083362806434615262"
  by (rule modpow_sq [OF c254_604939_b_51, where q = 3016437689369315873898226693902896983900902300098024513471083685293667676966]) (simp_all only: arith_simps rel_simps)

lemma c254_604939_b_53: "modpow 21888242871839275222246405745257275088548364400416034343698204186575808495617 4067217240286848671452265983065331897323918408910809300406102239489012348584 12747470104 = 21497214190291461506045491182892839372389337802903850981361380035221324678504"
  by (rule modpow_sq [OF c254_604939_b_52, where q = 10570454656055982744081644854065052828208193138865057771062095276134048923420]) (simp_all only: arith_simps rel_simps)

lemma c254_604939_b_54: "modpow 21888242871839275222246405745257275088548364400416034343698204186575808495617 4067217240286848671452265983065331897323918408910809300406102239489012348584 12747470105 = 14825074532863450486668029090056492409643860963120200518293230527073365407714"
  by (rule modpow_mul [OF c254_604939_b_53, where q = 3994557292005478827253396322817869247109112869590813958113576894743006364766]) (simp_all only: arith_simps rel_simps)

lemma c254_604939_b_55: "modpow 21888242871839275222246405745257275088548364400416034343698204186575808495617 4067217240286848671452265983065331897323918408910809300406102239489012348584 25494940210 = 3505715035026298266398589803705641778834758423013953812882978992642233255318"
  by (rule modpow_sq [OF c254_604939_b_54, where q = 10041136522097081475574349873873364137035303311904868469916557510313364823534]) (simp_all only: arith_simps rel_simps)

lemma c254_604939_b_56: "modpow 21888242871839275222246405745257275088548364400416034343698204186575808495617 4067217240286848671452265983065331897323918408910809300406102239489012348584 25494940211 = 11420482190816822151268568602146673094208033372034080010015365028613068075075"
  by (rule modpow_mul [OF c254_604939_b_55, where q = 651422990574374401438688174313074171382811153686346203277294803129515286061]) (simp_all only: arith_simps rel_simps)

lemma c254_604939_b_57: "modpow 21888242871839275222246405745257275088548364400416034343698204186575808495617 4067217240286848671452265983065331897323918408910809300406102239489012348584 50989880422 = 5164746132301794000092579132584338190410602835517010263774141060798244647600"
  by (rule modpow_sq [OF c254_604939_b_56, where q = 5958788662682832768691414632705910886212606797096060276636774600437379972825]) (simp_all only: arith_simps rel_simps)

lemma c254_604939_b_58: "modpow 21888242871839275222246405745257275088548364400416034343698204186575808495617 4067217240286848671452265983065331897323918408910809300406102239489012348584 50989880423 = 18496881770047501294629587441966510646180871093725103134111316461724589140683"
  by (rule modpow_mul [OF c254_604939_b_57, where q = 959699900718322290726690591164763712656296606754896537304572073221058181301]) (simp_all only: arith_simps rel_simps)

lemma c254_604939_b_59: "modpow 21888242871839275222246405745257275088548364400416034343698204186575808495617 4067217240286848671452265983065331897323918408910809300406102239489012348584 101979760846 = 2237019093751528618639042543825848412579754333004986349879865178964098782587"
  by (rule modpow_sq [OF c254_604939_b_58, where q = 15630977654003247756491915272908194903257242477622854299337616440018586740606]) (simp_all only: arith_simps rel_simps)

lemma c254_604939_b_60: "modpow 21888242871839275222246405745257275088548364400416034343698204186575808495617 4067217240286848671452265983065331897323918408910809300406102239489012348584 203959521692 = 2839246551341045319822335734886485110012180583085267305826728535661394171274"
  by (rule modpow_sq [OF c254_604939_b_59, where q = 228627508160886990210166906559846578992972611716350915171174422681799349135]) (simp_all only: arith_simps rel_simps)

lemma c254_604939_b_61: "modpow 21888242871839275222246405745257275088548364400416034343698204186575808495617 4067217240286848671452265983065331897323918408910809300406102239489012348584 407919043384 = 1464631871477221700669242018938431796734818078948907931300166732432337750916"
  by (rule modpow_sq [OF c254_604939_b_60, where q = 368294569212472559774571549054839045644826683823042142356805439003688608480]) (simp_all only: arith_simps rel_simps)

lemma c254_604939_b_62: "modpow 21888242871839275222246405745257275088548364400416034343698204186575808495617 4067217240286848671452265983065331897323918408910809300406102239489012348584 815838086768 = 20768385403255912838880142540390264106560968543946764779258290813754477102220"
  by (rule modpow_sq [OF c254_604939_b_61, where q = 98004510069958466193392314296258347399422408472887480077953544321638520708]) (simp_all only: arith_simps rel_simps)

lemma c254_604939_b_63: "modpow 21888242871839275222246405745257275088548364400416034343698204186575808495617 4067217240286848671452265983065331897323918408910809300406102239489012348584 815838086769 = 18920848220534954905595119256738582298605953670928872428456745297996714078343"
  by (rule modpow_mul [OF c254_604939_b_62, where q = 3859128193141534970835485935758986124555633314079788278441578539966607561561]) (simp_all only: arith_simps rel_simps)

lemma c254_604939_b_64: "modpow 21888242871839275222246405745257275088548364400416034343698204186575808495617 4067217240286848671452265983065331897323918408910809300406102239489012348584 1631676173538 = 6871048256061274291805332688734148002721081658945870737288496571522363113868"
  by (rule modpow_sq [OF c254_604939_b_63, where q = 16355744016579347049058316561534293081426492614010492259972373228208475088293]) (simp_all only: arith_simps rel_simps)

lemma c254_604939_b_65: "modpow 21888242871839275222246405745257275088548364400416034343698204186575808495617 4067217240286848671452265983065331897323918408910809300406102239489012348584 1631676173539 = 21756547853927553624072612132636775815183179770725354197889403544432143667480"
  by (rule modpow_mul [OF c254_604939_b_64, where q = 1276760591954587821064884701786913741056845318387410859143604387963706538696]) (simp_all only: arith_simps rel_simps)

lemma c254_604939_b_66: "modpow 21888242871839275222246405745257275088548364400416034343698204186575808495617 4067217240286848671452265983065331897323918408910809300406102239489012348584 3263352347078 = 283256319960675599292307714087140773382070414381472753649122210730263155226"
  by (rule modpow_sq [OF c254_604939_b_65, where q = 21625645205592701184918853132651952098707860340039052885488353357245375094822]) (simp_all only: arith_simps rel_simps)

lemma c254_604939_b_67: "modpow 21888242871839275222246405745257275088548364400416034343698204186575808495617 4067217240286848671452265983065331897323918408910809300406102239489012348584 3263352347079 = 2436812365305135424519761496306639812067470956283251179144515159907233415200"
  by (rule modpow_mul [OF c254_604939_b_66, where q = 52633964028536899758179947876081181039946133719029196276046426687720103152]) (simp_all only: arith_simps rel_simps)

lemma c254_604939_b_68: "modpow 21888242871839275222246405745257275088548364400416034343698204186575808495617 4067217240286848671452265983065331897323918408910809300406102239489012348584 6526704694158 = 17392445159704734836218738035517339578644351879633222452304609351608971145196"
  by (rule modpow_sq [OF c254_604939_b_67, where q = 271289684533961513979550714951304925360005421628547368821372370174683272212]) (simp_all only: arith_simps rel_simps)

lemma c254_604939_b_69: "modpow 21888242871839275222246405745257275088548364400416034343698204186575808495617 4067217240286848671452265983065331897323918408910809300406102239489012348584 13053409388316 = 15265170531056802492363707375695334676066983660017048515653741419120302268510"
  by (rule modpow_sq [OF c254_604939_b_68, where q = 13820074567178710153887726201295728397130099175067860554506711049507803226418]) (simp_all only: arith_simps rel_simps)

lemma c254_604939_b_70: "modpow 21888242871839275222246405745257275088548364400416034343698204186575808495617 4067217240286848671452265983065331897323918408910809300406102239489012348584 13053409388317 = 16809520541655059698717496467317138193309130170423808132850043317267846989585"
  by (rule modpow_mul [OF c254_604939_b_69, where q = 2836534897906850941652826025572109420961045821961680677072569504669354298015]) (simp_all only: arith_simps rel_simps)

lemma c254_604939_b_71: "modpow 21888242871839275222246405745257275088548364400416034343698204186575808495617 4067217240286848671452265983065331897323918408910809300406102239489012348584 26106818776634 = 18639383403526593858239452369786134210325304972954169196132663352242470919596"
  by (rule modpow_sq [OF c254_604939_b_70, where q = 12909212607644088002383558924982171791835043993642643807434464846825372504437]) (simp_all only: arith_simps rel_simps)

lemma c254_604939_b_72: "modpow 21888242871839275222246405745257275088548364400416034343698204186575808495617 4067217240286848671452265983065331897323918408910809300406102239489012348584 52213637553268 = 812862743124506572698882082653446474262322955242372682330729005918797763450"
  by (rule modpow_sq [OF c254_604939_b_71, where q = 15872750302430661658310300376577841680860309293732416873297464825840988542998]) (simp_all only: arith_simps rel_simps)

lemma c254_604939_b_73: "modpow 21888242871839275222246405745257275088548364400416034343698204186575808495617 4067217240286848671452265983065331897323918408910809300406102239489012348584 52213637553269 = 6607092569004807327634331535360706118346002349871874807749907684968254020795"
  by (rule modpow_mul [OF c254_604939_b_72, where q = 151044073395053733486365775325909564829209030639143882519851193927833511765]) (simp_all only: arith_simps rel_simps)

lemma c254_604939_b_74: "modpow 21888242871839275222246405745257275088548364400416034343698204186575808495617 4067217240286848671452265983065331897323918408910809300406102239489012348584 104427275106538 = 5776974714379711122439007321697206267942504835856611446369172194968073635990"
  by (rule modpow_sq [OF c254_604939_b_73, where q = 1994389064074302017707282530338048570445963990161893735211554369553529956355]) (simp_all only: arith_simps rel_simps)

lemma c254_604939_b_75: "modpow 21888242871839275222246405745257275088548364400416034343698204186575808495617 4067217240286848671452265983065331897323918408910809300406102239489012348584 104427275106539 = 4035495348016154172729634820634689062113386583787331187457720384514718685134"
  by (rule modpow_mul [OF c254_604939_b_74, where q = 1073462648080163652470289729610053993034328321503869410783363161243121839778]) (simp_all only: arith_simps rel_simps)

lemma c254_604939_b_76: "modpow 21888242871839275222246405745257275088548364400416034343698204186575808495617 4067217240286848671452265983065331897323918408910809300406102239489012348584 208854550213078 = 14954475219514960091269161237518034207584947452958956300721962104565458578924"
  by (rule modpow_sq [OF c254_604939_b_75, where q = 744016904381670424357870844285681563606316293118944266133196736322196929496]) (simp_all only: arith_simps rel_simps)

lemma c254_604939_b_77: "modpow 21888242871839275222246405745257275088548364400416034343698204186575808495617 4067217240286848671452265983065331897323918408910809300406102239489012348584 417709100426156 = 5320070250534746485026105785153453573529168692008165033408032333503353289766"
  by (rule modpow_sq [OF c254_604939_b_76, where q = 10217189675778428074292079221190945109982116001395824708665112392537633543530]) (simp_all only: arith_simps rel_simps)

lemma c254_604939_b_78: "modpow 21888242871839275222246405745257275088548364400416034343698204186575808495617 4067217240286848671452265983065331897323918408910809300406102239489012348584 417709100426157 = 15165691769186097806534371376426457177378415567585007363103853162798591647034"
  by (rule modpow_mul [OF c254_604939_b_77, where q = 988561830623266376685734993028923430924902875369303966371475510937247637430]) (simp_all only: arith_simps rel_simps)

lemma c254_604939_b_79: "modpow 21888242871839275222246405745257275088548364400416034343698204186575808495617 4067217240286848671452265983065331897323918408910809300406102239489012348584 835418200852314 = 8235707837921382704627731919954360325250346368193738132666408310195823247149"
  by (rule modpow_sq [OF c254_604939_b_78, where q = 10507842414973721420219154067759547107903626534493414903254645566524454023671]) (simp_all only: arith_simps rel_simps)

lemma c254_604939_b_80: "modpow 21888242871839275222246405745257275088548364400416034343698204186575808495617 4067217240286848671452265983065331897323918408910809300406102239489012348584 1670836401704628 = 16014525638789899131916348065843677724608132695249535799018657300781433458679"
  by (rule modpow_sq [OF c254_604939_b_79, where q = 3098781569116433325347919448571905511348330544223191206517362586041806036466]) (simp_all only: arith_simps rel_simps)

lemma c254_604939_b_81: "modpow 21888242871839275222246405745257275088548364400416034343698204186575808495617 4067217240286848671452265983065331897323918408910809300406102239489012348584 1670836401704629 = 18810536960267738281623319138564098156538132287104634306360290224932305588168"
  by (rule modpow_mul [OF c254_604939_b_80, where q = 2975778145120187113557663556995593272300275993582620965195124014301938074704]) (simp_all only: arith_simps rel_simps)

lemma c254_604939_c_0: "modpow 21888242871839275222246405745257275088548364400416034343698204186575808495617 4067217240286848671452265983065331897323918408910809300406102239489012348584 Numeral1 = 4067217240286848671452265983065331897323918408910809300406102239489012348584"
  by (rule modpow_start) (simp_all only: arith_simps rel_simps)

lemma c254_604939_c_1: "modpow 21888242871839275222246405745257275088548364400416034343698204186575808495617 4067217240286848671452265983065331897323918408910809300406102239489012348584 2 = 6386128151552337324797274583854449461328952692055052099188299042347749289856"
  by (rule modpow_sq [OF c254_604939_c_0, where q = 755759892493212219161355350478857297975545783892963330486261659317423185600]) (simp_all only: arith_simps rel_simps)

lemma c254_604939_c_2: "modpow 21888242871839275222246405745257275088548364400416034343698204186575808495617 4067217240286848671452265983065331897323918408910809300406102239489012348584 4 = 17949996608483641539305290467609836096608244695665378189887188188456516338725"
  by (rule modpow_sq [OF c254_604939_c_1, where q = 1863220954136931894536426172244779275588476929236230482656370878595393387483]) (simp_all only: arith_simps rel_simps)

lemma c254_604939_c_3: "modpow 21888242871839275222246405745257275088548364400416034343698204186575808495617 4067217240286848671452265983065331897323918408910809300406102239489012348584 5 = 13238749333881657106705305701460976550231994495162614680963707438086684607956"
  by (rule modpow_mul [OF c254_604939_c_2, where q = 3335422404465506098530415886781445942983915852574793271020294020103183958132]) (simp_all only: arith_simps rel_simps)

lemma c254_604939_c_4: "modpow 21888242871839275222246405745257275088548364400416034343698204186575808495617 4067217240286848671452265983065331897323918408910809300406102239489012348584 10 = 5733938407172708216753031560630975590047483440848545796644664945490289684544"
  by (rule modpow_sq [OF c254_604939_c_3, where q = 8007243201364591571605929920178460383036622315235017012631662238606055114576]) (simp_all only: arith_simps rel_simps)

lemma c254_604939_c_5: "modpow 21888242871839275222246405745257275088548364400416034343698204186575808495617 4067217240286848671452265983065331897323918408910809300406102239489012348584 11 = 18235214667583589543951801634235952074735239039809855166216398886623174770170"
  by (rule modpow_mul [OF c254_604939_c_4, where q = 1065465751679868233010760488508524553345909221092618151387553341223726902278]) (simp_all only: arith_simps rel_simps)

lemma c254_604939_c_6: "modpow 21888242871839275222246405745257275088548364400416034343698204186575808495617 4067217240286848671452265983065331897323918408910809300406102239489012348584 22 = 1288997372873894118674429447566628158949100853897385711408161458452740640627"
  by (rule modpow_sq [OF c254_604939_c_5, where q = 15191856921537972504066914786283018315370890443017852617319080545763642837169]) (simp_all only: arith_simps rel_simps)

lemma c254_604939_c_7: "modpow 21888242871839275222246405745257275088548364400416034343698204186575808495617 4067217240286848671452265983065331897323918408910809300406102239489012348584 44 = 15690779842328926225178139205895459096464320036664936154393060137259290834393"
  by (rule modpow_sq [OF c254_604939_c_6, where q = 75908981685023824864003884973499462831046081196414037970592238773396371408]) (simp_all only: arith_simps rel_simps)

lemma c254_604939_c_8: "modpow 21888242871839275222246405745257275088548364400416034343698204186575808495617 4067217240286848671452265983065331897323918408910809300406102239489012348584 88 = 9864672814852156507472272581952807661911010525789666531320997858536942261681"
  by (rule modpow_sq [OF c254_604939_c_7, where q = 11248073840462985479400761568107677882455668695346821452539117829920497187904]) (simp_all only: arith_simps rel_simps)

lemma c254_604939_c_9: "modpow 21888242871839275222246405745257275088548364400416034343698204186575808495617 4067217240286848671452265983065331897323918408910809300406102239489012348584 89 = 13173298813643711737179302085214610697279240735107614677224675207364830978182"
  by (rule modpow_mul [OF c254_604939_c_8, where q = 1833028241566850078689264629624165608851131292719401950715782857577457922466]) (simp_all only: arith_simps rel_simps)

lemma c254_604939_c_10: "modpow 21888242871839275222246405745257275088548364400416034343698204186575808495617 4067217240286848671452265983065331897323918408910809300406102239489012348584 178 = 322279440271549901376250450420437350979799894640243819907063974485294944136"
  by (rule modpow_sq [OF c254_604939_c_9, where q = 7928265537331574790672397604211487440001021257945914271222157391056989009564]) (simp_all only: arith_simps rel_simps)

lemma c254_604939_c_11: "modpow 21888242871839275222246405745257275088548364400416034343698204186575808495617 4067217240286848671452265983065331897323918408910809300406102239489012348584 356 = 8785981476650450568918426612935403048261737758650665205410597000038082361959"
  by (rule modpow_sq [OF c254_604939_c_10, where q = 4745197603566968095873565691645637790700200531134577153193442527696780761]) (simp_all only: arith_simps rel_simps)

lemma c254_604939_c_12: "modpow 21888242871839275222246405745257275088548364400416034343698204186575808495617 4067217240286848671452265983065331897323918408910809300406102239489012348584 357 = 2245064824354248286679342940486692975493608882238035819151494060537236815295"
  by (rule modpow_mul [OF c254_604939_c_11, where q = 1632588579353187586387899705392246896875900746420818991144618461805821366233]) (simp_all only: arith_simps rel_simps)

lemma c254_604939_c_13: "modpow 21888242871839275222246405745257275088548364400416034343698204186575808495617 4067217240286848671452265983065331897323918408910809300406102239489012348584 714 = 8331070091348222178773989349913912596977031367117088757543672891609074423287"
  by (rule modpow_sq [OF c254_604939_c_12, where q = 230275042865020646138976782851317716387271783046071588153898347850797170314]) (simp_all only: arith_simps rel_simps)

lemma c254_604939_c_14: "modpow 21888242871839275222246405745257275088548364400416034343698204186575808495617 4067217240286848671452265983065331897323918408910809300406102239489012348584 1428 = 12667046771045494802178413368679114212491105066976080789176656999746571351203"
  by (rule modpow_sq [OF c254_604939_c_13, where q = 3170959371812042034190523278286786122377229559096023413441059156077245153198]) (simp_all only: arith_simps rel_simps)

lemma c254_604939_c_15: "modpow 21888242871839275222246405745257275088548364400416034343698204186575808495617 4067217240286848671452265983065331897323918408910809300406102239489012348584 2856 = 8755158244451452760593337849190459694305364601189765740189382859884600309868"
  by (rule modpow_sq [OF c254_604939_c_14, where q = 7330605514538092976127142220949119333513591175312689653086862400863922906973]) (simp_all only: arith_simps rel_simps)

lemma c254_604939_c_16: "modpow 21888242871839275222246405745257275088548364400416034343698204186575808495617 4067217240286848671452265983065331897323918408910809300406102239489012348584 2857 = 15827951676866950978480705088063065647227592502537696711884223207658011461825"
  by (rule modpow_mul [OF c254_604939_c_15, where q = 1626861085276336904860029338568190925205237830300116585441524330480393274911]) (simp_all only: arith_simps rel_simps)

lemma c254_604939_c_17: "modpow 21888242871839275222246405745257275088548364400416034343698204186575808495617 4067217240286848671452265983065331897323918408910809300406102239489012348584 5714 = 17432089477580114616615453540391205506494223235759108737418901457938217195821"
  by (rule modpow_sq [OF c254_604939_c_16, where q = 11445599162624044769605575042026708499048568851000488572743426458784386992212]) (simp_all only: arith_simps rel_simps)

lemma c254_604939_c_18: "modpow 21888242871839275222246405745257275088548364400416034343698204186575808495617 4067217240286848671452265983065331897323918408910809300406102239489012348584 5715 = 4129378618719945238528942755173379432660584193305857177386644435705518597878"
  by (rule modpow_mul [OF c254_604939_c_17, where q = 3239186227627921618928810898316887856457588206973512383280010788490381581458]) (simp_all only: arith_simps rel_simps)

lemma c254_604939_c_19: "modpow 21888242871839275222246405745257275088548364400416034343698204186575808495617 4067217240286848671452265983065331897323918408910809300406102239489012348584 11430 = 10458104519330016722831481621403436636955250855373893914012587466407818324273"
  by (rule modpow_sq [OF c254_604939_c_18, where q = 779037763633357290908837899906997439763422245525789367342568368759612607283]) (simp_all only: arith_simps rel_simps)

lemma c254_604939_c_20: "modpow 21888242871839275222246405745257275088548364400416034343698204186575808495617 4067217240286848671452265983065331897323918408910809300406102239489012348584 22860 = 11769321296240754857159015325324246551457538439433399936088370602366527173957"
  by (rule modpow_sq [OF c254_604939_c_19, where q = 4996835551287921372683674672752451455198670207484313964005393615724955289116]) (simp_all only: arith_simps rel_simps)

lemma c254_604939_c_21: "modpow 21888242871839275222246405745257275088548364400416034343698204186575808495617 4067217240286848671452265983065331897323918408910809300406102239489012348584 45720 = 7626702677301601261788974778371948602757402395549681923887003454527721235795"
  by (rule modpow_sq [OF c254_604939_c_20, where q = 6328371107045676982505214081612113398042765419763123944462772674877951131462]) (simp_all only: arith_simps rel_simps)

lemma c254_604939_c_22: "modpow 21888242871839275222246405745257275088548364400416034343698204186575808495617 4067217240286848671452265983065331897323918408910809300406102239489012348584 45721 = 16756864658871320450095273195180880641604926711322431787730799836997373410354"
  by (rule modpow_mul [OF c254_604939_c_21, where q = 1417174361472916403793506945962514595041966570560313318280695617057607697478]) (simp_all only: arith_simps rel_simps)

lemma c254_604939_c_23: "modpow 21888242871839275222246405745257275088548364400416034343698204186575808495617 4067217240286848671452265983065331897323918408910809300406102239489012348584 91442 = 6943614995187790184461278975748870673550572024828415223526584612224810856355"
  by (rule modpow_sq [OF c254_604939_c_22, where q = 12828462971643533330069359978348768886201803256924211649813904181805625100833]) (simp_all only: arith_simps rel_simps)

lemma c254_604939_c_24: "modpow 21888242871839275222246405745257275088548364400416034343698204186575808495617 4067217240286848671452265983065331897323918408910809300406102239489012348584 182884 = 8991047338903701344465700219764455985598459812798333318036451612940826546584"
  by (rule modpow_sq [OF c254_604939_c_23, where q = 2202725430437683972980216186321173710858682390382173718162413121119344308273]) (simp_all only: arith_simps rel_simps)

lemma c254_604939_c_25: "modpow 21888242871839275222246405745257275088548364400416034343698204186575808495617 4067217240286848671452265983065331897323918408910809300406102239489012348584 365768 = 6701043389792082435008104209632585878636582987005870239210516775971737805758"
  by (rule modpow_sq [OF c254_604939_c_24, where q = 3693258189967005382632729534944355482814260491292699021622144919874277860994]) (simp_all only: arith_simps rel_simps)

lemma c254_604939_c_26: "modpow 21888242871839275222246405745257275088548364400416034343698204186575808495617 4067217240286848671452265983065331897323918408910809300406102239489012348584 365769 = 17255749339708772468702835095330842957291988632782577699678909486920154606123"
  by (rule modpow_mul [OF c254_604939_c_25, where q = 1245170723043168217116555039946983109029412386263592873218064051469273112197]) (simp_all only: arith_simps rel_simps)

lemma c254_604939_c_27: "modpow 21888242871839275222246405745257275088548364400416034343698204186575808495617 4067217240286848671452265983065331897323918408910809300406102239489012348584 731538 = 12883796233184062843736358331100949234592082913561501216067886227392315875192"
  by (rule modpow_sq [OF c254_604939_c_26, where q = 13603690667100077086408955688975107058710499186260015760541049742470416384961]) (simp_all only: arith_simps rel_simps)

lemma c254_604939_c_28: "modpow 21888242871839275222246405745257275088548364400416034343698204186575808495617 4067217240286848671452265983065331897323918408910809300406102239489012348584 1463076 = 9770850255500642612015481770119071864395119245686384862019573412074575455946"
  by (rule modpow_sq [OF c254_604939_c_27, where q = 7583624064760730370926271528706841969991280686524858718740901332378122772854]) (simp_all only: arith_simps rel_simps)

lemma c254_604939_c_29: "modpow 21888242871839275222246405745257275088548364400416034343698204186575808495617 4067217240286848671452265983065331897323918408910809300406102239489012348584 2926152 = 12095636939347330833732765030336417394965874111430562556378896893108398454119"
  by (rule modpow_sq [OF c254_604939_c_28, where q = 4361680162012687076989094612451958645110884353079372779585294139776671916541]) (simp_all only: arith_simps rel_simps)

lemma c254_604939_c_30: "modpow 21888242871839275222246405745257275088548364400416034343698204186575808495617 4067217240286848671452265983065331897323918408910809300406102239489012348584 5852304 = 9507605597525390686538863425556769346087544750265253773189062091554424285870"
  by (rule modpow_sq [OF c254_604939_c_29, where q = 6684156139218207709778294882946266915337190718383314791999642173766826288323]) (simp_all only: arith_simps rel_simps)

lemma c254_604939_c_31: "modpow 21888242871839275222246405745257275088548364400416034343698204186575808495617 4067217240286848671452265983065331897323918408910809300406102239489012348584 11704608 = 4695380393370800028402438434273642111457018584264105344861053450407864799394"
  by (rule modpow_sq [OF c254_604939_c_30, where q = 4129822787849039457739435403397694695345224208597260665118326721536819789218]) (simp_all only: arith_simps rel_simps)

lemma c254_604939_c_32: "modpow 21888242871839275222246405745257275088548364400416034343698204186575808495617 4067217240286848671452265983065331897323918408910809300406102239489012348584 11704609 = 17932252103664813779789761201706523010451593166390460567050985375098762470480"
  by (rule modpow_mul [OF c254_604939_c_31, where q = 872483561035058353237434943594839281622783561467688444656011309316720194048]) (simp_all only: arith_simps rel_simps)

lemma c254_604939_c_33: "modpow 21888242871839275222246405745257275088548364400416034343698204186575808495617 4067217240286848671452265983065331897323918408910809300406102239489012348584 23409218 = 11032899518264515570006905725266325435142436788773194258794030809606637982723"
  by (rule modpow_sq [OF c254_604939_c_32, where q = 14691250795791717457236489873758379203890739566185549324127215383115762173181]) (simp_all only: arith_simps rel_simps)

lemma c254_604939_c_34: "modpow 21888242871839275222246405745257275088548364400416034343698204186575808495617 4067217240286848671452265983065331897323918408910809300406102239489012348584 23409219 = 12309853391631169412178147450549824040430213212920648749297835878884690312497"
  by (rule modpow_mul [OF c254_604939_c_33, where q = 2050105136066922561330892645769746752891072192949130155348245560496256288455]) (simp_all only: arith_simps rel_simps)

lemma c254_604939_c_35: "modpow 21888242871839275222246405745257275088548364400416034343698204186575808495617 4067217240286848671452265983065331897323918408910809300406102239489012348584 46818438 = 2017545129786376114318738970199602268700753834769763777548414144631327239989"
  by (rule modpow_sq [OF c254_604939_c_34, where q = 6923008457586622476085047356294308851938231405750985945483957919199598294060]) (simp_all only: arith_simps rel_simps)

lemma c254_604939_c_36: "modpow 21888242871839275222246405745257275088548364400416034343698204186575808495617 4067217240286848671452265983065331897323918408910809300406102239489012348584 46818439 = 6397909464072761120344264436936460029626824980159215597280672028817779616915"
  by (rule modpow_mul [OF c254_604939_c_35, where q = 374895069602925206252181700086279555739931735202117417432328819190079994933]) (simp_all only: arith_simps rel_simps)

lemma c254_604939_c_37: "modpow 21888242871839275222246405745257275088548364400416034343698204186575808495617 4067217240286848671452265983065331897323918408910809300406102239489012348584 93636878 = 16327463290818310703741772032619927052767006341526294643324799551505852434761"
  by (rule modpow_sq [OF c254_604939_c_36, where q = 1870101942405583936724083574961685432794570188510576606373310151915053372192]) (simp_all only: arith_simps rel_simps)

lemma c254_604939_c_38: "modpow 21888242871839275222246405745257275088548364400416034343698204186575808495617 4067217240286848671452265983065331897323918408910809300406102239489012348584 93636879 = 3219671312949103112293517916515892400845711183894622300969600016031624148330"
  by (rule modpow_mul [OF c254_604939_c_37, where q = 3033927418267296054933572560907342012029213138651520929357773564641981843582]) (simp_all only: arith_simps rel_simps)

lemma c254_604939_c_39: "modpow 21888242871839275222246405745257275088548364400416034343698204186575808495617 4067217240286848671452265983065331897323918408910809300406102239489012348584 187273758 = 750342294370295248612961474927349653780755640398832634857789732575600808897"
  by (rule modpow_sq [OF c254_604939_c_38, where q = 473600527192812519973419404092989572921068012370152697319018703886657485859]) (simp_all only: arith_simps rel_simps)

lemma c254_604939_c_40: "modpow 21888242871839275222246405745257275088548364400416034343698204186575808495617 4067217240286848671452265983065331897323918408910809300406102239489012348584 187273759 = 6985301711244392811534689828185490242462090338917601161141202278988258793136"
  by (rule modpow_mul [OF c254_604939_c_39, where q = 139426683706329434778528153171787458169003872516884742337657816413210924536]) (simp_all only: arith_simps rel_simps)

lemma c254_604939_c_41: "modpow 21888242871839275222246405745257275088548364400416034343698204186575808495617 4067217240286848671452265983065331897323918408910809300406102239489012348584 374547518 = 15477340730401846645086238635474869418539835280761178378124023793220802160916"
  by (rule modpow_sq [OF c254_604939_c_40, where q = 2229253407083271824753917518395406605605003017767222296085614322508919541740]) (simp_all only: arith_simps rel_simps)

lemma c254_604939_c_42: "modpow 21888242871839275222246405745257275088548364400416034343698204186575808495617 4067217240286848671452265983065331897323918408910809300406102239489012348584 749095036 = 10313897862990299760702963901803177025774364084358126394163006552579881462819"
  by (rule modpow_sq [OF c254_604939_c_41, where q = 10944143734495517108405276971242264209022140308735573988570552994276536810861]) (simp_all only: arith_simps rel_simps)

lemma c254_604939_c_43: "modpow 21888242871839275222246405745257275088548364400416034343698204186575808495617 4067217240286848671452265983065331897323918408910809300406102239489012348584 1498190072 = 14155255157933350964519366390907017897656800652242667916358477848577658336286"
  by (rule modpow_sq [OF c254_604939_c_42, where q = 4859983039801541905526323870541967811815628012873230377976913885181250197675]) (simp_all only: arith_simps rel_simps)

lemma c254_604939_c_44: "modpow 21888242871839275222246405745257275088548364400416034343698204186575808495617 4067217240286848671452265983065331897323918408910809300406102239489012348584 1498190073 = 17589055784178759111070885171527556640522402248488547059058602451317034487787"
  by (rule modpow_mul [OF c254_604939_c_43, where q = 2630293265480749424795855383887292490487487522895493167769518904154710865861]) (simp_all only: arith_simps rel_simps)

lemma c254_604939_c_45: "modpow 21888242871839275222246405745257275088548364400416034343698204186575808495617 4067217240286848671452265983065331897323918408910809300406102239489012348584 2996380146 = 2762836227049966422304347421959317951099998539866505452271171723572397796243"
  by (rule modpow_sq [OF c254_604939_c_44, where q = 14134295072949151897704853467655486351933864094459285235206120299453335959078]) (simp_all only: arith_simps rel_simps)

lemma c254_604939_c_46: "modpow 21888242871839275222246405745257275088548364400416034343698204186575808495617 4067217240286848671452265983065331897323918408910809300406102239489012348584 2996380147 = 15163491663097307426775935029443471516423968862012532239894848497372879771217"
  by (rule modpow_mul [OF c254_604939_c_45, where q = 513383152797702886733697909949935344594518319663416614767550368526592951335]) (simp_all only: arith_simps rel_simps)

lemma c254_604939_c_47: "modpow 21888242871839275222246405745257275088548364400416034343698204186575808495617 4067217240286848671452265983065331897323918408910809300406102239489012348584 5992760294 = 8871114195842347792161669134414841868046434633258363463180949011708597435469"
  by (rule modpow_sq [OF c254_604939_c_46, where q = 10504793864136264456993724371217324904142311519780636243895917981347264235860]) (simp_all only: arith_simps rel_simps)

lemma c254_604939_c_48: "modpow 21888242871839275222246405745257275088548364400416034343698204186575808495617 4067217240286848671452265983065331897323918408910809300406102239489012348584 5992760295 = 8774308505907646167718963882772335573991679543987945496359139924536809344630"
  by (rule modpow_mul [OF c254_604939_c_47, where q = 1648407723230436043779024460263942203273201906269080178958064205931479892498]) (simp_all only: arith_simps rel_simps)

lemma c254_604939_c_49: "modpow 21888242871839275222246405745257275088548364400416034343698204186575808495617 4067217240286848671452265983065331897323918408910809300406102239489012348584 11985520590 = 16764983333605752858269467009988317912131242616364489168061344064142401933098"
  by (rule modpow_sq [OF c254_604939_c_48, where q = 3517344457827368099481004528768874813352984427982744696654728906381102485306]) (simp_all only: arith_simps rel_simps)

lemma c254_604939_c_50: "modpow 21888242871839275222246405745257275088548364400416034343698204186575808495617 4067217240286848671452265983065331897323918408910809300406102239489012348584 11985520591 = 4360106451514481464721713496424723400798790380683325742569740933810930518178"
  by (rule modpow_mul [OF c254_604939_c_49, where q = 3115226272241799375203646333976737635077318706723405464320864043584405620462]) (simp_all only: arith_simps rel_simps)

lemma c254_604939_c_51: "modpow 21888242871839275222246405745257275088548364400416034343698204186575808495617 4067217240286848671452265983065331897323918408910809300406102239489012348584 23971041182 = 3303607827978255150531842278374309388350122243636739526357469788416508895074"
  by (rule modpow_sq [OF c254_604939_c_50, where q = 868526924698763782280643571170151452999153161946731538964575983066390423330]) (simp_all only: arith_simps rel_simps)

lemma c254_604939_c_52: "modpow 21888242871839275222246405745257275088548364400416034343698204186575808495617 4067217240286848671452265983065331897323918408910809300406102239489012348584 23971041183 = 16275990781278437665973487256671914822435420161255505334169214138706511784308"
  by (rule modpow_mul [OF c254_604939_c_51, where q = 613867946905263716371703842873701179506783657766145460749302512229308783324]) (simp_all only: arith_simps rel_simps)

lemma c254_604939_c_53: "modpow 21888242871839275222246405745257275088548364400416034343698204186575808495617 4067217240286848671452265983065331897323918408910809300406102239489012348584 47942082366 = 6631099245777446141298556656597655853573660022360523631101314546388654530259"
  by (rule modpow_sq [OF c254_604939_c_52, where q = 12102747464168666920409671564002033775216426522574854694130205611580627205565]) (simp_all only: arith_simps rel_simps)

lemma c254_604939_c_54: "modpow 21888242871839275222246405745257275088548364400416034343698204186575808495617 4067217240286848671452265983065331897323918408910809300406102239489012348584 47942082367 = 12908843361958514409970798626683577113045421806131553996538402805853312669057"
  by (rule modpow_mul [OF c254_604939_c_53, where q = 1232173881311325255254957105378066292368595869650338032872396825540239910647]) (simp_all only: arith_simps rel_simps)

lemma c254_604939_c_55: "modpow 21888242871839275222246405745257275088548364400416034343698204186575808495617 4067217240286848671452265983065331897323918408910809300406102239489012348584 95884164734 = 15850970691890243089482215803048181198926331942782704813483344156263675016861"
  by (rule modpow_sq [OF c254_604939_c_54, where q = 7613139068279067529611422193235215655026465852067097532770290137955920753764]) (simp_all only: arith_simps rel_simps)

lemma c254_604939_c_56: "modpow 21888242871839275222246405745257275088548364400416034343698204186575808495617 4067217240286848671452265983065331897323918408910809300406102239489012348584 191768329468 = 5942717412744519372674371151679237225322652170292377397675585158938566471780"
  by (rule modpow_sq [OF c254_604939_c_55, where q = 11478914655064340868991249884722016428200933607615473779463237345948013849573]) (simp_all only: arith_simps rel_simps)

lemma c254_604939_c_57: "modpow 21888242871839275222246405745257275088548364400416034343698204186575808495617 4067217240286848671452265983065331897323918408910809300406102239489012348584 383536658936 = 6968884957355670440606433502671795053289678826499673463808523291667923147802"
  by (rule modpow_sq [OF c254_604939_c_56, where q = 1613463924652134947965322921088563210783798713599052689743668931609845467894]) (simp_all only: arith_simps rel_simps)

lemma c254_604939_c_58: "modpow 21888242871839275222246405745257275088548364400416034343698204186575808495617 4067217240286848671452265983065331897323918408910809300406102239489012348584 383536658937 = 8255683465666442761579655988386288657752929912244757012881944873905729439666"
  by (rule modpow_mul [OF c254_604939_c_57, where q = 1294940357254493097002488619499230795235377186542937433817329268173759047006]) (simp_all only: arith_simps rel_simps)

lemma c254_604939_c_59: "modpow 21888242871839275222246405745257275088548364400416034343698204186575808495617 4067217240286848671452265983065331897323918408910809300406102239489012348584 767073317874 = 4126175617513431179561706178504989991005058639053347676085455352406423502708"
  by (rule modpow_sq [OF c254_604939_c_58, where q = 3113831927229117651404060060673780330721720308808348639539206039728335960144]) (simp_all only: arith_simps rel_simps)

lemma c254_604939_c_60: "modpow 21888242871839275222246405745257275088548364400416034343698204186575808495617 4067217240286848671452265983065331897323918408910809300406102239489012348584 767073317875 = 8933294398425247314210147661629234955545203082959819655240752488267388538944"
  by (rule modpow_mul [OF c254_604939_c_59, where q = 766715387172221221108391407776284706042841165146818936050312481824631049184]) (simp_all only: arith_simps rel_simps)

lemma c254_604939_c_61: "modpow 21888242871839275222246405745257275088548364400416034343698204186575808495617 4067217240286848671452265983065331897323918408910809300406102239489012348584 1534146635750 = 20589560274980379214084547539109098494065169183095438179620761793679251393232"
  by (rule modpow_sq [OF c254_604939_c_60, where q = 3645964149621571234976858054040029352811727731359781006500824142811688158512]) (simp_all only: arith_simps rel_simps)

lemma c254_604939_c_62: "modpow 21888242871839275222246405745257275088548364400416034343698204186575808495617 4067217240286848671452265983065331897323918408910809300406102239489012348584 3068293271500 = 3659922632118574386362331046159050052720876956825997561329582659259913020863"
  by (rule modpow_sq [OF c254_604939_c_61, where q = 19367931669949857061769801271719827758943564254966335000573553768262391808833]) (simp_all only: arith_simps rel_simps)

lemma c254_604939_c_63: "modpow 21888242871839275222246405745257275088548364400416034343698204186575808495617 4067217240286848671452265983065331897323918408910809300406102239489012348584 3068293271501 = 8418233930617165357431503676748888633218726706654762616692112999670484591013"
  by (rule modpow_mul [OF c254_604939_c_62, where q = 680077451380081374597097516304470927952360000844357472048785784933741079987]) (simp_all only: arith_simps rel_simps)

lemma c254_604939_c_64: "modpow 21888242871839275222246405745257275088548364400416034343698204186575808495617 4067217240286848671452265983065331897323918408910809300406102239489012348584 6136586543002 = 4566702606335355684617681975246617155269938832967097132898735221559711173008"
  by (rule modpow_sq [OF c254_604939_c_63, where q = 3237658816449307059699076824796666876298894688003055642139412723919304223433]) (simp_all only: arith_simps rel_simps)

lemma c254_604939_c_65: "modpow 21888242871839275222246405745257275088548364400416034343698204186575808495617 4067217240286848671452265983065331897323918408910809300406102239489012348584 12273173086004 = 19396596157382245322003953051376314083075043375978513724334837600788535453132"
  by (rule modpow_sq [OF c254_604939_c_64, where q = 952784232924481350206636370426110564739043490080419922141540432857230822196]) (simp_all only: arith_simps rel_simps)

lemma c254_604939_c_66: "modpow 21888242871839275222246405745257275088548364400416034343698204186575808495617 4067217240286848671452265983065331897323918408910809300406102239489012348584 12273173086005 = 9632572101324037071725150039192784219590497799446190285410544024774523080908"
  by (rule modpow_mul [OF c254_604939_c_65, where q = 3604225828272598385175115452968292127728308759292208258327325785847093003540]) (simp_all only: arith_simps rel_simps)

lemma c254_604939_c_67: "modpow 21888242871839275222246405745257275088548364400416034343698204186575808495617 4067217240286848671452265983065331897323918408910809300406102239489012348584 24546346172010 = 21569724746160689018028465736725457924295503503966673844005696972994179193524"
  by (rule modpow_sq [OF c254_604939_c_66, where q = 4239099768331897349152563329301526245722958751942323987953843008903990265820]) (simp_all only: arith_simps rel_simps)

lemma c254_604939_c_68: "modpow 21888242871839275222246405745257275088548364400416034343698204186575808495617 4067217240286848671452265983065331897323918408910809300406102239489012348584 24546346172011 = 17035566344259445387961708867887004296684509652717054829010794272049281788674"
  by (rule modpow_mul [OF c254_604939_c_67, where q = 4008031017816221486872001563219536450899651338726834299585853681438751920926]) (simp_all only: arith_simps rel_simps)

lemma c254_604939_c_69: "modpow 21888242871839275222246405745257275088548364400416034343698204186575808495617 4067217240286848671452265983065331897323918408910809300406102239489012348584 49092692344022 = 6883763077118393467770820257802370310356016695860390204674869490243474881877"
  by (rule modpow_sq [OF c254_604939_c_68, where q = 13258739971450191271881842870513088458687331565026348227175621222420773187247]) (simp_all only: arith_simps rel_simps)

lemma c254_604939_c_70: "modpow 21888242871839275222246405745257275088548364400416034343698204186575808495617 4067217240286848671452265983065331897323918408910809300406102239489012348584 49092692344023 = 9433521811091422581917263520702365715911069060317711582080456248494772571446"
  by (rule modpow_mul [OF c254_604939_c_69, where q = 1279123227444036400535735110715001245000972912158325630652873984923358290066]) (simp_all only: arith_simps rel_simps)

lemma c254_604939_c_71: "modpow 21888242871839275222246405745257275088548364400416034343698204186575808495617 4067217240286848671452265983065331897323918408910809300406102239489012348584 98185384688046 = 4799652197982336253485799485311445312077167158870989209608603119578672160793"
  by (rule modpow_sq [OF c254_604939_c_70, where q = 4065713921460138964804593946877343340750651331976471099480837016940293990219]) (simp_all only: arith_simps rel_simps)

lemma c254_604939_c_72: "modpow 21888242871839275222246405745257275088548364400416034343698204186575808495617 4067217240286848671452265983065331897323918408910809300406102239489012348584 98185384688047 = 13287746691144869625755073493729930970517240241830886362964485388273762127681"
  by (rule modpow_mul [OF c254_604939_c_71, where q = 891859080754710703422994299006495964238162937316606040751582707737915688743]) (simp_all only: arith_simps rel_simps)

lemma c254_604939_c_73: "modpow 21888242871839275222246405745257275088548364400416034343698204186575808495617 4067217240286848671452265983065331897323918408910809300406102239489012348584 196370769376094 = 4750830227225810007906518413343663643318915987128822730455329789502939495942"
  by (rule modpow_sq [OF c254_604939_c_72, where q = 8066623399687938985085314367036018143455962380762625867050239074218763792507]) (simp_all only: arith_simps rel_simps)

lemma c254_604939_c_74: "modpow 21888242871839275222246405745257275088548364400416034343698204186575808495617 4067217240286848671452265983065331897323918408910809300406102239489012348584 392741538752188 = 13035012408524470688048890970779970865574813919356132780678283705956544177429"
  by (rule modpow_sq [OF c254_604939_c_73, where q = 1031164903463347101205823847458369616048974677296474694438306863912559543055]) (simp_all only: arith_simps rel_simps)

lemma c254_604939_c_75: "modpow 21888242871839275222246405745257275088548364400416034343698204186575808495617 4067217240286848671452265983065331897323918408910809300406102239489012348584 785483077504376 = 8218664220139516065853970840689545878887066624558104989214250149466542309253"
  by (rule modpow_sq [OF c254_604939_c_74, where q = 7762685633801595649629907494301873174116142660744644424882163358895666598964]) (simp_all only: arith_simps rel_simps)

lemma c254_604939_c_76: "modpow 21888242871839275222246405745257275088548364400416034343698204186575808495617 4067217240286848671452265983065331897323918408910809300406102239489012348584 785483077504377 = 15822093576658666881427783006931272225564788928357168789168489701542569875099"
  by (rule modpow_mul [OF c254_604939_c_75, where q = 1527171139501853481761095385814607153380753046740189645698764296865541531309]) (simp_all only: arith_simps rel_simps)

lemma c254_604939_c_77: "modpow 21888242871839275222246405745257275088548364400416034343698204186575808495617 4067217240286848671452265983065331897323918408910809300406102239489012348584 1570966155008754 = 3719599298707220935519581306666305268106104332808068259719769041556434773545"
  by (rule modpow_sq [OF c254_604939_c_76, where q = 11437128444450023542782093345209424936882050285680379186782588822249796737968]) (simp_all only: arith_simps rel_simps)

lemma c254_604939_c_78: "modpow 21888242871839275222246405745257275088548364400416034343698204186575808495617 4067217240286848671452265983065331897323918408910809300406102239489012348584 3141932310017508 = 10537707153451904823783831804690041085416074167131122034895268562650923345033"
  by (rule modpow_sq [OF c254_604939_c_77, where q = 632093632364773538303258990724975590838820565458001960370329888284774010376]) (simp_all only: arith_simps rel_simps)

lemma c254_604939_c_79: "modpow 21888242871839275222246405745257275088548364400416034343698204186575808495617 4067217240286848671452265983065331897323918408910809300406102239489012348584 3141932310017509 = 16488772292108595495196916561729099074282002522665119535106490879714874084163"
  by (rule modpow_mul [OF c254_604939_c_78, where q = 1958089758897680493928955516169716409825708310713227528365542123775742579877]) (simp_all only: arith_simps rel_simps)

lemma c254_604939_c_80: "modpow 21888242871839275222246405745257275088548364400416034343698204186575808495617 4067217240286848671452265983065331897323918408910809300406102239489012348584 6283864620035018 = 13603827057977326222825039562786194027668125986724652168226315764695294052828"
  by (rule modpow_sq [OF c254_604939_c_79, where q = 12421262560586802625869502536595456919650719540968677136352578567635462048173]) (simp_all only: arith_simps rel_simps)

lemma c254_604939_c_81: "modpow 21888242871839275222246405745257275088548364400416034343698204186575808495617 4067217240286848671452265983065331897323918408910809300406102239489012348584 12567729240070036 = 9725599549319488465968896475487024045853122109503930498387972363114000268738"
  by (rule modpow_sq [OF c254_604939_c_80, where q = 8454955096530553330015490662862401071288557161659869712751068399806173116238]) (simp_all only: arith_simps rel_simps)

lemma c254_604939_c_82: "modpow 21888242871839275222246405745257275088548364400416034343698204186575808495617 4067217240286848671452265983065331897323918408910809300406102239489012348584 12567729240070037 = 1315841031531098173455288590474915687435097755906924751602998016417667498287"
  by (rule modpow_mul [OF c254_604939_c_81, where q = 1807186003496420296635141863240063599933725863819219637756569780783594680865]) (simp_all only: arith_simps rel_simps)

lemma c254_604939_c_83: "modpow 21888242871839275222246405745257275088548364400416034343698204186575808495617 4067217240286848671452265983065331897323918408910809300406102239489012348584 25135458480140074 = 3136061818294276011377992876049665593208434971440796210433086781084127869609"
  by (rule modpow_sq [OF c254_604939_c_82, where q = 79103545697970926522856086321997679061046346286200377613441874187003276280]) (simp_all only: arith_simps rel_simps)

lemma c254_604939_c_84: "modpow 21888242871839275222246405745257275088548364400416034343698204186575808495617 4067217240286848671452265983065331897323918408910809300406102239489012348584 25135458480140075 = 15005189500114784470962934044622831401421069766145204589765605152476845736280"
  by (rule modpow_mul [OF c254_604939_c_83, where q = 582734976428009268963512677922725707507429394115928388017514155515222205328]) (simp_all only: arith_simps rel_simps)

lemma c254_604939_c_85: "modpow 21888242871839275222246405745257275088548364400416034343698204186575808495617 4067217240286848671452265983065331897323918408910809300406102239489012348584 50270916960280150 = 8304430389844604380931474367835958954711515275216432329039617660818923362936"
  by (rule modpow_sq [OF c254_604939_c_84, where q = 10286605153857883773399593092281642343268822179581736285792145121939269301192]) (simp_all only: arith_simps rel_simps)

lemma c254_604939_c_86: "modpow 21888242871839275222246405745257275088548364400416034343698204186575808495617 4067217240286848671452265983065331897323918408910809300406102239489012348584 50270916960280151 = 19203033309775340860165864868710163867300644892515281368802815574887290727192"
  by (rule modpow_mul [OF c254_604939_c_85, where q = 1543107989531359325290750146522534798510361095387719016929698438548713718696]) (simp_all only: arith_simps rel_simps)

lemma c254_604939_c_87: "modpow 21888242871839275222246405745257275088548364400416034343698204186575808495617 4067217240286848671452265983065331897323918408910809300406102239489012348584 100541833920560302 = 9024704456292213202468400583542538909813610052971371807709177112455998936752"
  by (rule modpow_sq [OF c254_604939_c_86, where q = 16847240340647525467036527463746621665781648916372204544947140235571432782736]) (simp_all only: arith_simps rel_simps)

lemma c254_604939_c_88: "modpow 21888242871839275222246405745257275088548364400416034343698204186575808495617 4067217240286848671452265983065331897323918408910809300406102239489012348584 100541833920560303 = 19230770693470763340047203724271439005045606495543459833317496287168551806242"
  by (rule modpow_mul [OF c254_604939_c_87, where q = 1676947472122090564316227763091048258065396473349812971956377511759873744478]) (simp_all only: arith_simps rel_simps)

lemma c254_604939_c_89: "modpow 21888242871839275222246405745257275088548364400416034343698204186575808495617 4067217240286848671452265983065331897323918408910809300406102239489012348584 201083667841120606 = 2553140948483930812412285981849370959439675767789630126167664254901483265300"
  by (rule modpow_sq [OF c254_604939_c_88, where q = 16895944714715132885641179602038991879899871113616388765637263139867461876592]) (simp_all only: arith_simps rel_simps)

lemma c254_604939_c_90: "modpow 21888242871839275222246405745257275088548364400416034343698204186575808495617 4067217240286848671452265983065331897323918408910809300406102239489012348584 402167335682241212 = 14876934348379955014020303363147510819162000041958864732126002013002513496322"
  by (rule modpow_sq [OF c254_604939_c_89, where q = 297809593076653943628250808438841003028893597632960072400780768279329493134]) (simp_all only: arith_simps rel_simps)

lemma c254_604939_c_91: "modpow 21888242871839275222246405745257275088548364400416034343698204186575808495617 4067217240286848671452265983065331897323918408910809300406102239489012348584 402167335682241213 = 15321002091107413318387067756832217181635022620875600912656324139269427047772"
  by (rule modpow_mul [OF c254_604939_c_90, where q = 2764393844614812922789570907067713674174864301214879917013020938021059799028]) (simp_all only: arith_simps rel_simps)

lemma c254_604939_c_92: "modpow 21888242871839275222246405745257275088548364400416034343698204186575808495617 4067217240286848671452265983065331897323918408910809300406102239489012348584 804334671364482426 = 3735539871592816921233875031721838089614317682464056078135447190026190839187"
  by (rule modpow_sq [OF c254_604939_c_91, where q = 10724163947290531987991911394125161718909557056618707286011551202919461788541]) (simp_all only: arith_simps rel_simps)

lemma c254_604939_c_93: "modpow 21888242871839275222246405745257275088548364400416034343698204186575808495617 4067217240286848671452265983065331897323918408910809300406102239489012348584 1608669342728964852 = 5622234682029930222013353172987696945412828110536454300652095428619831202102"
  by (rule modpow_sq [OF c254_604939_c_92, where q = 637522994146450591058830770177979780527660006740816764168293390098890707251]) (simp_all only: arith_simps rel_simps)

lemma c254_604939_c_94: "modpow 21888242871839275222246405745257275088548364400416034343698204186575808495617 4067217240286848671452265983065331897323918408910809300406102239489012348584 3217338685457929704 = 18844765288437987799138213223672211085117726746507232125190001470484912400462"
  by (rule modpow_sq [OF c254_604939_c_93, where q = 1444132496377222146121969267430293241223443334632688231701143979639017000726]) (simp_all only: arith_simps rel_simps)

lemma c254_604939_c_95: "modpow 21888242871839275222246405745257275088548364400416034343698204186575808495617 4067217240286848671452265983065331897323918408910809300406102239489012348584 6434677370915859408 = 7523718886118463129846387865457920449501969533277957321152108701234010709627"
  by (rule modpow_sq [OF c254_604939_c_94, where q = 16224471779468883815145335952422934684189552612295118748277429514828677814601]) (simp_all only: arith_simps rel_simps)

lemma c254_604939_c_96: "modpow 21888242871839275222246405745257275088548364400416034343698204186575808495617 4067217240286848671452265983065331897323918408910809300406102239489012348584 12869354741831718816 = 3736055066151034222763758955904592653535636482791129802621846281342141423886"
  by (rule modpow_sq [OF c254_604939_c_95, where q = 2586153041556551421817340540507048612090011195420626650286981405377971629579]) (simp_all only: arith_simps rel_simps)

lemma c254_604939_c_97: "modpow 21888242871839275222246405745257275088548364400416034343698204186575808495617 4067217240286848671452265983065331897323918408910809300406102239489012348584 12869354741831718817 = 8448855219633365442930076917076713833781771384361585343893523329149156935516"
  by (rule modpow_mul [OF c254_604939_c_96, where q = 694224185316417768902251242340720742579321769882164798653931083025444986324]) (simp_all only: arith_simps rel_simps)

lemma c254_604939_c_98: "modpow 21888242871839275222246405745257275088548364400416034343698204186575808495617 4067217240286848671452265983065331897323918408910809300406102239489012348584 25738709483663437634 = 13354957540183758429754525816962676836598109871559855300562732400045570951907"
  by (rule modpow_sq [OF c254_604939_c_97, where q = 3261255594626340931535017660874618326607162404975443235209762491968732503597]) (simp_all only: arith_simps rel_simps)

lemma c254_604939_c_99: "modpow 21888242871839275222246405745257275088548364400416034343698204186575808495617 4067217240286848671452265983065331897323918408910809300406102239489012348584 25738709483663437635 = 2485468583532904484309971878075628398701936183570298080274931589456331496581"
  by (rule modpow_mul [OF c254_604939_c_98, where q = 2481584011506809038660340681151045368763093224466528553362063749422705977971]) (simp_all only: arith_simps rel_simps)

lemma c254_604939_c_100: "modpow 21888242871839275222246405745257275088548364400416034343698204186575808495617 4067217240286848671452265983065331897323918408910809300406102239489012348584 51477418967326875270 = 2466186710661578972296583319056520909176460380075986900163970298411959139968"
  by (rule modpow_sq [OF c254_604939_c_99, where q = 282231612464283707234297669735234836651496302909455148980497163658828095129]) (simp_all only: arith_simps rel_simps)

lemma c254_604939_c_101: "modpow 21888242871839275222246405745257275088548364400416034343698204186575808495617 4067217240286848671452265983065331897323918408910809300406102239489012348584 51477418967326875271 = 1763832830497479334436111597000920668523750036536595945067692152000206613291"
  by (rule modpow_mul [OF c254_604939_c_100, where q = 458260499305498660228717755016472894253619021453333603038870276893877197013]) (simp_all only: arith_simps rel_simps)

lemma c254_604939_c_102: "modpow 21888242871839275222246405745257275088548364400416034343698204186575808495617 4067217240286848671452265983065331897323918408910809300406102239489012348584 102954837934653750542 = 4754162372059473949949476388979884147853939201566546687556588625308015404386"
  by (rule modpow_sq [OF c254_604939_c_101, where q = 142135952719320430716254169954139970061475415786385322390419291302705714135]) (simp_all only: arith_simps rel_simps)

lemma c254_604939_c_103: "modpow 21888242871839275222246405745257275088548364400416034343698204186575808495617 4067217240286848671452265983065331897323918408910809300406102239489012348584 205909675869307501084 = 20695525597621049728423917252705535360718712876837599263275890881026111584040"
  by (rule modpow_sq [OF c254_604939_c_102, where q = 1032611890878881980755407440209226694389101058884082190315764359872800703068]) (simp_all only: arith_simps rel_simps)

lemma c254_604939_c_104: "modpow 21888242871839275222246405745257275088548364400416034343698204186575808495617 4067217240286848671452265983065331897323918408910809300406102239489012348584 411819351738615002168 = 3689966739857102880443797196227874185614651145474883386920565753346240349796"
  by (rule modpow_sq [OF c254_604939_c_103, where q = 19567800954586060660929615840306713822009298042892827330523078287921740853212]) (simp_all only: arith_simps rel_simps)

lemma c254_604939_c_105: "modpow 21888242871839275222246405745257275088548364400416034343698204186575808495617 4067217240286848671452265983065331897323918408910809300406102239489012348584 411819351738615002169 = 8619588954376863221941865514652255422133586179693120934634395982893756521661"
  by (rule modpow_mul [OF c254_604939_c_104, where q = 685660170544824928939642590705782640099398714542855322840297607991681887459]) (simp_all only: arith_simps rel_simps)

lemma c254_604939_c_106: "modpow 21888242871839275222246405745257275088548364400416034343698204186575808495617 4067217240286848671452265983065331897323918408910809300406102239489012348584 823638703477230004338 = 10639978108994546607145882244949613283667110026118833070157686786853029213187"
  by (rule modpow_sq [OF c254_604939_c_105, where q = 3394393701561316877710108475781920645953554424871521374570527954184447258502]) (simp_all only: arith_simps rel_simps)

lemma c254_604939_c_107: "modpow 21888242871839275222246405745257275088548364400416034343698204186575808495617 4067217240286848671452265983065331897323918408910809300406102239489012348584 1647277406954460008676 = 3296311556391275991440996005983852100321485155981150987769373416477710923692"
  by (rule modpow_sq [OF c254_604939_c_106, where q = 5172143548605012917831080839088692415356131956566420917583589171752156069981]) (simp_all only: arith_simps rel_simps)

lemma c254_604939_c_108: "modpow 21888242871839275222246405745257275088548364400416034343698204186575808495617 4067217240286848671452265983065331897323918408910809300406102239489012348584 1647277406954460008677 = 13627864570041653680197465217859677761735974344822760502413668374746291405744"
  by (rule modpow_mul [OF c254_604939_c_107, where q = 612512172402845511125563803183502761208967586714492207879660418775854107952]) (simp_all only: arith_simps rel_simps)

lemma c254_604939_c_109: "modpow 21888242871839275222246405745257275088548364400416034343698204186575808495617 4067217240286848671452265983065331897323918408910809300406102239489012348584 3294554813908920017354 = 1478584894689212060068135389439125610477393433539067448973187960356152469803"
  by (rule modpow_sq [OF c254_604939_c_108, where q = 8484860745872681016676477024373162503456339444989229008373893595213537390549]) (simp_all only: arith_simps rel_simps)

lemma c254_604939_c_110: "modpow 21888242871839275222246405745257275088548364400416034343698204186575808495617 4067217240286848671452265983065331897323918408910809300406102239489012348584 6589109627817840034708 = 12515350210104563293978980042340580153099941256207686398934436282461959491345"
  by (rule modpow_sq [OF c254_604939_c_109, where q = 99880712380792410248481182382807349858518147969777961870752036156136177192]) (simp_all only: arith_simps rel_simps)

lemma c254_604939_c_111: "modpow 21888242871839275222246405745257275088548364400416034343698204186575808495617 4067217240286848671452265983065331897323918408910809300406102239489012348584 13178219255635680069416 = 7621012616451609748995528974859598376235314518897668697122196902962914759721"
  by (rule modpow_sq [OF c254_604939_c_110, where q = 7156078804438190069894876268906378213098076714467586700894346375880525310712]) (simp_all only: arith_simps rel_simps)

lemma c254_604939_c_112: "modpow 21888242871839275222246405745257275088548364400416034343698204186575808495617 4067217240286848671452265983065331897323918408910809300406102239489012348584 13178219255635680069417 = 6519667857248721620883404089629190453555380526572180117778616129766941648535"
  by (rule modpow_mul [OF c254_604939_c_111, where q = 1416117048936552810696543932906749879574209684786924079368251114498929261137]) (simp_all only: arith_simps rel_simps)

lemma c254_604939_c_113: "modpow 21888242871839275222246405745257275088548364400416034343698204186575808495617 4067217240286848671452265983065331897323918408910809300406102239489012348584 26356438511271360138834 = 16823438310195457458335840215215656924725445978201061907958243556984777076296"
  by (rule modpow_sq [OF c254_604939_c_112, where q = 1941958941963729233717017348585554542448589651549923136284835570432859291337]) (simp_all only: arith_simps rel_simps)

lemma c254_604939_c_114: "modpow 21888242871839275222246405745257275088548364400416034343698204186575808495617 4067217240286848671452265983065331897323918408910809300406102239489012348584 52712877022542720277668 = 8039252068264251871286055701958956527566216643921874662335761431132335032580"
  by (rule modpow_sq [OF c254_604939_c_113, where q = 12930598323225260337235734797207169287127248166552085800386871270321944341308]) (simp_all only: arith_simps rel_simps)

lemma c254_604939_c_115: "modpow 21888242871839275222246405745257275088548364400416034343698204186575808495617 4067217240286848671452265983065331897323918408910809300406102239489012348584 52712877022542720277669 = 4886056033106486036989241819198674686430448265622916628618894665609786197276"
  by (rule modpow_mul [OF c254_604939_c_114, where q = 1493833232868751534026844847542291437034433240412302544643102878267021344132]) (simp_all only: arith_simps rel_simps)

lemma c254_604939_c_116: "modpow 21888242871839275222246405745257275088548364400416034343698204186575808495617 4067217240286848671452265983065331897323918408910809300406102239489012348584 105425754045085440555338 = 10822208400466322192593064883454053686531874372810959438678408134393112980376"
  by (rule modpow_sq [OF c254_604939_c_115, where q = 1090701693070632031825924901851450154532320287382019184396559007927832129400]) (simp_all only: arith_simps rel_simps)

lemma c254_604939_c_117: "modpow 21888242871839275222246405745257275088548364400416034343698204186575808495617 4067217240286848671452265983065331897323918408910809300406102239489012348584 210851508090170881110676 = 10637931627302931461798359850971851221934911045214422895336485940330293748990"
  by (rule modpow_sq [OF c254_604939_c_116, where q = 5350826713176094655957765295337082552007934008405200143839881844762794689858]) (simp_all only: arith_simps rel_simps)

lemma c254_604939_c_118: "modpow 21888242871839275222246405745257275088548364400416034343698204186575808495617 4067217240286848671452265983065331897323918408910809300406102239489012348584 210851508090170881110677 = 6240833133448105338207581245949004484552400747577623356912084461759335556916"
  by (rule modpow_mul [OF c254_604939_c_117, where q = 1976713213979587684568526777515953713586813735572149806514343176880042865532]) (simp_all only: arith_simps rel_simps)

lemma c254_604939_c_119: "modpow 21888242871839275222246405745257275088548364400416034343698204186575808495617 4067217240286848671452265983065331897323918408910809300406102239489012348584 421703016180341762221354 = 991543666436373524661697283520663894700297870464559561035400420715937077869"
  by (rule modpow_sq [OF c254_604939_c_118, where q = 1779402687899309009196361900574306032549999097081772488548790406973344434211]) (simp_all only: arith_simps rel_simps)

lemma c254_604939_c_120: "modpow 21888242871839275222246405745257275088548364400416034343698204186575808495617 4067217240286848671452265983065331897323918408910809300406102239489012348584 843406032360683524442708 = 13752811589034656140198374221163509499005731150836489101685730465413837061152"
  by (rule modpow_sq [OF c254_604939_c_119, where q = 44917211866055616831228763847226731810073903507512905593268885449082197577]) (simp_all only: arith_simps rel_simps)

lemma c254_604939_c_121: "modpow 21888242871839275222246405745257275088548364400416034343698204186575808495617 4067217240286848671452265983065331897323918408910809300406102239489012348584 1686812064721367048885416 = 1288685920211244263636964931458857855439701856333705827809633702011889154156"
  by (rule modpow_sq [OF c254_604939_c_120, where q = 8641160814549773436265496514301613798025539723700866316600850682709999127444]) (simp_all only: arith_simps rel_simps)

lemma c254_604939_c_122: "modpow 21888242871839275222246405745257275088548364400416034343698204186575808495617 4067217240286848671452265983065331897323918408910809300406102239489012348584 1686812064721367048885417 = 352558901267652380186996644674176934081529659241928266274750804435919316555"
  by (rule modpow_mul [OF c254_604939_c_121, where q = 239460317700580299070360021741128191146228657606191185753080260738089986197]) (simp_all only: arith_simps rel_simps)

lemma c254_604939_c_123: "modpow 21888242871839275222246405745257275088548364400416034343698204186575808495617 4067217240286848671452265983065331897323918408910809300406102239489012348584 3373624129442734097770834 = 9975287918602860911580010553136500836149672040675543073036316873641214829324"
  by (rule modpow_sq [OF c254_604939_c_122, where q = 5678746329289495939893887024714068274840502027951891375571730425819363053]) (simp_all only: arith_simps rel_simps)

lemma c254_604939_c_124: "modpow 21888242871839275222246405745257275088548364400416034343698204186575808495617 4067217240286848671452265983065331897323918408910809300406102239489012348584 6747248258885468195541668 = 19639817482156684147517007369548089218135951793141269477014961025414798861115"
  by (rule modpow_sq [OF c254_604939_c_123, where q = 4546110422917773883460739497300368497658260001134007707793216101558510216533]) (simp_all only: arith_simps rel_simps)

lemma c254_604939_c_125: "modpow 21888242871839275222246405745257275088548364400416034343698204186575808495617 4067217240286848671452265983065331897323918408910809300406102239489012348584 13494496517770936391083336 = 3079659197879626606772876475035529295020663559702632046923982153789834298617"
  by (rule modpow_sq [OF c254_604939_c_124, where q = 17622357033907260907192813761436997394747250056915201726714259465820883659424]) (simp_all only: arith_simps rel_simps)

lemma c254_604939_c_126: "modpow 21888242871839275222246405745257275088548364400416034343698204186575808495617 4067217240286848671452265983065331897323918408910809300406102239489012348584 13494496517770936391083337 = 17139637903830095634697455424442797323363989037643635193072045733059952354744"
  by (rule modpow_mul [OF c254_604939_c_125, where q = 572254385935158056677506963704276882180906491045598570384944974728860869552]) (simp_all only: arith_simps rel_simps)

lemma c254_604939_c_127: "modpow 21888242871839275222246405745257275088548364400416034343698204186575808495617 4067217240286848671452265983065331897323918408910809300406102239489012348584 26988993035541872782166674 = 14876089304251323189349832685558750628259985171030310158227207189410181516447"
  by (rule modpow_sq [OF c254_604939_c_126, where q = 13421232083108915859464739860240027639596426501025419798880867230779587110817]) (simp_all only: arith_simps rel_simps)

lemma c254_604939_c_128: "modpow 21888242871839275222246405745257275088548364400416034343698204186575808495617 4067217240286848671452265983065331897323918408910809300406102239489012348584 26988993035541872782166675 = 914217616237613439280475637734921588667706267016512353212528249498655370278"
  by (rule modpow_mul [OF c254_604939_c_127, where q = 2764236820678771147479027169767409869169990515857270142591816965978913973810]) (simp_all only: arith_simps rel_simps)

lemma c254_604939_c_129: "modpow 21888242871839275222246405745257275088548364400416034343698204186575808495617 4067217240286848671452265983065331897323918408910809300406102239489012348584 53977986071083745564333350 = 6307707882456947254214752928460277130452205312489707792561485377878755889177"
  by (rule modpow_sq [OF c254_604939_c_128, where q = 38184602333451367039328047521162453431489586048976877814458641982256792971]) (simp_all only: arith_simps rel_simps)

lemma c254_604939_c_130: "modpow 21888242871839275222246405745257275088548364400416034343698204186575808495617 4067217240286848671452265983065331897323918408910809300406102239489012348584 53977986071083745564333351 = 5734933231541450750267406738314736704308586995611790329229868807038284262457"
  by (rule modpow_mul [OF c254_604939_c_129, where q = 1172082126301185611924865033208614694337642327820438496768040262381907995183]) (simp_all only: arith_simps rel_simps)

lemma c254_604939_c_131: "modpow 21888242871839275222246405745257275088548364400416034343698204186575808495617 4067217240286848671452265983065331897323918408910809300406102239489012348584 107955972142167491128666702 = 20674121166023354130306343268119447273014970446302782928270535976031479722798"
  by (rule modpow_sq [OF c254_604939_c_130, where q = 1502608471717618355896938218290020994472879736246557327136985078943170441603]) (simp_all only: arith_simps rel_simps)

lemma c254_604939_c_132: "modpow 21888242871839275222246405745257275088548364400416034343698204186575808495617 4067217240286848671452265983065331897323918408910809300406102239489012348584 107955972142167491128666703 = 1625336039193904959347094447000372437051439332362963296612616483220024776204"
  by (rule modpow_mul [OF c254_604939_c_131, where q = 3841612253965439032024380057304960389190477270483365503359242834902137730084]) (simp_all only: arith_simps rel_simps)

lemma c254_604939_c_133: "modpow 21888242871839275222246405745257275088548364400416034343698204186575808495617 4067217240286848671452265983065331897323918408910809300406102239489012348584 215911944284334982257333406 = 20950317862254406527173516526289900135629009320876578788529928650225576907062"
  by (rule modpow_sq [OF c254_604939_c_132, where q = 120691151673087530637228872727697990604042031004191281852153912035594927962]) (simp_all only: arith_simps rel_simps)

lemma c254_604939_c_134: "modpow 21888242871839275222246405745257275088548364400416034343698204186575808495617 4067217240286848671452265983065331897323918408910809300406102239489012348584 215911944284334982257333407 = 15263095476177339472893572712441658830053824967875597941275658689623180726528"
  by (rule modpow_mul [OF c254_604939_c_133, where q = 3892934416790417335311033662191108866922420984923280325911081113606964797040]) (simp_all only: arith_simps rel_simps)

lemma c254_604939_c_135: "modpow 21888242871839275222246405745257275088548364400416034343698204186575808495617 4067217240286848671452265983065331897323918408910809300406102239489012348584 431823888568669964514666814 = 13322794233484704212727974673716033962336074838436203173496351966112838053298"
  by (rule modpow_sq [OF c254_604939_c_134, where q = 10643251944843268070089336770041409422900222867282248739982832401741367022158]) (simp_all only: arith_simps rel_simps)

lemma c254_604939_c_136: "modpow 21888242871839275222246405745257275088548364400416034343698204186575808495617 4067217240286848671452265983065331897323918408910809300406102239489012348584 431823888568669964514666815 = 7542659160410816238180733372451276273740009883376419805240252310437459932401"
  by (rule modpow_mul [OF c254_604939_c_135, where q = 2475607508217943879491611940903688432174898478720546801430922636905655653343]) (simp_all only: arith_simps rel_simps)

lemma c254_604939_c_137: "modpow 21888242871839275222246405745257275088548364400416034343698204186575808495617 4067217240286848671452265983065331897323918408910809300406102239489012348584 863647777137339929029333630 = 10843790727256262470749371154007731033265095714211366053529959999110654158998"
  by (rule modpow_sq [OF c254_604939_c_136, where q = 2599190238487543478203154902819335936683904931870833032453868036834932253259]) (simp_all only: arith_simps rel_simps)

lemma c254_604939_c_138: "modpow 21888242871839275222246405745257275088548364400416034343698204186575808495617 4067217240286848671452265983065331897323918408910809300406102239489012348584 1727295554274679858058667260 = 10632113430971557868806697034540995537436250121514722732420480920928142450155"
  by (rule modpow_sq [OF c254_604939_c_137, where q = 5372189902361402569745439062897255554246229319039353350495285658370099567097]) (simp_all only: arith_simps rel_simps)

lemma c254_604939_c_139: "modpow 21888242871839275222246405745257275088548364400416034343698204186575808495617 4067217240286848671452265983065331897323918408910809300406102239489012348584 3454591108549359716117334520 = 3719498549793441748256527655810202249197363423147539062687900885823491432443"
  by (rule modpow_sq [OF c254_604939_c_138, where q = 5164500260296447197948113761992086487956413676030907777850354631737629619646]) (simp_all only: arith_simps rel_simps)

lemma c254_604939_c_140: "modpow 21888242871839275222246405745257275088548364400416034343698204186575808495617 4067217240286848671452265983065331897323918408910809300406102239489012348584 6909182217098719432234669040 = 10600766886418851235272489342044404584634817502004706251536578012124037294019"
  by (rule modpow_sq [OF c254_604939_c_139, where q = 632059391104197167897004674572938372204472716430032232300379285567704111190]) (simp_all only: arith_simps rel_simps)

lemma c254_604939_c_141: "modpow 21888242871839275222246405745257275088548364400416034343698204186575808495617 4067217240286848671452265983065331897323918408910809300406102239489012348584 13818364434197438864469338080 = 13213240260969775413763470016057925808981887899304480293508663467248811345969"
  by (rule modpow_sq [OF c254_604939_c_140, where q = 5134092272193040450362913395039837798983670548980151997198691601147509503576]) (simp_all only: arith_simps rel_simps)

lemma c254_604939_c_142: "modpow 21888242871839275222246405745257275088548364400416034343698204186575808495617 4067217240286848671452265983065331897323918408910809300406102239489012348584 13818364434197438864469338081 = 15379204794002667769298530452756604474647348591674452342013272253614090326003"
  by (rule modpow_mul [OF c254_604939_c_141, where q = 2455250469584756062381429368708506177465203912602595187083050734955953727029]) (simp_all only: arith_simps rel_simps)

lemma c254_604939_d_0: "modpow 21888242871839275222246405745257275088548364400416034343698204186575808495617 15379204794002667769298530452756604474647348591674452342013272253614090326003 Numeral1 = 15379204794002667769298530452756604474647348591674452342013272253614090326003"
  by (rule modpow_start) (simp_all only: arith_simps rel_simps)

lemma c254_604939_d_1: "modpow 21888242871839275222246405745257275088548364400416034343698204186575808495617 15379204794002667769298530452756604474647348591674452342013272253614090326003 2 = 19360659035887236148133016038200428628513110106055523380242472506706136249408"
  by (rule modpow_sq [OF c254_604939_d_0, where q = 10805798413365275378017505650065565143296730370520707959145575708765702171753]) (simp_all only: arith_simps rel_simps)

lemma c254_604939_d_2: "modpow 21888242871839275222246405745257275088548364400416034343698204186575808495617 15379204794002667769298530452756604474647348591674452342013272253614090326003 4 = 8154051446337706778900377681621098464431849361468647552673637160504153650093"
  by (rule modpow_sq [OF c254_604939_d_1, where q = 17124952445869154576180569387575849800433826018047180084067040512231923604563]) (simp_all only: arith_simps rel_simps)

lemma c254_604939_d_3: "modpow 21888242871839275222246405745257275088548364400416034343698204186575808495617 15379204794002667769298530452756604474647348591674452342013272253614090326003 5 = 4260654729730660216535389619375238216553402430020728752504375226320501554837"
  by (rule modpow_mul [OF c254_604939_d_2, where q = 5729232256253907878614263613189221801704529846405706669000658857391761912226]) (simp_all only: arith_simps rel_simps)

lemma c254_604939_d_4: "modpow 21888242871839275222246405745257275088548364400416034343698204186575808495617 15379204794002667769298530452756604474647348591674452342013272253614090326003 10 = 11432760642153763989120576096943146722354516861748000558702104237766338667306"
  by (rule modpow_sq [OF c254_604939_d_3, where q = 829357515460117357822043102411395889478670921099156053831727587514975690639]) (simp_all only: arith_simps rel_simps)

lemma c254_604939_d_5: "modpow 21888242871839275222246405745257275088548364400416034343698204186575808495617 15379204794002667769298530452756604474647348591674452342013272253614090326003 11 = 13750187841809496137775006957785154012924509222254573750553502331611566652728"
  by (rule modpow_mul [OF c254_604939_d_4, where q = 8032932031410770468442951649292263761215314121191376069698321980105972636070]) (simp_all only: arith_simps rel_simps)

lemma c254_604939_d_6: "modpow 21888242871839275222246405745257275088548364400416034343698204186575808495617 15379204794002667769298530452756604474647348591674452342013272253614090326003 22 = 3771378140457958420657743778183586786090495812148618399813226099847791112304"
  by (rule modpow_sq [OF c254_604939_d_5, where q = 8637864025544700103571084216947188234321521914732832020574752954694821465040]) (simp_all only: arith_simps rel_simps)

lemma c254_604939_d_7: "modpow 21888242871839275222246405745257275088548364400416034343698204186575808495617 15379204794002667769298530452756604474647348591674452342013272253614090326003 23 = 8111122955935412117111579644565783043712978760286990757402222737224109010412"
  by (rule modpow_mul [OF c254_604939_d_6, where q = 2649860800491660359235687113699085170861412517876403578891971760442785766500]) (simp_all only: arith_simps rel_simps)

lemma c254_604939_d_8: "modpow 21888242871839275222246405745257275088548364400416034343698204186575808495617 15379204794002667769298530452756604474647348591674452342013272253614090326003 46 = 21648980772072789855253479832087041439344776527324217500946999626200859951641"
  by (rule modpow_sq [OF c254_604939_d_7, where q = 3005737646074193009895785203796946789745002769701502477186960390539068215159]) (simp_all only: arith_simps rel_simps)

lemma c254_604939_d_9: "modpow 21888242871839275222246405745257275088548364400416034343698204186575808495617 15379204794002667769298530452756604474647348591674452342013272253614090326003 47 = 21472300116018326845335282028614456020875717339509094427352122036007077646396"
  by (rule modpow_mul [OF c254_604939_d_8, where q = 15211093500040098840844961090770649198131804216481802834229828395605793711231]) (simp_all only: arith_simps rel_simps)

lemma c254_604939_d_10: "modpow 21888242871839275222246405745257275088548364400416034343698204186575808495617 15379204794002667769298530452756604474647348591674452342013272253614090326003 94 = 3228530317528596532115753829283615338476883891407954109386818801729966713050"
  by (rule modpow_sq [OF c254_604939_d_9, where q = 21064261529441704253001895323479070319410641552636744190691035935705476850998]) (simp_all only: arith_simps rel_simps)

lemma c254_604939_d_11: "modpow 21888242871839275222246405745257275088548364400416034343698204186575808495617 15379204794002667769298530452756604474647348591674452342013272253614090326003 188 = 8094024409715355664640625107390950922018457919193167543838056377512260932043"
  by (rule modpow_sq [OF c254_604939_d_10, where q = 476210359700080321381209117630711035493605916195657980497879153898029762521]) (simp_all only: arith_simps rel_simps)

lemma c254_604939_d_12: "modpow 21888242871839275222246405745257275088548364400416034343698204186575808495617 15379204794002667769298530452756604474647348591674452342013272253614090326003 189 = 1614218765963207036470521936549012739477947807905165226916966686105113399296"
  by (rule modpow_mul [OF c254_604939_d_11, where q = 5687055819579771966702078739167265725032498488364790039222638872857038108849]) (simp_all only: arith_simps rel_simps)

lemma c254_604939_d_13: "modpow 21888242871839275222246405745257275088548364400416034343698204186575808495617 15379204794002667769298530452756604474647348591674452342013272253614090326003 378 = 14144728152177992782460607828017110836372294059091258659572646894430145172051"
  by (rule modpow_sq [OF c254_604939_d_12, where q = 119045747054469753275274229272982563225065791991535417613189361628312022445]) (simp_all only: arith_simps rel_simps)

lemma c254_604939_d_14: "modpow 21888242871839275222246405745257275088548364400416034343698204186575808495617 15379204794002667769298530452756604474647348591674452342013272253614090326003 379 = 15156778539796329802722585791294361698338516370070287909631127535147969819908"
  by (rule modpow_mul [OF c254_604939_d_13, where q = 9938425495438628749595640329905347661570795216152632926769675614225410444485]) (simp_all only: arith_simps rel_simps)

lemma c254_604939_d_15: "modpow 21888242871839275222246405745257275088548364400416034343698204186575808495617 15379204794002667769298530452756604474647348591674452342013272253614090326003 758 = 18761340883454925520873247124032381579023840149263481125629710145559577683758"
  by (rule modpow_sq [OF c254_604939_d_14, where q = 10495494638356343321030999784577599681271506386475518258735735622321236590818]) (simp_all only: arith_simps rel_simps)

lemma c254_604939_d_16: "modpow 21888242871839275222246405745257275088548364400416034343698204186575808495617 15379204794002667769298530452756604474647348591674452342013272253614090326003 759 = 9604642766458281050354848302236279731014020914870701755944707977193316408641"
  by (rule modpow_mul [OF c254_604939_d_15, where q = 13182168406399019505094052788926603856094536222953772127046776251157605926249]) (simp_all only: arith_simps rel_simps)

lemma c254_604939_d_17: "modpow 21888242871839275222246405745257275088548364400416034343698204186575808495617 15379204794002667769298530452756604474647348591674452342013272253614090326003 1518 = 4560313777950698507422412053284877692710288080675490721986543054171431023539"
  by (rule modpow_sq [OF c254_604939_d_16, where q = 4214553137564288144597800223335217037632772821300195901807657426107293406926]) (simp_all only: arith_simps rel_simps)

lemma c254_604939_d_18: "modpow 21888242871839275222246405745257275088548364400416034343698204186575808495617 15379204794002667769298530452756604474647348591674452342013272253614090326003 1519 = 15444520202297557232880096412305440400925607232651555968356803917557952013706"
  by (rule modpow_mul [OF c254_604939_d_17, where q = 3204185915089968118806422136832366649786981678789975419980256979652492569183]) (simp_all only: arith_simps rel_simps)

lemma c254_604939_d_19: "modpow 21888242871839275222246405745257275088548364400416034343698204186575808495617 15379204794002667769298530452756604474647348591674452342013272253614090326003 3038 = 9442552062237352390566815819834331517766276156018448072246135612117742456174"
  by (rule modpow_sq [OF c254_604939_d_18, where q = 10897777664285089585062448689335361617383122159413972740952085609112763965686]) (simp_all only: arith_simps rel_simps)

lemma c254_604939_d_20: "modpow 21888242871839275222246405745257275088548364400416034343698204186575808495617 15379204794002667769298530452756604474647348591674452342013272253614090326003 3039 = 13881795938341018967138717919926544656600048896830667798904099002631114053469"
  by (rule modpow_mul [OF c254_604939_d_19, where q = 6634563715025959877331242110325642018295362135340792263197602291917936810509]) (simp_all only: arith_simps rel_simps)

lemma c254_604939_d_21: "modpow 21888242871839275222246405745257275088548364400416034343698204186575808495617 15379204794002667769298530452756604474647348591674452342013272253614090326003 6078 = 4274482819020790875035035361287095172451999316111037336765933740034542785230"
  by (rule modpow_sq [OF c254_604939_d_20, where q = 8804007685864471499107286431035345677305930973002807543347575211559877051643]) (simp_all only: arith_simps rel_simps)

lemma c254_604939_d_22: "modpow 21888242871839275222246405745257275088548364400416034343698204186575808495617 15379204794002667769298530452756604474647348591674452342013272253614090326003 12156 = 5239253682821261453313533686008503529920715924476802501680898192313931618776"
  by (rule modpow_sq [OF c254_604939_d_21, where q = 834749663419126382553410306754695859825125423070500102134864610659491464172]) (simp_all only: arith_simps rel_simps)

lemma c254_604939_d_23: "modpow 21888242871839275222246405745257275088548364400416034343698204186575808495617 15379204794002667769298530452756604474647348591674452342013272253614090326003 24312 = 1997561017466476177260341661849113727911726940056091111278669446140964901437"
  by (rule modpow_sq [OF c254_604939_d_22, where q = 1254087836729561043397377000793309081463465959776816080212383669879036171267]) (simp_all only: arith_simps rel_simps)

lemma c254_604939_d_24: "modpow 21888242871839275222246405745257275088548364400416034343698204186575808495617 15379204794002667769298530452756604474647348591674452342013272253614090326003 24313 = 12997965327827198381662574256267640193201185907944930759570858280593083517658"
  by (rule modpow_mul [OF c254_604939_d_23, where q = 1403534315477548943220993819458103323295188900315258754728977850923874359309]) (simp_all only: arith_simps rel_simps)

lemma c254_604939_d_25: "modpow 21888242871839275222246405745257275088548364400416034343698204186575808495617 15379204794002667769298530452756604474647348591674452342013272253614090326003 48626 = 14039601126203025491021890264620140162961165470334847235811028702037194649472"
  by (rule modpow_sq [OF c254_604939_d_24, where q = 7718623356503414748843037043166206240921596839513324309864537687133323235876]) (simp_all only: arith_simps rel_simps)

lemma c254_604939_d_26: "modpow 21888242871839275222246405745257275088548364400416034343698204186575808495617 15379204794002667769298530452756604474647348591674452342013272253614090326003 48627 = 21064593875770928518069729970560030130232318591963303905799254791559363863296"
  by (rule modpow_mul [OF c254_604939_d_25, where q = 9864560723774680089160227637801250647535035853300595663527449339754001855360]) (simp_all only: arith_simps rel_simps)

lemma c254_604939_d_27: "modpow 21888242871839275222246405745257275088548364400416034343698204186575808495617 15379204794002667769298530452756604474647348591674452342013272253614090326003 97254 = 8022986318196193631447950499279022432060859805034688760483041915047835429507"
  by (rule modpow_sq [OF c254_604939_d_26, where q = 20271938581330280787662034605179198319560347755218142433982546572047810794877]) (simp_all only: arith_simps rel_simps)

lemma c254_604939_d_28: "modpow 21888242871839275222246405745257275088548364400416034343698204186575808495617 15379204794002667769298530452756604474647348591674452342013272253614090326003 97255 = 10527709627322457405580604022728976958362813614670153644908256499092458118612"
  by (rule modpow_mul [OF c254_604939_d_27, where q = 5637142751452504191757731685328349493607508831169334046946220578024236198277]) (simp_all only: arith_simps rel_simps)

lemma c254_604939_d_29: "modpow 21888242871839275222246405745257275088548364400416034343698204186575808495617 15379204794002667769298530452756604474647348591674452342013272253614090326003 194510 = 11404451597857003216866347181045884589807957502936515805532672520067819238060"
  by (rule modpow_sq [OF c254_604939_d_28, where q = 5063570915498739368392083987777649764136942494558928146015139275757754369252]) (simp_all only: arith_simps rel_simps)

lemma c254_604939_d_30: "modpow 21888242871839275222246405745257275088548364400416034343698204186575808495617 15379204794002667769298530452756604474647348591674452342013272253614090326003 389020 = 19379968211215733438682215432270974425145963129338363236999067265136727976012"
  by (rule modpow_sq [OF c254_604939_d_29, where q = 5942072052535391477276419991034562924454487699696777165499201968187493399364]) (simp_all only: arith_simps rel_simps)

lemma c254_604939_d_31: "modpow 21888242871839275222246405745257275088548364400416034343698204186575808495617 15379204794002667769298530452756604474647348591674452342013272253614090326003 389021 = 3053501093978968543287168992464908609308717022560862197316863005964349942694"
  by (rule modpow_mul [OF c254_604939_d_30, where q = 13616830814912426729172995975677249327796081799812966999247120194409925068926]) (simp_all only: arith_simps rel_simps)

lemma c254_604939_d_32: "modpow 21888242871839275222246405745257275088548364400416034343698204186575808495617 15379204794002667769298530452756604474647348591674452342013272253614090326003 778042 = 20286727071152827973717509299487252106672948180097747615777164947105937224305"
  by (rule modpow_sq [OF c254_604939_d_31, where q = 425976127253529069951902364648947430261952569838640585162961364033279835443]) (simp_all only: arith_simps rel_simps)

lemma c254_604939_d_33: "modpow 21888242871839275222246405745257275088548364400416034343698204186575808495617 15379204794002667769298530452756604474647348591674452342013272253614090326003 778043 = 10215525461884523280708229076589469726564123048568713099541730516517684813636"
  by (rule modpow_mul [OF c254_604939_d_32, where q = 14253941353542754719843673291201024087183521097335226754632975836651674181887]) (simp_all only: arith_simps rel_simps)

lemma c254_604939_d_34: "modpow 21888242871839275222246405745257275088548364400416034343698204186575808495617 15379204794002667769298530452756604474647348591674452342013272253614090326003 1556086 = 15154546679641862028230950236746357915773330201236466723982065790031827640642"
  by (rule modpow_sq [OF c254_604939_d_33, where q = 4767717585803718646758120436325713131934532268541412259662762076340264134862]) (simp_all only: arith_simps rel_simps)

lemma c254_604939_d_35: "modpow 21888242871839275222246405745257275088548364400416034343698204186575808495617 15379204794002667769298530452756604474647348591674452342013272253614090326003 1556087 = 14135494865484631370567301019739146590900285554420238215294990764042368130988"
  by (rule modpow_mul [OF c254_604939_d_34, where q = 10647948230067351596172038344678180519571354510980185544829017052166580817914]) (simp_all only: arith_simps rel_simps)

lemma c254_604939_d_36: "modpow 21888242871839275222246405745257275088548364400416034343698204186575808495617 15379204794002667769298530452756604474647348591674452342013272253614090326003 3112174 = 19913494853228162930395302497615985705214163898632299576427667621862159264622"
  by (rule modpow_sq [OF c254_604939_d_35, where q = 9128746252592732672506676959344057212314706674807722973355259896495229202466]) (simp_all only: arith_simps rel_simps)

lemma c254_604939_d_37: "modpow 21888242871839275222246405745257275088548364400416034343698204186575808495617 15379204794002667769298530452756604474647348591674452342013272253614090326003 3112175 = 10487703603611266235193069438232953247840241834238775838731835623258830600821"
  by (rule modpow_mul [OF c254_604939_d_36, where q = 13991699439068743677081939133119807328308418200090469338910752961491966832885]) (simp_all only: arith_simps rel_simps)

lemma c254_604939_d_38: "modpow 21888242871839275222246405745257275088548364400416034343698204186575808495617 15379204794002667769298530452756604474647348591674452342013272253614090326003 6224350 = 14697913870320701908178088657548268116533272751121407663067227238882460087513"
  by (rule modpow_sq [OF c254_604939_d_37, where q = 5025160197701976941028649598251450071492486527648762210130225713279664129184]) (simp_all only: arith_simps rel_simps)

lemma c254_604939_d_39: "modpow 21888242871839275222246405745257275088548364400416034343698204186575808495617 15379204794002667769298530452756604474647348591674452342013272253614090326003 12448700 = 2162061548892215842613587824209640956323062444193588040219428183852218823365"
  by (rule modpow_sq [OF c254_604939_d_38, where q = 9869621486030811969722447533839963210953588014104655046531232973305906343212]) (simp_all only: arith_simps rel_simps)

lemma c254_604939_d_40: "modpow 21888242871839275222246405745257275088548364400416034343698204186575808495617 15379204794002667769298530452756604474647348591674452342013272253614090326003 12448701 = 6948100676146386039149113223425662747897137949792417632167258843967192764098"
  by (rule modpow_mul [OF c254_604939_d_39, where q = 1519116337128706490766234801921768116003547558096769723863277979108705742141]) (simp_all only: arith_simps rel_simps)

lemma c254_604939_d_41: "modpow 21888242871839275222246405745257275088548364400416034343698204186575808495617 15379204794002667769298530452756604474647348591674452342013272253614090326003 24897402 = 3125730006319034453649830634266919891590496763931676957250894347734181937463"
  by (rule modpow_sq [OF c254_604939_d_40, where q = 2205572338014230573044514664843157161502621317691268801270682534915915303373]) (simp_all only: arith_simps rel_simps)

lemma c254_604939_d_42: "modpow 21888242871839275222246405745257275088548364400416034343698204186575808495617 15379204794002667769298530452756604474647348591674452342013272253614090326003 49794804 = 6380402783507495618983488580752823990477560697922645557747415656553881726119"
  by (rule modpow_sq [OF c254_604939_d_41, where q = 446366943642297016693913901638458202362512789802925549074048883998221438250]) (simp_all only: arith_simps rel_simps)

lemma c254_604939_d_43: "modpow 21888242871839275222246405745257275088548364400416034343698204186575808495617 15379204794002667769298530452756604474647348591674452342013272253614090326003 49794805 = 6388316224400855601384281159447153935304118304905223982875606562309607819862"
  by (rule modpow_mul [OF c254_604939_d_42, where q = 4483024135392414301555265991667575231337026940201322867488097456852827922735]) (simp_all only: arith_simps rel_simps)

lemma c254_604939_d_44: "modpow 21888242871839275222246405745257275088548364400416034343698204186575808495617 15379204794002667769298530452756604474647348591674452342013272253614090326003 99589610 = 2955512403943696847423123723236622717040173816240042112877337728667321167804"
  by (rule modpow_sq [OF c254_604939_d_43, where q = 1864497960018929466492065608373572176208043066031280184351666192531460711720]) (simp_all only: arith_simps rel_simps)

lemma c254_604939_d_45: "modpow 21888242871839275222246405745257275088548364400416034343698204186575808495617 15379204794002667769298530452756604474647348591674452342013272253614090326003 199179220 = 7967935913187470095536967780403543290109103153440294730489752757248660192770"
  by (rule modpow_sq [OF c254_604939_d_44, where q = 399075139151681062697218772251002267691472023159277032225191964206300058638]) (simp_all only: arith_simps rel_simps)

lemma c254_604939_d_46: "modpow 21888242871839275222246405745257275088548364400416034343698204186575808495617 15379204794002667769298530452756604474647348591674452342013272253614090326003 398358440 = 12196221520890133461645702619129631970130838313699473339026252132692578792441"
  by (rule modpow_sq [OF c254_604939_d_45, where q = 2900552734561635838026589182443406536687663185810063237187119950147632956427]) (simp_all only: arith_simps rel_simps)

lemma c254_604939_d_47: "modpow 21888242871839275222246405745257275088548364400416034343698204186575808495617 15379204794002667769298530452756604474647348591674452342013272253614090326003 796716880 = 4197924954734408752177012230274607482335254462785716886655379668044217510004"
  by (rule modpow_sq [OF c254_604939_d_46, where q = 6795786224484830880515753499348545343251551847320495651509704269429202075581]) (simp_all only: arith_simps rel_simps)

lemma c254_604939_d_48: "modpow 21888242871839275222246405745257275088548364400416034343698204186575808495617 15379204794002667769298530452756604474647348591674452342013272253614090326003 796716881 = 9930058692639698792104458941944738337269014746045694762676491911503547334578"
  by (rule modpow_mul [OF c254_604939_d_47, where q = 2949562829996585895150766467891417927342586572692099932275294169787545514602]) (simp_all only: arith_simps rel_simps)

lemma c254_604939_d_49: "modpow 21888242871839275222246405745257275088548364400416034343698204186575808495617 15379204794002667769298530452756604474647348591674452342013272253614090326003 1593433762 = 16423697976185910434909695964963517648106273998748023695748801850151500688726"
  by (rule modpow_sq [OF c254_604939_d_48, where q = 4504978595889609135072459097935757296537882889079558602238006442868694936174]) (simp_all only: arith_simps rel_simps)

lemma c254_604939_d_50: "modpow 21888242871839275222246405745257275088548364400416034343698204186575808495617 15379204794002667769298530452756604474647348591674452342013272253614090326003 1593433763 = 2424727628898210220023312369396108577648812531441836735654182370684160382025"
  by (rule modpow_mul [OF c254_604939_d_49, where q = 11539684392646069476709417904375943388393513449629232864741674505914621918809]) (simp_all only: arith_simps rel_simps)

lemma c254_604939_d_51: "modpow 21888242871839275222246405745257275088548364400416034343698204186575808495617 15379204794002667769298530452756604474647348591674452342013272253614090326003 3186867526 = 8718862624924841751011151243041743735171784265322752006999002190000087161548"
  by (rule modpow_sq [OF c254_604939_d_50, where q = 268605575548801331334441873090596178732966611669659091930374394138339877381]) (simp_all only: arith_simps rel_simps)

lemma c254_604939_d_52: "modpow 21888242871839275222246405745257275088548364400416034343698204186575808495617 15379204794002667769298530452756604474647348591674452342013272253614090326003 6373735052 = 4965512243072694828365954530443331358504003032608872494962835660450349398558"
  by (rule modpow_sq [OF c254_604939_d_51, where q = 3473031888279821532822853352509057144502152372305475768321802882749978957938]) (simp_all only: arith_simps rel_simps)

lemma c254_604939_d_53: "modpow 21888242871839275222246405745257275088548364400416034343698204186575808495617 15379204794002667769298530452756604474647348591674452342013272253614090326003 12747470104 = 17939722858574810184332546134471249372675410707322812590036872668855928212557"
  by (rule modpow_sq [OF c254_604939_d_52, where q = 1126463735827185123492148273146815713983537880652386030131576910136145334071]) (simp_all only: arith_simps rel_simps)

lemma c254_604939_d_54: "modpow 21888242871839275222246405745257275088548364400416034343698204186575808495617 15379204794002667769298530452756604474647348591674452342013272253614090326003 12747470105 = 412462898443065221604625693269937890929487784888994253613148463090268661182"
  by (rule modpow_mul [OF c254_604939_d_53, where q = 12604879861993651234866609052648115901613798329174948011865008565000034749017]) (simp_all only: arith_simps rel_simps)

lemma c254_604939_d_55: "modpow 21888242871839275222246405745257275088548364400416034343698204186575808495617 15379204794002667769298530452756604474647348591674452342013272253614090326003 25494940210 = 14736290602550872385281470040076889562264553339255775651568578987262543888811"
  by (rule modpow_sq [OF c254_604939_d_54, where q = 7772466871286988286069298197659891564567500807512768062207816039547795289]) (simp_all only: arith_simps rel_simps)

lemma c254_604939_d_56: "modpow 21888242871839275222246405745257275088548364400416034343698204186575808495617 15379204794002667769298530452756604474647348591674452342013272253614090326003 25494940211 = 1283961948877319834595797847421587932900082439994332288281233496288834814677"
  by (rule modpow_mul [OF c254_604939_d_55, where q = 10354071471499660453710462678734786581762678131829843656409549802134923417468]) (simp_all only: arith_simps rel_simps)

lemma c254_604939_d_57: "modpow 21888242871839275222246405745257275088548364400416034343698204186575808495617 15379204794002667769298530452756604474647348591674452342013272253614090326003 50989880422 = 12078367541413087775306092760031520872022019866566758034997832195517570367944"
  by (rule modpow_sq [OF c254_604939_d_56, where q = 75317068428815202318232046140340509505375644594619631217021496697007489905]) (simp_all only: arith_simps rel_simps)

lemma c254_604939_d_58: "modpow 21888242871839275222246405745257275088548364400416034343698204186575808495617 15379204794002667769298530452756604474647348591674452342013272253614090326003 50989880423 = 13719906702901597756437938005109189994004770796409351440798058688623634816152"
  by (rule modpow_mul [OF c254_604939_d_57, where q = 8486550934411176537280401901096065915931197700783677462610054915917302271040]) (simp_all only: arith_simps rel_simps)

lemma c254_604939_d_59: "modpow 21888242871839275222246405745257275088548364400416034343698204186575808495617 15379204794002667769298530452756604474647348591674452342013272253614090326003 101979760846 = 4905882647038381981447128759243168275532287172917613505487400556701244449600"
  by (rule modpow_sq [OF c254_604939_d_58, where q = 8599860712369127704397775466054916406485339430222941970044815872984694765312]) (simp_all only: arith_simps rel_simps)

lemma c254_604939_d_60: "modpow 21888242871839275222246405745257275088548364400416034343698204186575808495617 15379204794002667769298530452756604474647348591674452342013272253614090326003 203959521692 = 2061253006374471442225825952950981896845046752213511838679543049328940285"
  by (rule modpow_sq [OF c254_604939_d_59, where q = 1099571340076687813249946584777459614825109400372590027648011422760075803395]) (simp_all only: arith_simps rel_simps)

lemma c254_604939_d_61: "modpow 21888242871839275222246405745257275088548364400416034343698204186575808495617 15379204794002667769298530452756604474647348591674452342013272253614090326003 407919043384 = 13238021060017281061049341521316163530322714476552492959801227200555855190750"
  by (rule modpow_sq [OF c254_604939_d_60, where q = 194111696455731623303175837882917482859686674788712764043246328997675]) (simp_all only: arith_simps rel_simps)

lemma c254_604939_d_62: "modpow 21888242871839275222246405745257275088548364400416034343698204186575808495617 15379204794002667769298530452756604474647348591674452342013272253614090326003 815838086768 = 9785666113525694735758959448281563741406504491097483394050678222292256593194"
  by (rule modpow_sq [OF c254_604939_d_61, where q = 8006362256283533004397343222258210517716560106651242556621808860799398134618]) (simp_all only: arith_simps rel_simps)

lemma c254_604939_d_63: "modpow 21888242871839275222246405745257275088548364400416034343698204186575808495617 15379204794002667769298530452756604474647348591674452342013272253614090326003 815838086769 = 7085062979747496777101588552843721304041561828287163753410974161109510541366"
  by (rule modpow_mul [OF c254_604939_d_62, where q = 6875643882737930218858090517606648869469587506550330372356339561145896647848]) (simp_all only: arith_simps rel_simps)

lemma c254_604939_d_64: "modpow 21888242871839275222246405745257275088548364400416034343698204186575808495617 15379204794002667769298530452756604474647348591674452342013272253614090326003 1631676173538 = 14421338456327837662802993892706818149380194241167897696262660036053225399650"
  by (rule modpow_sq [OF c254_604939_d_63, where q = 2293382695034501687260456980064488197067679855361222306764520772598301615618]) (simp_all only: arith_simps rel_simps)

lemma c254_604939_d_65: "modpow 21888242871839275222246405745257275088548364400416034343698204186575808495617 15379204794002667769298530452756604474647348591674452342013272253614090326003 1631676173539 = 16584775796084674375929929084844307336564903933054929741905867898669397005861"
  by (rule modpow_mul [OF c254_604939_d_64, where q = 10132778534216581677253485921475658611471923312856579564849974424168031822817]) (simp_all only: arith_simps rel_simps)

lemma c254_604939_d_66: "modpow 21888242871839275222246405745257275088548364400416034343698204186575808495617 15379204794002667769298530452756604474647348591674452342013272253614090326003 3263352347078 = 13604022216601719581289703883639411388829390763821255746164237260909696105996"
  by (rule modpow_sq [OF c254_604939_d_65, where q = 12566325667021580945337140454227320278050587313808525368253550996156778619725]) (simp_all only: arith_simps rel_simps)

lemma c254_604939_d_67: "modpow 21888242871839275222246405745257275088548364400416034343698204186575808495617 15379204794002667769298530452756604474647348591674452342013272253614090326003 3263352347079 = 18145668383780846474944130862023383347068386591956559321781922065715157803291"
  by (rule modpow_mul [OF c254_604939_d_66, where q = 9558512527310020172167756658154952865401629969640665206136660150361538951241]) (simp_all only: arith_simps rel_simps)

lemma c254_604939_d_68: "modpow 21888242871839275222246405745257275088548364400416034343698204186575808495617 15379204794002667769298530452756604474647348591674452342013272253614090326003 6526704694158 = 9131265340931556458562057635742570076237163207900597002893029626728645091008"
  by (rule modpow_sq [OF c254_604939_d_67, where q = 15043020265357442218134920589986088238946877209168153804771619733346662521369]) (simp_all only: arith_simps rel_simps)

lemma c254_604939_d_69: "modpow 21888242871839275222246405745257275088548364400416034343698204186575808495617 15379204794002667769298530452756604474647348591674452342013272253614090326003 13053409388316 = 15490710741711946031241262192543330614164818854507760377938704507067652473155"
  by (rule modpow_sq [OF c254_604939_d_68, where q = 3809351313155063164848353463100549123982577668592597829472755858446009241277]) (simp_all only: arith_simps rel_simps)

lemma c254_604939_d_70: "modpow 21888242871839275222246405745257275088548364400416034343698204186575808495617 15379204794002667769298530452756604474647348591674452342013272253614090326003 13053409388317 = 16306261791877365048750374745454429390598553919374379949511598173302159653727"
  by (rule modpow_mul [OF c254_604939_d_69, where q = 10884145168543903464528229485364800520768569040952440092556095006785256416314]) (simp_all only: arith_simps rel_simps)

lemma c254_604939_d_71: "modpow 21888242871839275222246405745257275088548364400416034343698204186575808495617 15379204794002667769298530452756604474647348591674452342013272253614090326003 26106818776634 = 20363683192876218771463646159058720771298837090394022683587821155698775362351"
  by (rule modpow_sq [OF c254_604939_d_70, where q = 12147808080443528705107039532104086826188920402429025186953212972585453871634]) (simp_all only: arith_simps rel_simps)

lemma c254_604939_d_72: "modpow 21888242871839275222246405745257275088548364400416034343698204186575808495617 15379204794002667769298530452756604474647348591674452342013272253614090326003 52213637553268 = 18799405554112636837604305745936007553214081795693244624304568111525041506665"
  by (rule modpow_sq [OF c254_604939_d_71, where q = 18945312129798372829579426703252127838377966719463943836111840678584336746808]) (simp_all only: arith_simps rel_simps)

lemma c254_604939_d_73: "modpow 21888242871839275222246405745257275088548364400416034343698204186575808495617 15379204794002667769298530452756604474647348591674452342013272253614090326003 52213637553269 = 12197654279910196199066449517068888282611058134752828332958638334186260084943"
  by (rule modpow_mul [OF c254_604939_d_72, where q = 13208913557615080315787677667616148981316594200539568790616533203351391886556]) (simp_all only: arith_simps rel_simps)

lemma c254_604939_d_74: "modpow 21888242871839275222246405745257275088548364400416034343698204186575808495617 15379204794002667769298530452756604474647348591674452342013272253614090326003 104427275106538 = 3755550425337257546073256332940788017669981070895414746169569634940564364942"
  by (rule modpow_sq [OF c254_604939_d_73, where q = 6797382997044077885078360276626995480989623271175848669925032464423164303571]) (simp_all only: arith_simps rel_simps)

lemma c254_604939_d_75: "modpow 21888242871839275222246405745257275088548364400416034343698204186575808495617 15379204794002667769298530452756604474647348591674452342013272253614090326003 104427275106539 = 536273062225463174020747041170579101968810656245233552079387940789386982850"
  by (rule modpow_mul [OF c254_604939_d_74, where q = 2638739867957803796263238213150259647480224762588904819857285535967451045128]) (simp_all only: arith_simps rel_simps)

lemma c254_604939_d_76: "modpow 21888242871839275222246405745257275088548364400416034343698204186575808495617 15379204794002667769298530452756604474647348591674452342013272253614090326003 208854550213078 = 8961255157403180602468744555589811942791582104418643046409585852780991602655"
  by (rule modpow_sq [OF c254_604939_d_75, where q = 13138962270867260789887555575143803498517717035720998797639114150238357285]) (simp_all only: arith_simps rel_simps)

lemma c254_604939_d_77: "modpow 21888242871839275222246405745257275088548364400416034343698204186575808495617 15379204794002667769298530452756604474647348591674452342013272253614090326003 417709100426156 = 12332276995294478507779160577713791422827831940017188227364077011405350788654"
  by (rule modpow_sq [OF c254_604939_d_76, where q = 3668823233837642787747167175181087093717960684014173377691280550673642284563]) (simp_all only: arith_simps rel_simps)

lemma c254_604939_d_78: "modpow 21888242871839275222246405745257275088548364400416034343698204186575808495617 15379204794002667769298530452756604474647348591674452342013272253614090326003 417709100426157 = 17762540238320408498092545748224242674064399574780357781353611157874558983846"
  by (rule modpow_mul [OF c254_604939_d_77, where q = 8664953810934409836076303806132780824714661895750380469516674883675063564548]) (simp_all only: arith_simps rel_simps)

lemma c254_604939_d_79: "modpow 21888242871839275222246405745257275088548364400416034343698204186575808495617 15379204794002667769298530452756604474647348591674452342013272253614090326003 835418200852314 = 19384841766302110249878603245450463629997196100431823615736497314657958578220"
  by (rule modpow_sq [OF c254_604939_d_78, where q = 14414488982296248702834013372959711046249972403456451500347438984697184717688]) (simp_all only: arith_simps rel_simps)

lemma c254_604939_d_80: "modpow 21888242871839275222246405745257275088548364400416034343698204186575808495617 15379204794002667769298530452756604474647348591674452342013272253614090326003 1670836401704628 = 19483462788750445449574145799117892028976548332331686330403748193056576201700"
  by (rule modpow_sq [OF c254_604939_d_79, where q = 17167759536697542263625565119223403536927953528804086138745597665656777565100]) (simp_all only: arith_simps rel_simps)

lemma c254_604939_d_81: "modpow 21888242871839275222246405745257275088548364400416034343698204186575808495617 15379204794002667769298530452756604474647348591674452342013272253614090326003 1670836401704629 = 1"
  by (rule modpow_mul [OF c254_604939_d_80, where q = 13689548589120922422763427720072467204490252643561387732173879022534395178347]) (simp_all only: arith_simps rel_simps)

lemma prime_254_bits_604939: "is_prime 21888242871839275222246405745257275088548364400416034343698204186575808495617"
  by (rule pocklington2 [where ?d1.0 = 18810536960267738281623319138564098156538132287104634306360290224932305588167 and ?u1.0 = 18830771696733986827343121108258373716716634563029220880262390084180817631389 and ?v1.0 = 16182976818459130185777021246784971380378737693564323278560854903669132907786 and ?d2.0 = 15379204794002667769298530452756604474647348591674452342013272253614090326002 and ?u2.0 = 86052601511993865195709936845511121156384965108811623497653747272590813794 and ?v2.0 = 60462623220081706990128436344546960468165908192540319468010835125287669411,
      OF prime_94_bits_801186 prime_51_bits_210462 _ _ _ c254_604939_a_109 c254_604939_b_81 c254_604939_c_142 c254_604939_d_81])
    (simp_all only: arith_simps rel_simps)

subsection \<open>The constant\<close>

lemma unat_BN254_FIELD_MODULUS:
  "unat BN254_FIELD_MODULUS
     = 21888242871839275222246405745257275088548364400416034343698204186575808495617"
  by (simp add: BN254_FIELD_MODULUS_def)

lemma modulus_between_powers_of_two:
  "(2::nat) ^ 253
     < 21888242871839275222246405745257275088548364400416034343698204186575808495617
   \<and> (21888242871839275222246405745257275088548364400416034343698204186575808495617::nat)
     < 2 ^ 254"
  by simp

text \<open>
  C9. The constant \<open>BN254_FIELD_MODULUS\<close> is the number
  21888242871839275222246405745257275088548364400416034343698204186575808495617; it is
  prime, and it lies strictly between \<open>2\<^sup>2\<^sup>5\<^sup>3\<close> and \<open>2\<^sup>2\<^sup>5\<^sup>4\<close>, so it has 254 bits.
\<close>

theorem BN254_FIELD_MODULUS_prime_254_bits:
  "unat BN254_FIELD_MODULUS
     = 21888242871839275222246405745257275088548364400416034343698204186575808495617
   \<and> is_prime (unat BN254_FIELD_MODULUS)
   \<and> 2 ^ 253 < unat BN254_FIELD_MODULUS \<and> unat BN254_FIELD_MODULUS < 2 ^ 254"
  using prime_254_bits_604939 modulus_between_powers_of_two
  by (simp only: unat_BN254_FIELD_MODULUS simp_thms)

theorem BN254_FIELD_MODULUS_prime_254_bits_witness:
  "unat BN254_FIELD_MODULUS dvd unat BN254_FIELD_MODULUS
   \<and> \<not> 2 dvd unat BN254_FIELD_MODULUS \<and> \<not> 3 dvd unat BN254_FIELD_MODULUS"
proof -
  have p: "is_prime (unat BN254_FIELD_MODULUS)"
    by (rule BN254_FIELD_MODULUS_prime_254_bits [THEN conjunct2, THEN conjunct1])
  then have d: "d = 1 \<or> d = unat BN254_FIELD_MODULUS"
    if "d dvd unat BN254_FIELD_MODULUS" for d
    unfolding is_prime_def using that by blast
  have "\<not> 2 dvd unat BN254_FIELD_MODULUS"
    using d [of 2] by (auto simp add: unat_BN254_FIELD_MODULUS)
  moreover have "\<not> 3 dvd unat BN254_FIELD_MODULUS"
    using d [of 3] by (auto simp add: unat_BN254_FIELD_MODULUS)
  ultimately show ?thesis by simp
qed

end
